theory Spec2Isabelle
  imports Main "HOL-Library.Word"
begin

unbundle bit_operations_syntax

section \<open>NXH: the two 64-bit hash families (nxh.h, nxh.c)\<close>

text \<open>
  All arithmetic of the hash is on \<open>uint64_t\<close>, modelled as \<open>64 word\<close>: addition and
  multiplication wrap around, shifts are logical.
\<close>

type_synonym u8 = "8 word"
type_synonym u32 = "32 word"
type_synonym u64 = "64 word"

definition NXH_PRIME_NEXUS :: u64 where "NXH_PRIME_NEXUS = 0x9E3779B185EBCA87"
definition NXH_PRIME_VOID :: u64 where "NXH_PRIME_VOID = 0xC2B2AE3D27D4EB4F"
definition NXH_PRIME_ECHO :: u64 where "NXH_PRIME_ECHO = 0x165667B19E3779F9"
definition NXH_PRIME_PULSE :: u64 where "NXH_PRIME_PULSE = 0x85EBCA77C2B2AE63"
definition NXH_PRIME_DRIFT :: u64 where "NXH_PRIME_DRIFT = 0x27D4EB2F165667C5"
definition NXH_PRIME_ALT_1 :: u64 where "NXH_PRIME_ALT_1 = 0x517CC1B727220A95"
definition NXH_PRIME_ALT_2 :: u64 where "NXH_PRIME_ALT_2 = 0x71D67FFFEDA60000"
definition NXH_SEED_DEFAULT :: u64 where "NXH_SEED_DEFAULT = 0"
definition NXH_SEED_ALT :: u64 where "NXH_SEED_ALT = 0xDEADBEEFCAFEBABE"

text \<open>\<open>(x << r) | (x >> (64 - r))\<close>; every call site passes a constant \<open>0 < r < 64\<close>.\<close>

definition nxh_rotl64 :: "u64 \<Rightarrow> nat \<Rightarrow> u64" where
  "nxh_rotl64 x r = (push_bit r x) OR (drop_bit (64 - r) x)"

text \<open>Little-endian reads of the first 8 (4) bytes at the cursor.\<close>

definition nxh_read64 :: "u8 list \<Rightarrow> u64" where
  "nxh_read64 p =
     ucast (p ! 0) OR push_bit 8 (ucast (p ! 1)) OR
     push_bit 16 (ucast (p ! 2)) OR push_bit 24 (ucast (p ! 3)) OR
     push_bit 32 (ucast (p ! 4)) OR push_bit 40 (ucast (p ! 5)) OR
     push_bit 48 (ucast (p ! 6)) OR push_bit 56 (ucast (p ! 7))"

definition nxh_read32 :: "u8 list \<Rightarrow> u32" where
  "nxh_read32 p =
     ucast (p ! 0) OR push_bit 8 (ucast (p ! 1)) OR
     push_bit 16 (ucast (p ! 2)) OR push_bit 24 (ucast (p ! 3))"

definition nxh_mix :: "u64 \<Rightarrow> u64 \<Rightarrow> u64" where
  "nxh_mix acc input = nxh_rotl64 (acc + input * NXH_PRIME_VOID) 31 * NXH_PRIME_NEXUS"

definition nxh_merge :: "u64 \<Rightarrow> u64 \<Rightarrow> u64" where
  "nxh_merge h v =
     (h XOR (nxh_rotl64 (v * NXH_PRIME_VOID) 31 * NXH_PRIME_NEXUS)) * NXH_PRIME_NEXUS
       + NXH_PRIME_PULSE"

definition nxh_avalanche :: "u64 \<Rightarrow> u64" where
  "nxh_avalanche h0 =
     (let h1 = h0 XOR drop_bit 33 h0;
          h2 = h1 * NXH_PRIME_VOID;
          h3 = h2 XOR drop_bit 29 h2;
          h4 = h3 * NXH_PRIME_ECHO
      in h4 XOR drop_bit 32 h4)"

definition nxh_mix_alt :: "u64 \<Rightarrow> u64 \<Rightarrow> u64" where
  "nxh_mix_alt acc input = nxh_rotl64 (acc + input * NXH_PRIME_ALT_2) 27 * NXH_PRIME_ALT_1"

definition nxh_avalanche_alt :: "u64 \<Rightarrow> u64" where
  "nxh_avalanche_alt h0 =
     (let h1 = h0 XOR drop_bit 31 h0;
          h2 = h1 * NXH_PRIME_ALT_1;
          h3 = h2 XOR drop_bit 27 h2;
          h4 = h3 * NXH_PRIME_ALT_2
      in h4 XOR drop_bit 33 h4)"

subsection \<open>nxh64\<close>

text \<open>
  The \<open>do ... while (p <= limit)\<close> loop over 32-byte blocks. The cursor \<open>p\<close> is the list of
  bytes from the cursor to \<open>end\<close>; \<open>p <= limit\<close> with \<open>limit = end - 32\<close> is
  \<open>32 \<le> length p\<close>. The body runs once before the test, as in the source.
\<close>

function nxh64_blocks :: "u8 list \<Rightarrow> u64 \<times> u64 \<times> u64 \<times> u64 \<Rightarrow> u8 list \<times> u64 \<times> u64 \<times> u64 \<times> u64" where
  "nxh64_blocks p (v1, v2, v3, v4) =
     (let v1' = nxh_mix v1 (nxh_read64 p);
          v2' = nxh_mix v2 (nxh_read64 (drop 8 p));
          v3' = nxh_mix v3 (nxh_read64 (drop 16 p));
          v4' = nxh_mix v4 (nxh_read64 (drop 24 p));
          p' = drop 32 p
      in if 32 \<le> length p' then nxh64_blocks p' (v1', v2', v3', v4')
         else (p', v1', v2', v3', v4'))"
  by pat_completeness auto
termination
  by (relation "measure (\<lambda>(p, _). length p)") auto

text \<open>\<open>while (p + 8 <= end)\<close>: the remaining 8-byte words.\<close>

function nxh64_words :: "u8 list \<Rightarrow> u64 \<Rightarrow> u8 list \<times> u64" where
  "nxh64_words p h64 =
     (if 8 \<le> length p then
        (let k1 = nxh_rotl64 (nxh_read64 p * NXH_PRIME_VOID) 31 * NXH_PRIME_NEXUS;
             h = h64 XOR k1
         in nxh64_words (drop 8 p) (nxh_rotl64 h 27 * NXH_PRIME_NEXUS + NXH_PRIME_PULSE))
      else (p, h64))"
  by pat_completeness auto
termination
  by (relation "measure (\<lambda>(p, _). length p)") auto

text \<open>\<open>while (p < end)\<close>: the trailing bytes, one at a time.\<close>

fun nxh64_tail :: "u8 list \<Rightarrow> u64 \<Rightarrow> u64" where
  "nxh64_tail [] h64 = h64"
| "nxh64_tail (b # p) h64 =
     nxh64_tail p (nxh_rotl64 (h64 XOR (ucast b * NXH_PRIME_DRIFT)) 11 * NXH_PRIME_NEXUS)"

text \<open>
  The body of \<open>nxh64\<close> from \<open>if (len >= 32)\<close> on, over the \<open>len\<close> bytes at \<open>data\<close>
  (\<open>len = length bs\<close>).
\<close>

definition nxh64_bytes :: "u8 list \<Rightarrow> u64 \<Rightarrow> u64" where
  "nxh64_bytes bs seed =
     (let (p0, h0) =
            (if 32 \<le> length bs then
               (let (p, v1, v2, v3, v4) =
                      nxh64_blocks bs
                        (seed + NXH_PRIME_NEXUS + NXH_PRIME_VOID, seed + NXH_PRIME_VOID,
                         seed, seed - NXH_PRIME_NEXUS);
                    h = nxh_rotl64 v1 1 + nxh_rotl64 v2 7 + nxh_rotl64 v3 12 + nxh_rotl64 v4 18
                in (p, nxh_merge (nxh_merge (nxh_merge (nxh_merge h v1) v2) v3) v4))
             else (bs, seed + NXH_PRIME_DRIFT));
          h1 = h0 + of_nat (length bs);
          (p1, h2) = nxh64_words p0 h1;
          (p2, h3) =
            (if 4 \<le> length p1 then
               (drop 4 p1,
                nxh_rotl64 (h2 XOR (ucast (nxh_read32 p1) * NXH_PRIME_NEXUS)) 23 * NXH_PRIME_VOID
                  + NXH_PRIME_ECHO)
             else (p1, h2))
      in nxh_avalanche (nxh64_tail p2 h3))"

text \<open>
  The public entry points. \<open>data\<close> is \<open>None\<close> for a NULL pointer and \<open>Some bs\<close> for a
  pointer to the bytes \<open>bs\<close>; \<open>len\<close> is the length argument. Both builds of \<open>nxh64\<close>
  start with \<open>p = data; end = p + len\<close>. Pointer arithmetic is defined in C inside the
  object a pointer designates and one past its end: \<open>nxh_end_defined\<close> says whether
  \<open>p + len\<close> is, which it is not for NULL and \<open>len \<noteq> 0\<close>, nor for a length beyond the
  bytes at \<open>data\<close> (\<open>NULL + 0\<close> is taken as NULL: the header gives NULL for \<open>len == 0\<close>
  as a legal argument). A call with an undefined step is \<open>None\<close>.
\<close>

definition nxh_end_defined :: "u8 list option \<Rightarrow> nat \<Rightarrow> bool" where
  "nxh_end_defined data len = (case data of None \<Rightarrow> len = 0 | Some bs \<Rightarrow> len \<le> length bs)"

text \<open>
  \<open>nxh64\<close> of nxh.c (the library build): the test \<open>data == NULL && len != 0\<close> comes after
  \<open>end = p + len\<close>.
\<close>

definition nxh64 :: "u8 list option \<Rightarrow> nat \<Rightarrow> u64 \<Rightarrow> u64 option" where
  "nxh64 data len seed =
     (if \<not> nxh_end_defined data len then None
      else if data = None \<and> len \<noteq> 0 then Some (nxh_avalanche (seed XOR NXH_PRIME_NEXUS))
      else case data of
             None \<Rightarrow> Some (nxh64_bytes [] seed)
           | Some bs \<Rightarrow> Some (nxh64_bytes (take len bs) seed))"

text \<open>
  \<open>nxh64\<close> of nxh.h under \<open>NXH_IMPLEMENTATION\<close> (the header-only build): the same body
  without the NULL test.
\<close>

definition nxh64_header_only :: "u8 list option \<Rightarrow> nat \<Rightarrow> u64 \<Rightarrow> u64 option" where
  "nxh64_header_only data len seed =
     (if \<not> nxh_end_defined data len then None
      else case data of
             None \<Rightarrow> Some (nxh64_bytes [] seed)
           | Some bs \<Rightarrow> Some (nxh64_bytes (take len bs) seed))"

subsection \<open>nxh64_alt\<close>

function nxh64_alt_blocks :: "u8 list \<Rightarrow> u64 \<times> u64 \<times> u64 \<times> u64 \<Rightarrow> u8 list \<times> u64 \<times> u64 \<times> u64 \<times> u64" where
  "nxh64_alt_blocks p (v1, v2, v3, v4) =
     (let v1' = nxh_mix_alt v1 (nxh_read64 p);
          v2' = nxh_mix_alt v2 (nxh_read64 (drop 8 p));
          v3' = nxh_mix_alt v3 (nxh_read64 (drop 16 p));
          v4' = nxh_mix_alt v4 (nxh_read64 (drop 24 p));
          p' = drop 32 p
      in if 32 \<le> length p' then nxh64_alt_blocks p' (v1', v2', v3', v4')
         else (p', v1', v2', v3', v4'))"
  by pat_completeness auto
termination
  by (relation "measure (\<lambda>(p, _). length p)") auto

function nxh64_alt_words :: "u8 list \<Rightarrow> u64 \<Rightarrow> u8 list \<times> u64" where
  "nxh64_alt_words p h64 =
     (if 8 \<le> length p then
        (let k1 = nxh_rotl64 (nxh_read64 p * NXH_PRIME_ALT_2) 29 * NXH_PRIME_ALT_1;
             h = h64 XOR k1
         in nxh64_alt_words (drop 8 p) (nxh_rotl64 h 25 * NXH_PRIME_ALT_1 + NXH_PRIME_ALT_2))
      else (p, h64))"
  by pat_completeness auto
termination
  by (relation "measure (\<lambda>(p, _). length p)") auto

fun nxh64_alt_tail :: "u8 list \<Rightarrow> u64 \<Rightarrow> u64" where
  "nxh64_alt_tail [] h64 = h64"
| "nxh64_alt_tail (b # p) h64 =
     nxh64_alt_tail p (nxh_rotl64 (h64 XOR (ucast b * NXH_PRIME_ALT_2)) 13 * NXH_PRIME_ALT_1)"

definition nxh64_alt_bytes :: "u8 list \<Rightarrow> u64 \<Rightarrow> u64" where
  "nxh64_alt_bytes bs seed =
     (let (p0, h0) =
            (if 32 \<le> length bs then
               (let (p, v1, v2, v3, v4) =
                      nxh64_alt_blocks bs
                        (seed + NXH_PRIME_ALT_1 + NXH_PRIME_ALT_2, seed + NXH_PRIME_ALT_2,
                         seed, seed - NXH_PRIME_ALT_1);
                    h = nxh_rotl64 v1 3 + nxh_rotl64 v2 11 + nxh_rotl64 v3 17 + nxh_rotl64 v4 23
                in (p, h XOR (v1 * NXH_PRIME_ALT_1) XOR (v2 * NXH_PRIME_ALT_2)
                         XOR (v3 * NXH_PRIME_ALT_1) XOR (v4 * NXH_PRIME_ALT_2)))
             else (bs, seed + NXH_PRIME_ALT_1));
          h1 = h0 + of_nat (length bs);
          (p1, h2) = nxh64_alt_words p0 h1;
          (p2, h3) =
            (if 4 \<le> length p1 then
               (drop 4 p1,
                nxh_rotl64 (h2 XOR (ucast (nxh_read32 p1) * NXH_PRIME_ALT_1)) 21 * NXH_PRIME_ALT_2)
             else (p1, h2))
      in nxh_avalanche_alt (nxh64_alt_tail p2 h3))"

text \<open>\<open>nxh64_alt\<close> of nxh.c, then of the header-only build of nxh.h.\<close>

definition nxh64_alt :: "u8 list option \<Rightarrow> nat \<Rightarrow> u64 \<Rightarrow> u64 option" where
  "nxh64_alt data len seed =
     (if \<not> nxh_end_defined data len then None
      else if data = None \<and> len \<noteq> 0 then Some (nxh_avalanche_alt (seed XOR NXH_PRIME_ALT_1))
      else case data of
             None \<Rightarrow> Some (nxh64_alt_bytes [] seed)
           | Some bs \<Rightarrow> Some (nxh64_alt_bytes (take len bs) seed))"

definition nxh64_alt_header_only :: "u8 list option \<Rightarrow> nat \<Rightarrow> u64 \<Rightarrow> u64 option" where
  "nxh64_alt_header_only data len seed =
     (if \<not> nxh_end_defined data len then None
      else case data of
             None \<Rightarrow> Some (nxh64_alt_bytes [] seed)
           | Some bs \<Rightarrow> Some (nxh64_alt_bytes (take len bs) seed))"

section \<open>DAGGER: Robin Hood hash table with cuckoo fallback (dagger.h, dagger.c)\<close>

text \<open>
  Sizes and counters (\<open>size_t\<close>) are natural numbers; no table of this development comes
  near \<open>2^64\<close> slots. A key is the pair of a pointer and a length in the source; in the
  model the pointer designates exactly the \<open>key_len\<close> bytes of the key, so a key argument
  is \<open>None\<close> (NULL) or \<open>Some bs\<close> with \<open>key_len = length bs\<close>. The table stores the key
  pointer, not a copy: the model stores the bytes, that is, the caller keeps the key storage
  unchanged, as the header requires. Values (\<open>void *\<close>) are \<open>'v option\<close>, \<open>None\<close> for
  NULL. The table pointer itself is never NULL in the model. The destructors only release
  memory and are not modelled; the equality predicate is the default
  \<open>dagger_key_eq_default\<close>.
\<close>

definition DAGGER_PSL_THRESHOLD :: nat where "DAGGER_PSL_THRESHOLD = 16"
definition DAGGER_MAX_CUCKOO_CYCLES :: nat where "DAGGER_MAX_CUCKOO_CYCLES = 500"
definition DAGGER_INITIAL_CAPACITY :: nat where "DAGGER_INITIAL_CAPACITY = 64"
definition DAGGER_LOAD_FACTOR_PERCENT :: nat where "DAGGER_LOAD_FACTOR_PERCENT = 75"
definition DAGGER_MIN_CAPACITY :: nat where "DAGGER_MIN_CAPACITY = 16"
definition DAGGER_GROWTH_FACTOR :: nat where "DAGGER_GROWTH_FACTOR = 2"

datatype dagger_result_t =
    DAGGER_OK | DAGGER_NOT_FOUND | DAGGER_EXISTS
  | DAGGER_ERROR_NULLPTR | DAGGER_ERROR_NOMEM | DAGGER_ERROR_FULL | DAGGER_ERROR_INVALID

record 'v DaggerEntry =
  hash_primary :: u64
  hash_alternate :: u64
  key :: "u8 list"
  val :: "'v option"
  key_len :: nat
  psl :: u8
  occupied :: bool
  in_cuckoo :: bool

text \<open>A slot after \<open>calloc\<close> or \<open>memset(slot, 0, sizeof(DaggerEntry))\<close>.\<close>

definition dagger_entry_zero :: "'v DaggerEntry" where
  "dagger_entry_zero =
     \<lparr>hash_primary = 0, hash_alternate = 0, key = [], val = None, key_len = 0, psl = 0,
      occupied = False, in_cuckoo = False\<rparr>"

text \<open>The field \<open>mask\<close> of the source is \<open>mask_t\<close> here (\<open>mask\<close> is a constant of HOL).\<close>

record 'v DaggerTable =
  entries :: "'v DaggerEntry list"
  capacity :: nat
  count :: nat
  mask_t :: nat
  seed_primary :: u64
  seed_alternate :: u64
  max_psl :: nat
  cuckoo_count :: nat
  resize_count :: nat
  total_probes :: nat
  total_lookups :: nat

text \<open>
  \<open>dagger_next_pow2\<close> on \<open>size_t\<close>: the final \<open>n + 1\<close> wraps to 0 for an argument above
  \<open>2^63\<close>.
\<close>

definition dagger_next_pow2 :: "nat \<Rightarrow> nat" where
  "dagger_next_pow2 n =
     (if n = 0 then 1
      else (let n0 = n - 1;
                n1 = n0 OR drop_bit 1 n0;
                n2 = n1 OR drop_bit 2 n1;
                n3 = n2 OR drop_bit 4 n2;
                n4 = n3 OR drop_bit 8 n3;
                n5 = n4 OR drop_bit 16 n4;
                n6 = n5 OR drop_bit 32 n5
            in (n6 + 1) mod 2 ^ 64))"

text \<open>\<open>memcmp\<close> over \<open>k1_len\<close> bytes after the length test.\<close>

definition dagger_key_eq_default :: "u8 list \<Rightarrow> nat \<Rightarrow> u8 list \<Rightarrow> nat \<Rightarrow> bool" where
  "dagger_key_eq_default k1 k1_len k2 k2_len =
     (if k1_len \<noteq> k2_len then False else take k1_len k1 = take k1_len k2)"

definition dagger_slot :: "'v DaggerTable \<Rightarrow> u64 \<Rightarrow> nat" where
  "dagger_slot T hash = unat (hash AND of_nat (mask_t T))"

definition dagger_create :: "nat \<Rightarrow> 'v DaggerTable" where
  "dagger_create initial_capacity =
     (let c0 = (if initial_capacity < DAGGER_MIN_CAPACITY then DAGGER_INITIAL_CAPACITY
                else initial_capacity);
          c = dagger_next_pow2 c0
      in \<lparr>entries = replicate c dagger_entry_zero, capacity = c, count = 0,
          mask_t = (if c = 0 then 2 ^ 64 - 1 else c - 1),
          seed_primary = NXH_SEED_DEFAULT, seed_alternate = NXH_SEED_ALT,
          max_psl = 0, cuckoo_count = 0, resize_count = 0, total_probes = 0,
          total_lookups = 0\<rparr>)"

subsection \<open>dagger_insert_internal\<close>

text \<open>
  One iteration of the \<open>while (1)\<close> loop. The loop state is the table, the candidate
  \<open>entry\<close>, \<open>idx\<close>, \<open>cuckoo_cycles\<close> and \<open>in_cuckoo_phase\<close>; \<open>k\<close>, \<open>klen\<close>, \<open>v\<close>, \<open>h1\<close>
  and \<open>allow_replace\<close> are the function's parameters, which the key-exists test keeps
  using after a swap has replaced the candidate. The result is \<open>Inl\<close> for a \<open>return\<close> and
  \<open>Inr\<close> for the state of the next iteration. \<open>psl\<close> is a \<open>uint8_t\<close>: \<open>entry.psl++\<close> wraps
  at 256.
\<close>

definition dagger_insert_step ::
  "u8 list \<Rightarrow> nat \<Rightarrow> 'v option \<Rightarrow> u64 \<Rightarrow> bool \<Rightarrow>
   'v DaggerTable \<Rightarrow> 'v DaggerEntry \<Rightarrow> nat \<Rightarrow> nat \<Rightarrow> bool \<Rightarrow>
   (dagger_result_t \<times> 'v DaggerTable) + ('v DaggerTable \<times> 'v DaggerEntry \<times> nat \<times> nat \<times> bool)" where
  "dagger_insert_step k klen v h1 allow_replace T entry idx cuckoo_cycles in_cuckoo_phase =
     (let slot = entries T ! idx in
      if \<not> occupied slot then
        Inl (DAGGER_OK,
             T\<lparr>entries := list_update (entries T) idx (entry\<lparr>in_cuckoo := in_cuckoo_phase\<rparr>),
               count := count T + 1,
               cuckoo_count := (if in_cuckoo_phase then cuckoo_count T + 1 else cuckoo_count T),
               max_psl := (if max_psl T < unat (psl entry) then unat (psl entry) else max_psl T)\<rparr>)
      else if hash_primary slot = h1 \<and> key_len slot = klen \<and>
              dagger_key_eq_default (key slot) (key_len slot) k klen then
        (if allow_replace then
           Inl (DAGGER_OK,
                T\<lparr>entries := list_update (entries T) idx (slot\<lparr>key := k, key_len := klen, val := v\<rparr>)\<rparr>)
         else Inl (DAGGER_EXISTS, T))
      else
        (let swap = psl slot < psl entry;
             T1 = (if swap
                   then T\<lparr>entries := list_update (entries T) idx (entry\<lparr>in_cuckoo := in_cuckoo_phase\<rparr>)\<rparr>
                   else T);
             e1 = (if swap then slot else entry);
             e2 = e1\<lparr>psl := psl e1 + 1\<rparr>;
             idx1 = (idx + 1) AND mask_t T;
             switch = (\<not> in_cuckoo_phase \<and> DAGGER_PSL_THRESHOLD < unat (psl e2));
             phase = (in_cuckoo_phase \<or> switch);
             e3 = (if switch then e2\<lparr>psl := 0\<rparr> else e2);
             idx2 = (if switch then dagger_slot T (hash_alternate e3) else idx1);
             cycles1 = (if switch then 0 else cuckoo_cycles);
             cycles2 = (if phase then cycles1 + 1 else cycles1)
         in if phase \<and> DAGGER_MAX_CUCKOO_CYCLES < cycles2 then Inl (DAGGER_ERROR_FULL, T1)
            else Inr (T1, e3, idx2, cycles2, phase)))"

text \<open>
  The loop itself has no bound in the source (\<open>while (1)\<close>): it is a partial function, and
  \<open>None\<close> is the value of a run that never returns.
\<close>

partial_function (option) dagger_insert_loop ::
  "u8 list \<Rightarrow> nat \<Rightarrow> 'v option \<Rightarrow> u64 \<Rightarrow> bool \<Rightarrow>
   'v DaggerTable \<times> 'v DaggerEntry \<times> nat \<times> nat \<times> bool \<Rightarrow>
   (dagger_result_t \<times> 'v DaggerTable) option" where
  "dagger_insert_loop k klen v h1 allow_replace st =
     (case dagger_insert_step k klen v h1 allow_replace
             (fst st) (fst (snd st)) (fst (snd (snd st))) (fst (snd (snd (snd st))))
             (snd (snd (snd (snd st)))) of
        Inl r \<Rightarrow> Some r
      | Inr st' \<Rightarrow> dagger_insert_loop k klen v h1 allow_replace st')"

definition dagger_insert_internal ::
  "'v DaggerTable \<Rightarrow> u8 list \<Rightarrow> nat \<Rightarrow> 'v option \<Rightarrow> u64 \<Rightarrow> u64 \<Rightarrow> bool \<Rightarrow>
   (dagger_result_t \<times> 'v DaggerTable) option" where
  "dagger_insert_internal T k klen v h1 h2 allow_replace =
     dagger_insert_loop k klen v h1 allow_replace
       (T, \<lparr>hash_primary = h1, hash_alternate = h2, key = k, val = v, key_len = klen, psl = 0,
            occupied = True, in_cuckoo = False\<rparr>,
        dagger_slot T h1, 0, False)"

subsection \<open>dagger_resize\<close>

text \<open>
  The re-insertion loop over the old slot array. On a failed re-insertion the source puts
  the old array, capacity and mask back and returns the error, leaving \<open>count\<close>,
  \<open>max_psl\<close>, \<open>cuckoo_count\<close> and \<open>resize_count\<close> as the aborted rebuild left them.
\<close>

fun dagger_resize_reinsert ::
  "'v DaggerEntry list \<Rightarrow> 'v DaggerTable \<Rightarrow> (dagger_result_t \<times> 'v DaggerTable) option" where
  "dagger_resize_reinsert [] T = Some (DAGGER_OK, T)"
| "dagger_resize_reinsert (e # es) T =
     (if occupied e then
        (case dagger_insert_internal T (key e) (key_len e) (val e)
                (hash_primary e) (hash_alternate e) True of
           None \<Rightarrow> None
         | Some (r, T') \<Rightarrow>
             if r \<noteq> DAGGER_OK then Some (r, T') else dagger_resize_reinsert es T')
      else dagger_resize_reinsert es T)"

text \<open>\<open>calloc_ok\<close> says whether \<open>calloc\<close> returns the new slot array.\<close>

definition dagger_resize ::
  "'v DaggerTable \<Rightarrow> nat \<Rightarrow> bool \<Rightarrow> (dagger_result_t \<times> 'v DaggerTable) option" where
  "dagger_resize T new_capacity calloc_ok =
     (let nc0 = dagger_next_pow2 new_capacity;
          nc = (if nc0 < DAGGER_MIN_CAPACITY then DAGGER_MIN_CAPACITY else nc0);
          old_entries = entries T;
          old_capacity = capacity T
      in if \<not> calloc_ok then Some (DAGGER_ERROR_NOMEM, T)
         else
           (case dagger_resize_reinsert (take old_capacity old_entries)
                   (T\<lparr>entries := replicate nc dagger_entry_zero, capacity := nc, mask_t := nc - 1,
                      count := 0, max_psl := 0, cuckoo_count := 0,
                      resize_count := resize_count T + 1\<rparr>) of
              None \<Rightarrow> None
            | Some (r, T') \<Rightarrow>
                if r \<noteq> DAGGER_OK
                then Some (r, T'\<lparr>entries := old_entries, capacity := old_capacity,
                                mask_t := old_capacity - 1\<rparr>)
                else Some (DAGGER_OK, T')))"

subsection \<open>dagger_set, dagger_get, dagger_remove\<close>

text \<open>\<open>mem_ok\<close> says whether the allocations of this call succeed.\<close>

definition dagger_set ::
  "'v DaggerTable \<Rightarrow> u8 list option \<Rightarrow> 'v option \<Rightarrow> bool \<Rightarrow> bool \<Rightarrow>
   (dagger_result_t \<times> 'v DaggerTable) option" where
  "dagger_set T key_arg v replace mem_ok =
     (case key_arg of
        None \<Rightarrow> Some (DAGGER_ERROR_NULLPTR, T)
      | Some k \<Rightarrow>
          if length k = 0 then Some (DAGGER_ERROR_INVALID, T)
          else
            (case (if (capacity T * DAGGER_LOAD_FACTOR_PERCENT) div 100 \<le> count T
                   then dagger_resize T (capacity T * DAGGER_GROWTH_FACTOR) mem_ok
                   else Some (DAGGER_OK, T)) of
               None \<Rightarrow> None
             | Some (r0, T0) \<Rightarrow>
                 if r0 \<noteq> DAGGER_OK then Some (r0, T0)
                 else
                   (case dagger_insert_internal T0 k (length k) v
                           (nxh64_bytes k (seed_primary T0))
                           (nxh64_alt_bytes k (seed_alternate T0)) replace of
                      None \<Rightarrow> None
                    | Some (r1, T1) \<Rightarrow>
                        if r1 = DAGGER_ERROR_FULL then
                          (case dagger_resize T1 (capacity T1 * DAGGER_GROWTH_FACTOR) mem_ok of
                             None \<Rightarrow> None
                           | Some (r2, T2) \<Rightarrow>
                               if r2 \<noteq> DAGGER_OK then Some (r2, T2)
                               else dagger_insert_internal T2 k (length k) v
                                      (nxh64_bytes k (seed_primary T2))
                                      (nxh64_alt_bytes k (seed_alternate T2)) replace)
                        else Some (r1, T1))))"

text \<open>
  Phase 1 of \<open>dagger_get\<close>, the Robin Hood probe. \<open>probes0\<close> is \<open>probes\<close> on entry to the
  iteration. \<open>Inl\<close> is a \<open>return\<close> (result, value written to \<open>*value\<close>, probes), \<open>Inr\<close> is a
  \<open>break\<close> with the probes so far.
\<close>

function dagger_get_phase1 ::
  "'v DaggerTable \<Rightarrow> u8 list \<Rightarrow> nat \<Rightarrow> u64 \<Rightarrow> nat \<Rightarrow> nat \<Rightarrow>
   (dagger_result_t \<times> 'v option \<times> nat) + nat" where
  "dagger_get_phase1 T k klen h1 idx probes0 =
     (let slot = entries T ! idx; probes = probes0 + 1 in
      if \<not> occupied slot then Inl (DAGGER_NOT_FOUND, None, probes)
      else if hash_primary slot = h1 \<and> key_len slot = klen \<and>
              dagger_key_eq_default (key slot) (key_len slot) k klen
           then Inl (DAGGER_OK, val slot, probes)
      else if unat (psl slot) < probes - 1 then Inr probes
      else if DAGGER_PSL_THRESHOLD + 1 < probes then Inr probes
      else dagger_get_phase1 T k klen h1 ((idx + 1) AND mask_t T) probes)"
  by pat_completeness auto
termination
  by (relation "measure (\<lambda>(T, k, klen, h1, idx, probes0). 18 - probes0)")
     (auto simp: DAGGER_PSL_THRESHOLD_def)

text \<open>Phase 2, \<open>for (i = 0; i <= DAGGER_PSL_THRESHOLD; i++)\<close> from the alternate slot.\<close>

function dagger_get_phase2 ::
  "'v DaggerTable \<Rightarrow> u8 list \<Rightarrow> nat \<Rightarrow> u64 \<Rightarrow> nat \<Rightarrow> nat \<Rightarrow> nat \<Rightarrow>
   dagger_result_t \<times> 'v option \<times> nat" where
  "dagger_get_phase2 T k klen h2 idx i probes0 =
     (if i \<le> DAGGER_PSL_THRESHOLD then
        (let slot = entries T ! idx; probes = probes0 + 1 in
         if \<not> occupied slot then (DAGGER_NOT_FOUND, None, probes)
         else if in_cuckoo slot \<and> hash_alternate slot = h2 \<and> key_len slot = klen \<and>
                 dagger_key_eq_default (key slot) (key_len slot) k klen
              then (DAGGER_OK, val slot, probes)
         else dagger_get_phase2 T k klen h2 ((idx + 1) AND mask_t T) (i + 1) probes)
      else (DAGGER_NOT_FOUND, None, probes0))"
  by pat_completeness auto
termination
  by (relation "measure (\<lambda>(T, k, klen, h2, idx, i, probes0). 17 - i)")
     (auto simp: DAGGER_PSL_THRESHOLD_def)

text \<open>
  The search of \<open>dagger_get\<close>: result code, the value stored through \<open>value\<close> (\<open>None\<close>
  when nothing is stored: every caller in this repository initialises its variable to
  NULL), and \<open>probes\<close>, the number of slots examined.
\<close>

definition dagger_get_search ::
  "'v DaggerTable \<Rightarrow> u8 list \<Rightarrow> dagger_result_t \<times> 'v option \<times> nat" where
  "dagger_get_search T k =
     (let h1 = nxh64_bytes k (seed_primary T) in
      case dagger_get_phase1 T k (length k) h1 (dagger_slot T h1) 0 of
        Inl res \<Rightarrow> res
      | Inr probes \<Rightarrow>
          (let h2 = nxh64_alt_bytes k (seed_alternate T)
           in dagger_get_phase2 T k (length k) h2 (dagger_slot T h2) 0 probes))"

text \<open>
  \<open>dagger_get\<close> updates the statistics through a cast of its \<open>const\<close> table: the table is
  returned with \<open>total_lookups\<close> and \<open>total_probes\<close> advanced.
\<close>

definition dagger_get ::
  "'v DaggerTable \<Rightarrow> u8 list option \<Rightarrow> dagger_result_t \<times> 'v option \<times> 'v DaggerTable" where
  "dagger_get T key_arg =
     (case key_arg of
        None \<Rightarrow> (DAGGER_ERROR_NULLPTR, None, T)
      | Some k \<Rightarrow>
          if length k = 0 then (DAGGER_ERROR_INVALID, None, T)
          else (case dagger_get_search T k of
                  (r, v, probes) \<Rightarrow>
                    (r, v, T\<lparr>total_lookups := total_lookups T + 1,
                             total_probes := total_probes T + probes\<rparr>)))"

text \<open>Phase 1 of \<open>dagger_remove\<close>: \<open>(found, in_cuckoo, idx)\<close> when the loop is left.\<close>

function dagger_remove_phase1 ::
  "'v DaggerTable \<Rightarrow> u8 list \<Rightarrow> nat \<Rightarrow> u64 \<Rightarrow> nat \<Rightarrow> nat \<Rightarrow> bool \<times> bool \<times> nat" where
  "dagger_remove_phase1 T k klen h1 idx probes0 =
     (if probes0 \<le> DAGGER_PSL_THRESHOLD then
        (let slot = entries T ! idx; probes = probes0 + 1 in
         if \<not> occupied slot then (False, False, idx)
         else if hash_primary slot = h1 \<and> key_len slot = klen \<and>
                 dagger_key_eq_default (key slot) (key_len slot) k klen
              then (True, in_cuckoo slot, idx)
         else if unat (psl slot) < probes - 1 then (False, False, idx)
         else dagger_remove_phase1 T k klen h1 ((idx + 1) AND mask_t T) probes)
      else (False, False, idx))"
  by pat_completeness auto
termination
  by (relation "measure (\<lambda>(T, k, klen, h1, idx, probes0). 17 - probes0)")
     (auto simp: DAGGER_PSL_THRESHOLD_def)

function dagger_remove_phase2 ::
  "'v DaggerTable \<Rightarrow> u8 list \<Rightarrow> nat \<Rightarrow> u64 \<Rightarrow> nat \<Rightarrow> nat \<Rightarrow> bool \<times> nat" where
  "dagger_remove_phase2 T k klen h2 idx i =
     (if i \<le> DAGGER_PSL_THRESHOLD then
        (let slot = entries T ! idx in
         if \<not> occupied slot then (False, idx)
         else if in_cuckoo slot \<and> hash_alternate slot = h2 \<and> key_len slot = klen \<and>
                 dagger_key_eq_default (key slot) (key_len slot) k klen
              then (True, idx)
         else dagger_remove_phase2 T k klen h2 ((idx + 1) AND mask_t T) (i + 1))
      else (False, idx))"
  by pat_completeness auto
termination
  by (relation "measure (\<lambda>(T, k, klen, h2, idx, i). 17 - i)")
     (auto simp: DAGGER_PSL_THRESHOLD_def)

text \<open>The backward-shift loop, \<open>while (next occupied && next.psl > 0)\<close>, unbounded in the source.\<close>

partial_function (option) dagger_backward_shift ::
  "'v DaggerTable \<Rightarrow> nat \<Rightarrow> nat \<Rightarrow> 'v DaggerTable option" where
  "dagger_backward_shift T idx next_idx =
     (if occupied (entries T ! next_idx) \<and> 0 < psl (entries T ! next_idx) then
        dagger_backward_shift
          (T\<lparr>entries :=
               list_update
                 (list_update (entries T) idx
                    ((entries T ! next_idx)\<lparr>psl := psl (entries T ! next_idx) - 1\<rparr>))
                 next_idx dagger_entry_zero\<rparr>)
          next_idx ((next_idx + 1) AND mask_t T)
      else Some T)"

definition dagger_remove ::
  "'v DaggerTable \<Rightarrow> u8 list option \<Rightarrow> (dagger_result_t \<times> 'v DaggerTable) option" where
  "dagger_remove T key_arg =
     (case key_arg of
        None \<Rightarrow> Some (DAGGER_ERROR_NULLPTR, T)
      | Some k \<Rightarrow>
          if length k = 0 then Some (DAGGER_ERROR_INVALID, T)
          else
            (let h1 = nxh64_bytes k (seed_primary T);
                 (found1, in_cuckoo1, idx1) =
                    dagger_remove_phase1 T k (length k) h1 (dagger_slot T h1) 0;
                 (found, in_cuckoo0, idx) =
                    (if found1 then (found1, in_cuckoo1, idx1)
                     else (let h2 = nxh64_alt_bytes k (seed_alternate T);
                               (found2, idx2) =
                                 dagger_remove_phase2 T k (length k) h2 (dagger_slot T h2) 0
                           in (found2, found2, idx2)))
             in if \<not> found then Some (DAGGER_NOT_FOUND, T)
                else
                  (case dagger_backward_shift
                          (T\<lparr>entries := list_update (entries T) idx dagger_entry_zero,
                             count := count T - 1,
                             cuckoo_count := (if in_cuckoo0 then cuckoo_count T - 1
                                              else cuckoo_count T)\<rparr>)
                          idx ((idx + 1) AND mask_t T) of
                     None \<Rightarrow> None
                   | Some T' \<Rightarrow> Some (DAGGER_OK, T'))))"

subsection \<open>A client inserting a sequence of pairs\<close>

text \<open>
  \<open>dagger_set(T, k, len, v, 1)\<close> for each pair in order, all allocations succeeding; the
  result is \<open>None\<close> as soon as a call does not return \<open>DAGGER_OK\<close>.
\<close>

fun dagger_set_all :: "'v DaggerTable \<Rightarrow> (u8 list \<times> 'v) list \<Rightarrow> 'v DaggerTable option" where
  "dagger_set_all T [] = Some T"
| "dagger_set_all T ((k, v) # kvs) =
     (case dagger_set T (Some k) (Some v) True True of
        None \<Rightarrow> None
      | Some (r, T') \<Rightarrow> if r = DAGGER_OK then dagger_set_all T' kvs else None)"

section \<open>Arena: bump allocator (zorya_arena.h)\<close>

text \<open>
  The chunk list \<open>first \<rightarrow> next \<rightarrow> ...\<close> is the list \<open>chunks\<close>; \<open>current\<close> is the
  position of the active chunk in it. The fields \<open>capacity\<close>, \<open>used\<close> and \<open>peak\<close> of
  \<open>ArenaChunk\<close> carry the prefix \<open>chunk_\<close> (a \<open>DaggerTable\<close> has a \<open>capacity\<close> too). A
  pointer into an arena is the pair of the chunk's position and the offset in its
  \<open>data[]\<close>. Sizes and counters are \<open>size_t\<close>, 64-bit words: sums wrap around and
  comparisons are unsigned, as in the source. The arena pointer is never NULL in the model;
  \<open>malloc_ok\<close> says whether \<open>malloc\<close> returns a block.
\<close>

type_synonym size_t = "64 word"

definition ARENA_DEFAULT_CHUNK_SIZE :: size_t where "ARENA_DEFAULT_CHUNK_SIZE = 64 * 1024"

text \<open>\<open>sizeof(void *)\<close> on the 64-bit targets of the library.\<close>

definition ARENA_DEFAULT_ALIGNMENT :: size_t where "ARENA_DEFAULT_ALIGNMENT = 8"

record ArenaChunk =
  chunk_capacity :: size_t
  chunk_used :: size_t
  chunk_peak :: size_t

record Arena =
  chunks :: "ArenaChunk list"
  current :: nat
  chunk_size :: size_t
  alignment :: size_t
  total_allocated :: size_t
  total_capacity :: size_t
  peak_allocated :: size_t
  chunk_count :: size_t
  alloc_count :: size_t

text \<open>The marker of a temporary scope; the \<open>arena\<close> back pointer is left out.\<close>

record ArenaTemp =
  temp_chunk :: nat
  temp_used :: size_t
  temp_total_allocated :: size_t
  temp_alloc_count :: size_t

text \<open>\<open>(size + ARENA_DEFAULT_ALIGNMENT - 1) & ~(ARENA_DEFAULT_ALIGNMENT - 1)\<close>.\<close>

definition arena_align :: "size_t \<Rightarrow> size_t" where
  "arena_align sz = (sz + ARENA_DEFAULT_ALIGNMENT - 1) AND NOT (ARENA_DEFAULT_ALIGNMENT - 1)"

definition arena_chunk_create :: "size_t \<Rightarrow> bool \<Rightarrow> ArenaChunk option" where
  "arena_chunk_create min_capacity malloc_ok =
     (if \<not> malloc_ok then None
      else Some \<lparr>chunk_capacity = min_capacity, chunk_used = 0, chunk_peak = 0\<rparr>)"

definition arena_create :: "size_t \<Rightarrow> bool \<Rightarrow> Arena option" where
  "arena_create chunk_size0 malloc_ok =
     (let cs = (if chunk_size0 = 0 then ARENA_DEFAULT_CHUNK_SIZE else chunk_size0) in
      if \<not> malloc_ok then None
      else case arena_chunk_create cs malloc_ok of
             None \<Rightarrow> None
           | Some chunk \<Rightarrow>
               Some \<lparr>chunks = [chunk], current = 0, chunk_size = cs,
                     alignment = ARENA_DEFAULT_ALIGNMENT, total_allocated = 0,
                     total_capacity = cs, peak_allocated = 0, chunk_count = 1,
                     alloc_count = 0\<rparr>)"

text \<open>
  \<open>arena_alloc\<close>: the returned pointer (\<open>None\<close> for NULL) and the arena afterwards. A new
  chunk is linked behind the current one (\<open>chunk->next = new_chunk\<close>) and becomes current;
  on that path the source advances neither \<open>alloc_count\<close> nor \<open>peak_allocated\<close>.
\<close>

definition arena_alloc :: "Arena \<Rightarrow> size_t \<Rightarrow> bool \<Rightarrow> (nat \<times> size_t) option \<times> Arena" where
  "arena_alloc arena sz malloc_ok =
     (if sz = 0 then (None, arena)
      else
        (let aligned = arena_align sz;
             chunk = chunks arena ! current arena
         in if chunk_used chunk + aligned \<le> chunk_capacity chunk then
              (Some (current arena, chunk_used chunk),
               arena\<lparr>chunks := list_update (chunks arena) (current arena)
                                 (chunk\<lparr>chunk_used := chunk_used chunk + aligned\<rparr>),
                     total_allocated := total_allocated arena + aligned,
                     alloc_count := alloc_count arena + 1,
                     peak_allocated :=
                       (if peak_allocated arena < total_allocated arena + aligned
                        then total_allocated arena + aligned else peak_allocated arena)\<rparr>)
            else
              (let new_chunk_size =
                     (if chunk_size arena < aligned then aligned else chunk_size arena)
               in case arena_chunk_create new_chunk_size malloc_ok of
                    None \<Rightarrow> (None, arena)
                  | Some new_chunk \<Rightarrow>
                      (Some (current arena + 1, 0),
                       arena\<lparr>chunks := take (current arena + 1) (chunks arena)
                                          @ [new_chunk\<lparr>chunk_used := aligned\<rparr>],
                             current := current arena + 1,
                             total_capacity := total_capacity arena + new_chunk_size,
                             chunk_count := chunk_count arena + 1,
                             total_allocated := total_allocated arena + aligned\<rparr>))))"

definition arena_reset :: "Arena \<Rightarrow> Arena" where
  "arena_reset arena =
     arena\<lparr>chunks := [(hd (chunks arena))\<lparr>chunk_used := 0, chunk_peak := 0\<rparr>],
           current := 0, total_allocated := 0,
           total_capacity := chunk_capacity (hd (chunks arena)),
           chunk_count := 1, alloc_count := 0\<rparr>"

text \<open>
  Modelled from the spec: \<open>arena_temp_begin\<close> is named by the header (the usage comment and
  the \<open>ArenaTemp\<close> structure) but its body is not in the sources. The spec: \<open>temp_begin\<close>
  returns a marker capturing the current chunk, the \<open>used\<close> of that chunk and a snapshot of
  the counters. The counters of the snapshot are the two of \<open>ArenaTemp\<close>, \<open>total_allocated\<close>
  and \<open>alloc_count\<close>.
\<close>

definition arena_temp_begin :: "Arena \<Rightarrow> ArenaTemp" where
  "arena_temp_begin arena =
     \<lparr>temp_chunk = current arena,
      temp_used = chunk_used (chunks arena ! current arena),
      temp_total_allocated = total_allocated arena,
      temp_alloc_count = alloc_count arena\<rparr>"

text \<open>
  Modelled from the spec: the body of \<open>arena_temp_end\<close> is not in the sources either. The
  spec: \<open>temp_end(marker)\<close> frees all chunks after the captured chunk, sets the captured
  chunk's \<open>used\<close> back to the snapshot and restores the counters. The marker is one that
  \<open>arena_temp_begin\<close> returned for this arena, its chunk still in the list. Freeing a chunk
  takes it off \<open>chunk_count\<close> (``Number of chunks'') and its capacity off \<open>total_capacity\<close>
  (``Sum of all chunk capacities''), as \<open>arena_reset\<close> brings both back to the one chunk
  it keeps; \<open>total_allocated\<close> and \<open>alloc_count\<close> are those of the marker. The marker has
  no field for \<open>peak_allocated\<close>, the high-water mark, which \<open>arena_reset\<close> leaves alone
  as well: it stays.
\<close>

definition arena_temp_end :: "Arena \<Rightarrow> ArenaTemp \<Rightarrow> Arena" where
  "arena_temp_end arena temp =
     (let freed = drop (temp_chunk temp + 1) (chunks arena) in
      arena\<lparr>chunks :=
              list_update (take (temp_chunk temp + 1) (chunks arena)) (temp_chunk temp)
                ((chunks arena ! temp_chunk temp)\<lparr>chunk_used := temp_used temp\<rparr>),
            current := temp_chunk temp,
            total_capacity := total_capacity arena - sum_list (map chunk_capacity freed),
            chunk_count := chunk_count arena - of_nat (length freed),
            total_allocated := temp_total_allocated temp,
            alloc_count := temp_alloc_count temp\<rparr>)"

text \<open>A client's sequence of \<open>arena_alloc\<close> calls: the sizes, each with the outcome of \<open>malloc\<close>.\<close>

fun arena_allocs :: "Arena \<Rightarrow> (size_t \<times> bool) list \<Rightarrow> Arena" where
  "arena_allocs arena [] = arena"
| "arena_allocs arena ((sz, malloc_ok) # reqs) =
     arena_allocs (snd (arena_alloc arena sz malloc_ok)) reqs"

text \<open>
  In every arena the library builds, \<open>current\<close> designates the last chunk of the list:
  \<open>arena_create\<close> makes one chunk, \<open>arena_alloc\<close> links a new chunk behind the current one
  and moves \<open>current\<close> to it, \<open>arena_reset\<close> and \<open>arena_temp_end\<close> cut the list behind the
  chunk they make current.
\<close>

definition arena_wf :: "Arena \<Rightarrow> bool" where
  "arena_wf arena = (chunks arena \<noteq> [] \<and> current arena = length (chunks arena) - 1)"

text \<open>
  What a run of allocations keeps of the arena \<open>a\<close> it started from: the chunks before the
  current chunk of \<open>a\<close>, that chunk up to its \<open>used\<close>, the chunk size and the alignment;
  \<open>total_capacity\<close> and \<open>chunk_count\<close> have grown by the chunks linked behind it.
\<close>

definition arena_extends :: "Arena \<Rightarrow> Arena \<Rightarrow> bool" where
  "arena_extends a a' =
     (arena_wf a' \<and> current a \<le> current a' \<and>
      take (current a) (chunks a') = take (current a) (chunks a) \<and>
      (chunks a' ! current a)\<lparr>chunk_used := chunk_used (chunks a ! current a)\<rparr>
        = chunks a ! current a \<and>
      chunk_size a' = chunk_size a \<and> alignment a' = alignment a \<and>
      total_capacity a' =
        total_capacity a + sum_list (drop (current a + 1) (map chunk_capacity (chunks a'))) \<and>
      chunk_count a' = chunk_count a + of_nat (length (chunks a') - (current a + 1)))"

section \<open>WEAVE: fat strings and the Tablet (weave.h, weave.c)\<close>

text \<open>
  A \<open>Weave *\<close> is an address: of a \<open>malloc\<close> block (\<open>Heap\<close>) or of an arena allocation
  (\<open>InArena\<close> chunk offset). The store maps the addresses of the live Weaves to their
  contents; a function that mutates a Weave returns the store afterwards. \<open>data\<close> is the
  buffer \<open>data[cap + 1]\<close>. The outcome of \<open>realloc\<close> is an argument: \<open>None\<close> when it fails,
  \<open>Some q\<close> when the block is at address \<open>q\<close> afterwards; the bytes it adds are
  indeterminate in C and zero in the model. Lengths are natural numbers.
\<close>

datatype weave_ptr = Heap nat | InArena nat nat

record Weave =
  len :: nat
  cap :: nat
  flags :: u8
  data :: "u8 list"

type_synonym store = "weave_ptr \<Rightarrow> Weave option"

definition WEAVE_FLAG_NONE :: u8 where "WEAVE_FLAG_NONE = 0x00"
definition WEAVE_FLAG_INTERNED :: u8 where "WEAVE_FLAG_INTERNED = 0x01"
definition WEAVE_FLAG_READONLY :: u8 where "WEAVE_FLAG_READONLY = 0x02"
definition WEAVE_FLAG_STATIC :: u8 where "WEAVE_FLAG_STATIC = 0x04"
definition WEAVE_INITIAL_CAP :: nat where "WEAVE_INITIAL_CAP = 32"
definition TABLET_INITIAL_BUCKETS :: nat where "TABLET_INITIAL_BUCKETS = 256"

text \<open>
  \<open>sizeof(Weave)\<close>: two \<open>size_t\<close>, one \<open>uint8_t\<close> and the padding to the alignment of
  \<open>size_t\<close> on a 64-bit target.
\<close>

definition sizeof_Weave :: nat where "sizeof_Weave = 24"

text \<open>\<open>ZORYA_ALIGN_UP(sizeof(Weave) + cap + 1, 8)\<close>.\<close>

definition weave_alloc_size :: "nat \<Rightarrow> nat" where
  "weave_alloc_size c = ((sizeof_Weave + c + 1 + (8 - 1)) div 8) * 8"

text \<open>
  \<open>ZORYA_NEXT_POWER_OF_2_64(x)\<close> is \<open>x <= 1 ? 1 : 1 << (64 - clz(x - 1))\<close>, and
  \<open>64 - clz(y)\<close> is the number of binary digits of \<open>y\<close>.
\<close>

fun bit_length :: "nat \<Rightarrow> nat" where
  "bit_length n = (if n = 0 then 0 else Suc (bit_length (n div 2)))"

declare bit_length.simps [simp del]

definition ZORYA_NEXT_POWER_OF_2_64 :: "nat \<Rightarrow> nat" where
  "ZORYA_NEXT_POWER_OF_2_64 x = (if x \<le> 1 then 1 else push_bit (bit_length (x - 1)) 1)"

definition weave_grow_cap :: "nat \<Rightarrow> nat \<Rightarrow> nat" where
  "weave_grow_cap current_cap needed =
     (if needed \<le> 64 then 64
      else (let new_cap = ZORYA_NEXT_POWER_OF_2_64 needed in
            if new_cap < current_cap * 2 then ZORYA_NEXT_POWER_OF_2_64 (current_cap * 2)
            else new_cap))"

definition safe_strlen :: "u8 list option \<Rightarrow> nat" where
  "safe_strlen s = (case s of None \<Rightarrow> 0 | Some bs \<Rightarrow> length bs)"

text \<open>
  \<open>weave_ensure_cap\<close>. A pointer that designates no live Weave is outside C's defined
  behaviour; the model then returns NULL and leaves the store alone.
\<close>

definition weave_ensure_cap ::
  "store \<Rightarrow> weave_ptr option \<Rightarrow> nat \<Rightarrow> weave_ptr option \<Rightarrow> weave_ptr option \<times> store" where
  "weave_ensure_cap h w additional realloc_res =
     (case w of
        None \<Rightarrow> (None, h)
      | Some p \<Rightarrow>
          (case h p of
             None \<Rightarrow> (None, h)
           | Some wv \<Rightarrow>
               if flags wv AND (WEAVE_FLAG_INTERNED OR WEAVE_FLAG_READONLY) \<noteq> 0 then (None, h)
               else
                 (let needed = len wv + additional in
                  if needed \<le> cap wv then (Some p, h)
                  else
                    (let new_cap = weave_grow_cap (cap wv) needed in
                     case realloc_res of
                       None \<Rightarrow> (None, h)
                     | Some q \<Rightarrow>
                         (Some q,
                          (h(p := None))
                            (q \<mapsto> wv\<lparr>cap := new_cap,
                                      data := data wv @ replicate (new_cap - cap wv) 0\<rparr>))))))"

text \<open>\<open>memcpy(w->data + w->len, s, len); w->len += len; w->data[w->len] = 0\<close>.\<close>

definition weave_append_len ::
  "store \<Rightarrow> weave_ptr option \<Rightarrow> u8 list option \<Rightarrow> nat \<Rightarrow> weave_ptr option \<Rightarrow>
   weave_ptr option \<times> store" where
  "weave_append_len h w s n realloc_res =
     (case w of
        None \<Rightarrow> (None, h)
      | Some p \<Rightarrow>
          (case s of
             None \<Rightarrow> (Some p, h)
           | Some bs \<Rightarrow>
               if n = 0 then (Some p, h)
               else
                 (case weave_ensure_cap h w n realloc_res of
                    (None, h') \<Rightarrow> (None, h')
                  | (Some q, h') \<Rightarrow>
                      (case h' q of
                         None \<Rightarrow> (None, h')
                       | Some wv \<Rightarrow>
                           (Some q,
                            h'(q \<mapsto> wv\<lparr>len := len wv + n,
                                        data := take (len wv) (data wv) @ take n bs @ [0]
                                                  @ drop (len wv + n + 1) (data wv)\<rparr>))))))"

definition weave_append ::
  "store \<Rightarrow> weave_ptr option \<Rightarrow> u8 list option \<Rightarrow> weave_ptr option \<Rightarrow> weave_ptr option \<times> store" where
  "weave_append h w s realloc_res = weave_append_len h w s (safe_strlen s) realloc_res"

definition weave_append_char ::
  "store \<Rightarrow> weave_ptr option \<Rightarrow> u8 \<Rightarrow> weave_ptr option \<Rightarrow> weave_ptr option \<times> store" where
  "weave_append_char h w c realloc_res = weave_append_len h w (Some [c]) 1 realloc_res"

definition weave_append_weave ::
  "store \<Rightarrow> weave_ptr option \<Rightarrow> weave_ptr option \<Rightarrow> weave_ptr option \<Rightarrow>
   weave_ptr option \<times> store" where
  "weave_append_weave h w other realloc_res =
     (case other of
        None \<Rightarrow> (w, h)
      | Some o_ptr \<Rightarrow>
          (case h o_ptr of
             None \<Rightarrow> (None, h)
           | Some ov \<Rightarrow> weave_append_len h w (Some (data ov)) (len ov) realloc_res))"

text \<open>\<open>memmove(w->data + len, w->data, w->len + 1); memcpy(w->data, s, len); w->len += len\<close>.\<close>

definition weave_prepend_len ::
  "store \<Rightarrow> weave_ptr option \<Rightarrow> u8 list option \<Rightarrow> nat \<Rightarrow> weave_ptr option \<Rightarrow>
   weave_ptr option \<times> store" where
  "weave_prepend_len h w s n realloc_res =
     (case w of
        None \<Rightarrow> (None, h)
      | Some p \<Rightarrow>
          (case s of
             None \<Rightarrow> (Some p, h)
           | Some bs \<Rightarrow>
               if n = 0 then (Some p, h)
               else
                 (case weave_ensure_cap h w n realloc_res of
                    (None, h') \<Rightarrow> (None, h')
                  | (Some q, h') \<Rightarrow>
                      (case h' q of
                         None \<Rightarrow> (None, h')
                       | Some wv \<Rightarrow>
                           (Some q,
                            h'(q \<mapsto> wv\<lparr>len := len wv + n,
                                        data := take n bs @ take (len wv + 1) (data wv)
                                                  @ drop (n + len wv + 1) (data wv)\<rparr>))))))"

definition weave_prepend ::
  "store \<Rightarrow> weave_ptr option \<Rightarrow> u8 list option \<Rightarrow> weave_ptr option \<Rightarrow> weave_ptr option \<times> store" where
  "weave_prepend h w s realloc_res = weave_prepend_len h w s (safe_strlen s) realloc_res"

definition weave_clear :: "store \<Rightarrow> weave_ptr option \<Rightarrow> store" where
  "weave_clear h w =
     (case w of
        None \<Rightarrow> h
      | Some p \<Rightarrow>
          (case h p of
             None \<Rightarrow> h
           | Some wv \<Rightarrow>
               if flags wv AND (WEAVE_FLAG_INTERNED OR WEAVE_FLAG_READONLY) \<noteq> 0 then h
               else h(p \<mapsto> wv\<lparr>len := 0, data := list_update (data wv) 0 0\<rparr>)))"

definition weave_truncate :: "store \<Rightarrow> weave_ptr option \<Rightarrow> nat \<Rightarrow> store" where
  "weave_truncate h w n =
     (case w of
        None \<Rightarrow> h
      | Some p \<Rightarrow>
          (case h p of
             None \<Rightarrow> h
           | Some wv \<Rightarrow>
               if flags wv AND (WEAVE_FLAG_INTERNED OR WEAVE_FLAG_READONLY) \<noteq> 0 then h
               else if len wv \<le> n then h
               else h(p \<mapsto> wv\<lparr>len := n, data := list_update (data wv) n 0\<rparr>)))"

definition weave_reserve ::
  "store \<Rightarrow> weave_ptr option \<Rightarrow> nat \<Rightarrow> weave_ptr option \<Rightarrow> weave_ptr option \<times> store" where
  "weave_reserve h w min_cap realloc_res =
     (case w of
        None \<Rightarrow> (None, h)
      | Some p \<Rightarrow>
          (case h p of
             None \<Rightarrow> (None, h)
           | Some wv \<Rightarrow>
               if min_cap \<le> cap wv then (Some p, h)
               else weave_ensure_cap h w (min_cap - len wv) realloc_res))"

text \<open>\<open>weave_shrink\<close> tests \<open>WEAVE_FLAG_INTERNED\<close> only; a failed \<open>realloc\<close> keeps the old block.\<close>

definition weave_shrink ::
  "store \<Rightarrow> weave_ptr option \<Rightarrow> weave_ptr option \<Rightarrow> weave_ptr option \<times> store" where
  "weave_shrink h w realloc_res =
     (case w of
        None \<Rightarrow> (None, h)
      | Some p \<Rightarrow>
          (case h p of
             None \<Rightarrow> (None, h)
           | Some wv \<Rightarrow>
               if flags wv AND WEAVE_FLAG_INTERNED \<noteq> 0 then (Some p, h)
               else if len wv = cap wv then (Some p, h)
               else
                 (case realloc_res of
                    None \<Rightarrow> (Some p, h)
                  | Some q \<Rightarrow>
                      (Some q,
                       (h(p := None))
                         (q \<mapsto> wv\<lparr>cap := len wv, data := take (len wv + 1) (data wv)\<rparr>)))))"

text \<open>
  \<open>weave_append_fmt\<close>. \<open>formatted\<close> is \<open>None\<close> for a NULL \<open>fmt\<close>, \<open>Some None\<close> when
  \<open>vsnprintf\<close> reports an error (\<open>size < 0\<close>), and \<open>Some (Some bs)\<close> for the formatted text.
\<close>

definition weave_append_fmt ::
  "store \<Rightarrow> weave_ptr option \<Rightarrow> u8 list option option \<Rightarrow> weave_ptr option \<Rightarrow>
   weave_ptr option \<times> store" where
  "weave_append_fmt h w formatted realloc_res =
     (case w of
        None \<Rightarrow> (None, h)
      | Some p \<Rightarrow>
          (case formatted of
             None \<Rightarrow> (Some p, h)
           | Some None \<Rightarrow> (Some p, h)
           | Some (Some bs) \<Rightarrow>
               (case weave_ensure_cap h w (length bs) realloc_res of
                  (None, h') \<Rightarrow> (None, h')
                | (Some q, h') \<Rightarrow>
                    (case h' q of
                       None \<Rightarrow> (None, h')
                     | Some wv \<Rightarrow>
                         (Some q,
                          h'(q \<mapsto> wv\<lparr>len := len wv + length bs,
                                      data := take (len wv) (data wv) @ bs @ [0]
                                                @ drop (len wv + length bs + 1) (data wv)\<rparr>))))))"

subsection \<open>Tablet\<close>

text \<open>
  The pool maps the bytes of a string to the address of its interned Weave. The fields
  \<open>count\<close> and \<open>memory\<close> carry the prefix \<open>tablet_\<close>. The interned Weaves live in the
  arena; their contents are in the store.
\<close>

record Tablet =
  pool :: "weave_ptr DaggerTable"
  arena :: Arena
  tablet_count :: nat
  tablet_memory :: nat

definition tablet_create_sized :: "nat \<Rightarrow> bool \<Rightarrow> Tablet option" where
  "tablet_create_sized initial_buckets malloc_ok =
     (if \<not> malloc_ok then None
      else case arena_create 4096 malloc_ok of
             None \<Rightarrow> None
           | Some a \<Rightarrow>
               Some \<lparr>pool = dagger_create initial_buckets, arena = a, tablet_count = 0,
                     tablet_memory = 0\<rparr>)"

definition tablet_create :: "bool \<Rightarrow> Tablet option" where
  "tablet_create malloc_ok = tablet_create_sized TABLET_INITIAL_BUCKETS malloc_ok"

text \<open>
  \<open>tablet_intern_len\<close>: the returned pointer, the store and the Tablet afterwards; the
  whole is \<open>None\<close> when the insertion into the pool does not return. \<open>(uint32_t)len\<close> is
  \<open>len mod 2^32\<close>. The key of the new pool entry is \<open>w->data\<close>. The allocation size
  goes to \<open>arena_alloc\<close> as a \<open>size_t\<close>, and the offset of the new Weave in its chunk is
  read back as a number.
\<close>

definition tablet_intern_len ::
  "store \<Rightarrow> Tablet \<Rightarrow> u8 list option \<Rightarrow> nat \<Rightarrow> bool \<Rightarrow>
   (weave_ptr option \<times> store \<times> Tablet) option" where
  "tablet_intern_len h T s n mem_ok =
     (if s = None \<and> 0 < n then Some (None, h, T)
      else
        (case dagger_get (pool T) (map_option (take (n mod 2 ^ 32)) s) of
           (result, existing, pool1) \<Rightarrow>
             if result = DAGGER_OK \<and> existing \<noteq> None then Some (existing, h, T\<lparr>pool := pool1\<rparr>)
             else
               (let alloc_size = weave_alloc_size n in
                case arena_alloc (arena T) (of_nat alloc_size) mem_ok of
                  (None, ar) \<Rightarrow> Some (None, h, T\<lparr>pool := pool1, arena := ar\<rparr>)
                | (Some (c, off), ar) \<Rightarrow>
                    (let w = InArena c (unat off);
                         wv = \<lparr>len = n, cap = n,
                               flags = WEAVE_FLAG_INTERNED OR WEAVE_FLAG_READONLY,
                               data = (case s of None \<Rightarrow> [] | Some bs \<Rightarrow> take n bs) @ [0]\<rparr>;
                         h1 = h(w \<mapsto> wv)
                     in case dagger_set pool1 (Some (take (n mod 2 ^ 32) (data wv))) (Some w)
                               False mem_ok of
                          None \<Rightarrow> None
                        | Some (r, pool2) \<Rightarrow>
                            if r \<noteq> DAGGER_OK
                            then Some (None, h1, T\<lparr>pool := pool2, arena := ar\<rparr>)
                            else Some (Some w, h1,
                                       T\<lparr>pool := pool2, arena := ar,
                                         tablet_count := tablet_count T + 1,
                                         tablet_memory := tablet_memory T + alloc_size\<rparr>)))))"

definition tablet_intern ::
  "store \<Rightarrow> Tablet \<Rightarrow> u8 list option \<Rightarrow> bool \<Rightarrow> (weave_ptr option \<times> store \<times> Tablet) option" where
  "tablet_intern h T s mem_ok =
     (case s of None \<Rightarrow> Some (None, h, T) | Some bs \<Rightarrow> tablet_intern_len h T s (length bs) mem_ok)"

text \<open>A client interning a list of strings in order, every allocation succeeding.\<close>

fun tablet_intern_all ::
  "store \<Rightarrow> Tablet \<Rightarrow> u8 list list \<Rightarrow> (store \<times> Tablet) option" where
  "tablet_intern_all h T [] = Some (h, T)"
| "tablet_intern_all h T (bs # rest) =
     (case tablet_intern h T (Some bs) True of
        None \<Rightarrow> None
      | Some (p, h', T') \<Rightarrow> tablet_intern_all h' T' rest)"

text \<open>The same, with the pointers that the calls return, in order.\<close>

fun tablet_intern_seq ::
  "store \<Rightarrow> Tablet \<Rightarrow> weave_ptr option list \<Rightarrow> u8 list list \<Rightarrow>
   (weave_ptr option list \<times> store \<times> Tablet) option" where
  "tablet_intern_seq h T ps [] = Some (ps, h, T)"
| "tablet_intern_seq h T ps (bs # rest) =
     (case tablet_intern h T (Some bs) True of
        None \<Rightarrow> None
      | Some (p, h', T') \<Rightarrow> tablet_intern_seq h' T' (ps @ [p]) rest)"

text \<open>
  \<open>weave_cstr\<close> of a pointer that \<open>tablet_intern\<close> returned: the bytes of \<open>data\<close> up to the
  terminating NUL, and the empty string for NULL.
\<close>

definition weave_cstr_store :: "store \<Rightarrow> weave_ptr option \<Rightarrow> u8 list" where
  "weave_cstr_store h w =
     (case w of
        None \<Rightarrow> []
      | Some p \<Rightarrow> (case h p of None \<Rightarrow> [] | Some wv \<Rightarrow> takeWhile (\<lambda>c. c \<noteq> 0) (data wv)))"

section \<open>ORDINAL: the build runner (ordinal.h, ordinal.c)\<close>

text \<open>
  C strings are byte lists without the terminating NUL; a \<open>char *\<close> that may be NULL is an
  option. The array \<open>targets\<close> is the list of its \<open>target_count\<close> initialised elements, so
  \<open>target_count\<close> is the length of the list. The field \<open>section\<close> of a target is \<open>sect\<close>
  here, and \<open>name\<close>, \<open>status\<close>, \<open>command\<close> carry the prefix \<open>t_\<close>. Allocations succeed in
  this part of the model. Left out: \<open>error_msg\<close>, the clock (\<open>build_time_ms\<close>,
  \<open>total_time_ms\<close>), the text written by \<open>printf\<close> and the progress callback; none is read
  back by the code below.
\<close>

type_synonym bytes = "u8 list"

datatype ordinal_error_t =
  ORDINAL_OK | ORDINAL_ERROR_NULLPTR | ORDINAL_ERROR_NOMEM | ORDINAL_ERROR_IO
| ORDINAL_ERROR_SYNTAX | ORDINAL_ERROR_NO_TARGET | ORDINAL_ERROR_CIRCULAR
| ORDINAL_ERROR_COMMAND | ORDINAL_ERROR_DEP | ORDINAL_ERROR_GLOB

datatype ordinal_status_t =
  ORDINAL_STATUS_PENDING | ORDINAL_STATUS_BUILDING | ORDINAL_STATUS_UP_TO_DATE
| ORDINAL_STATUS_REBUILT | ORDINAL_STATUS_FAILED | ORDINAL_STATUS_SKIPPED

definition ORD_MAX_DEPS :: nat where "ORD_MAX_DEPS = 128"
definition ORD_MAX_RECURSION :: nat where "ORD_MAX_RECURSION = 32"

record OrdinalConfig =
  jobs :: int
  verbose :: bool
  dry_run :: bool
  keep_going :: bool
  silent :: bool
  force :: bool
  debug :: bool
  directory :: "bytes option"

definition ORDINAL_CONFIG_DEFAULT :: OrdinalConfig where
  "ORDINAL_CONFIG_DEFAULT =
     \<lparr>jobs = 1, verbose = False, dry_run = False, keep_going = False, silent = False,
      force = False, debug = False, directory = None\<rparr>"

record OrdinalTargetInternal =
  t_name :: bytes
  sect :: bytes
  deps :: "bytes list"
  resolved_deps :: "bytes list"
  t_command :: "bytes option"
  resolved_command :: "bytes option"
  target_file :: "bytes option"
  t_status :: ordinal_status_t
  is_phony :: bool
  visited :: bool
  in_stack :: bool

record OrdinalResult =
  targets_total :: nat
  targets_rebuilt :: nat
  targets_up_to_date :: nat
  targets_failed :: nat
  targets_skipped :: nat
  success :: bool

definition OrdinalResult_zero :: OrdinalResult where
  "OrdinalResult_zero =
     \<lparr>targets_total = 0, targets_rebuilt = 0, targets_up_to_date = 0, targets_failed = 0,
      targets_skipped = 0, success = False\<rparr>"

text \<open>The values of \<open>target_map\<close> are the pointers \<open>(void *)(index + 1)\<close>, as numbers.\<close>

record Ordinal =
  config :: OrdinalConfig
  targets :: "OrdinalTargetInternal list"
  target_capacity :: nat
  target_map :: "nat DaggerTable"
  default_target :: "bytes option"
  ordinal_dir :: "bytes option"
  cwd :: "bytes option"
  var_platform :: "bytes option"
  var_arch :: "bytes option"
  var_nproc :: int
  result :: OrdinalResult

definition target_count :: "Ordinal \<Rightarrow> nat" where
  "target_count ord = length (targets ord)"

text \<open>
  The world outside the process: \<open>fs\<close> gives the \<open>st_mtime\<close> of the paths on which \<open>stat\<close>
  succeeds, as seen from the directory of the build; \<open>trace\<close> lists the commands handed to
  \<open>system\<close>, the latest last. What \<open>system\<close>, \<open>glob\<close> and \<open>chdir\<close> do is given by the
  environment: \<open>env_system\<close> returns the status and the file system after the command.
\<close>

record World =
  fs :: "bytes \<Rightarrow> int option"
  trace :: "bytes list"

datatype glob_ret = GLOB_SUCCESS | GLOB_NOMATCH | GLOB_FAILURE

record Env =
  env_system :: "bytes \<Rightarrow> (bytes \<Rightarrow> int option) \<Rightarrow> int \<times> (bytes \<Rightarrow> int option)"
  env_glob :: "(bytes \<Rightarrow> int option) \<Rightarrow> bytes \<Rightarrow> glob_ret \<times> bytes list"
  env_chdir :: "bytes \<Rightarrow> bool"

text \<open>
  The read functions of the INI context that \<open>add_target\<close> calls, \<open>zorya_ini_get\<close> and
  \<open>zorya_ini_get_array\<close>.
\<close>

record IniView =
  ini_get :: "bytes \<Rightarrow> bytes option"
  ini_get_array :: "bytes \<Rightarrow> bytes list option"

text \<open>The string literals of \<open>ordinal.c\<close> used below, as bytes.\<close>

definition DOT_TARGET :: bytes where "DOT_TARGET = [46, 116, 97, 114, 103, 101, 116]"
definition DOT_COMMAND :: bytes where "DOT_COMMAND = [46, 99, 111, 109, 109, 97, 110, 100]"
definition DOT_DEPS :: bytes where "DOT_DEPS = [46, 100, 101, 112, 115]"
definition STR_BUILD :: bytes where "STR_BUILD = [98, 117, 105, 108, 100]"
definition VAR_TARGET :: bytes where "VAR_TARGET = [36, 123, 95, 116, 97, 114, 103, 101, 116, 125]"
definition VAR_FIRST_DEP :: bytes where "VAR_FIRST_DEP = [36, 123, 95, 102, 105, 114, 115, 116, 95, 100, 101, 112, 125]"
definition VAR_ALL_DEPS :: bytes where "VAR_ALL_DEPS = [36, 123, 95, 97, 108, 108, 95, 100, 101, 112, 115, 125]"
definition VAR_PLATFORM :: bytes where "VAR_PLATFORM = [36, 123, 95, 112, 108, 97, 116, 102, 111, 114, 109, 125]"
definition VAR_ARCH :: bytes where "VAR_ARCH = [36, 123, 95, 97, 114, 99, 104, 125]"
definition VAR_NPROC :: bytes where "VAR_NPROC = [36, 123, 95, 110, 112, 114, 111, 99, 125]"
definition VAR_CWD :: bytes where "VAR_CWD = [36, 123, 95, 99, 119, 100, 125]"
definition VAR_ORDINAL_DIR :: bytes where "VAR_ORDINAL_DIR = [36, 123, 95, 111, 114, 100, 105, 110, 97, 108, 95, 100, 105, 114, 125]"

subsection \<open>Helpers\<close>

definition get_mtime :: "World \<Rightarrow> bytes \<Rightarrow> int" where
  "get_mtime w path = (case fs w path of None \<Rightarrow> 0 | Some t \<Rightarrow> t)"

text \<open>The paths of \<open>glob\<close> joined by single spaces.\<close>

fun join_spaces :: "bytes list \<Rightarrow> bytes" where
  "join_spaces [] = []"
| "join_spaces [p] = p"
| "join_spaces (p # q # ps) = p @ [32] @ join_spaces (q # ps)"

text \<open>
  \<open>expand_glob\<close> with \<open>GLOB_NOSORT | GLOB_NOCHECK\<close>: the pattern itself when \<open>glob\<close> fails
  with anything but \<open>GLOB_NOMATCH\<close>.
\<close>

definition expand_glob :: "Env \<Rightarrow> World \<Rightarrow> bytes \<Rightarrow> bytes" where
  "expand_glob env w pattern =
     (case env_glob env (fs w) pattern of
        (ret, paths) \<Rightarrow>
          if ret \<noteq> GLOB_SUCCESS \<and> ret \<noteq> GLOB_NOMATCH then pattern
          else if paths = [] then []
          else join_spaces paths)"

text \<open>
  The target lookup, \<open>dagger_get(ord->target_map, name, (uint32_t)strlen(name), &idx)\<close>
  with \<open>idx\<close> initialised to NULL: \<open>None\<close> when \<open>idx\<close> is NULL afterwards. The lookup
  statistics that \<open>dagger_get\<close> advances in the table are not kept.
\<close>

definition target_lookup :: "Ordinal \<Rightarrow> bytes \<Rightarrow> nat option" where
  "target_lookup ord nm =
     (case dagger_get (target_map ord) (Some (take (length nm mod 2 ^ 32) nm)) of
        (r, v, T') \<Rightarrow> (case v of None \<Rightarrow> None | Some p \<Rightarrow> if p = 0 then None else Some p))"

subsection \<open>ordinal_new, add_target\<close>

text \<open>
  \<open>ordinal_new\<close>, the parts read below; the platform values are those of the three
  detection functions.
\<close>

definition ordinal_new :: "bytes \<Rightarrow> bytes \<Rightarrow> int \<Rightarrow> bytes option \<Rightarrow> Ordinal" where
  "ordinal_new platform arch nproc getcwd_res =
     \<lparr>config = ORDINAL_CONFIG_DEFAULT, targets = [], target_capacity = 32,
      target_map = dagger_create 64, default_target = None, ordinal_dir = None,
      cwd = getcwd_res, var_platform = Some platform, var_arch = Some arch,
      var_nproc = nproc, result = OrdinalResult_zero\<rparr>"

definition ordinal_configure :: "Ordinal \<Rightarrow> OrdinalConfig option \<Rightarrow> Ordinal" where
  "ordinal_configure ord cfg =
     (let ord1 = (case cfg of None \<Rightarrow> ord | Some c \<Rightarrow> ord\<lparr>config := c\<rparr>) in
      if jobs (config ord1) \<le> 0
      then ord1\<lparr>config := (config ord1)\<lparr>jobs := var_nproc ord1\<rparr>\<rparr>
      else ord1)"

text \<open>\<open>snprintf(key, sizeof(key), "%s.target", section)\<close> with \<open>char key[256]\<close>.\<close>

definition section_key :: "bytes \<Rightarrow> bytes \<Rightarrow> bytes" where
  "section_key sc suffix = take 255 (sc @ suffix)"

text \<open>
  \<open>add_target\<close>. The whole is \<open>None\<close> when the insertion into the map does not return.
  The suffixes are \<open>.target\<close>, \<open>.command\<close>, \<open>.deps\<close>; the default target is the first
  target named \<open>build\<close> or whose section starts with \<open>build\<close>.
\<close>

definition add_target :: "IniView \<Rightarrow> Ordinal \<Rightarrow> bytes \<Rightarrow> bytes \<Rightarrow> Ordinal option" where
  "add_target ini ord nm sc =
     (let cap1 = (if target_capacity ord \<le> target_count ord then target_capacity ord * 2
                  else target_capacity ord);
          tf = ini_get ini (section_key sc DOT_TARGET);
          cmd = ini_get ini (section_key sc DOT_COMMAND);
          ds = (case ini_get_array ini (section_key sc DOT_DEPS) of
                  Some xs \<Rightarrow>
                    if xs \<noteq> [] then xs
                    else (case ini_get ini (section_key sc DOT_DEPS) of
                            None \<Rightarrow> []
                          | Some d \<Rightarrow> if d = [] then [] else [d])
                | None \<Rightarrow>
                    (case ini_get ini (section_key sc DOT_DEPS) of
                       None \<Rightarrow> []
                     | Some d \<Rightarrow> if d = [] then [] else [d]));
          t = \<lparr>t_name = nm, sect = sc, deps = ds, resolved_deps = [], t_command = cmd,
               resolved_command = None, target_file = tf,
               t_status = ORDINAL_STATUS_PENDING, is_phony = (tf = None), visited = False,
               in_stack = False\<rparr>;
          index = target_count ord
      in case dagger_set (target_map ord) (Some (take (length nm mod 2 ^ 32) nm))
                (Some (index + 1)) True True of
           None \<Rightarrow> None
         | Some (r, tm) \<Rightarrow>
             Some (ord\<lparr>targets := targets ord @ [t], target_capacity := cap1,
                       target_map := tm,
                       default_target :=
                         (if default_target ord = None \<and>
                             (nm = STR_BUILD \<or> take 5 sc = STR_BUILD)
                          then Some nm else default_target ord)\<rparr>))"

text \<open>A client adding a list of targets in order, each under the section of its name.\<close>

fun add_targets :: "IniView \<Rightarrow> Ordinal \<Rightarrow> bytes list \<Rightarrow> Ordinal option" where
  "add_targets ini ord [] = Some ord"
| "add_targets ini ord (nm # nms) =
     (case add_target ini ord nm nm of None \<Rightarrow> None | Some ord' \<Rightarrow> add_targets ini ord' nms)"

subsection \<open>Runtime variables\<close>

text \<open>
  The macro \<open>REPLACE_VAR(pattern, value)\<close>: every occurrence of the pattern, found from
  left to right by \<open>strstr\<close> and not overlapping the previous one, is replaced by the value;
  nothing happens for a NULL value.
\<close>

function replace_all :: "bytes \<Rightarrow> bytes \<Rightarrow> bytes \<Rightarrow> bytes" where
  "replace_all pat v s =
     (if s = [] then []
      else if pat \<noteq> [] \<and> take (length pat) s = pat
           then v @ replace_all pat v (drop (length pat) s)
           else hd s # replace_all pat v (tl s))"
  by pat_completeness auto
termination
  by (relation "measure (\<lambda>(pat, v, s). length s)") (auto simp: neq_Nil_conv)

definition REPLACE_VAR :: "bytes \<Rightarrow> bytes option \<Rightarrow> bytes \<Rightarrow> bytes" where
  "REPLACE_VAR pat v s = (case v of None \<Rightarrow> s | Some x \<Rightarrow> replace_all pat x s)"

text \<open>\<open>strstr(s, pat) != NULL\<close>.\<close>

fun contains :: "bytes \<Rightarrow> bytes \<Rightarrow> bool" where
  "contains pat [] = (pat = [])"
| "contains pat (c # cs) = (take (length pat) (c # cs) = pat \<or> contains pat cs)"

text \<open>\<open>snprintf(nproc_str, sizeof(nproc_str), "%d", ord->var_nproc)\<close>.\<close>

function decimal :: "nat \<Rightarrow> bytes" where
  "decimal n = (if n < 10 then [of_nat (48 + n)] else decimal (n div 10) @ [of_nat (48 + n mod 10)])"
  by pat_completeness auto
termination
  by (relation "measure id") auto

definition format_d :: "int \<Rightarrow> bytes" where
  "format_d i = (if i < 0 then 45 # decimal (nat (- i)) else decimal (nat i))"

text \<open>
  \<open>resolve_runtime_vars\<close> for a non-NULL string; \<open>'$'\<close> is 36. The patterns are
  \<open>${_target}\<close>, \<open>${_first_dep}\<close>, \<open>${_all_deps}\<close>, \<open>${_platform}\<close>, \<open>${_arch}\<close>, \<open>${_nproc}\<close>,
  \<open>${_cwd}\<close> and \<open>${_ordinal_dir}\<close>.
\<close>

definition resolve_runtime_vars ::
  "Ordinal \<Rightarrow> bytes \<Rightarrow> OrdinalTargetInternal option \<Rightarrow> bytes" where
  "resolve_runtime_vars ord s tgt =
     (if 36 \<notin> set s then s
      else
        (let r1 =
               (case tgt of
                  None \<Rightarrow> s
                | Some t \<Rightarrow>
                    (let target_val = (case target_file t of Some f \<Rightarrow> f | None \<Rightarrow> t_name t);
                         r = REPLACE_VAR VAR_TARGET (Some target_val) s
                     in if resolved_deps t \<noteq> [] then
                          (let r' = REPLACE_VAR VAR_FIRST_DEP (Some (hd (resolved_deps t))) r
                           in if contains VAR_ALL_DEPS r'
                              then REPLACE_VAR VAR_ALL_DEPS
                                     (Some (join_spaces (resolved_deps t))) r'
                              else r')
                        else r));
             r2 = REPLACE_VAR VAR_PLATFORM (var_platform ord) r1;
             r3 = REPLACE_VAR VAR_ARCH (var_arch ord) r2;
             r4 = (if contains VAR_NPROC r3
                   then REPLACE_VAR VAR_NPROC (Some (format_d (var_nproc ord))) r3 else r3);
             r5 = REPLACE_VAR VAR_CWD
                    (case cwd ord of Some c \<Rightarrow> Some c | None \<Rightarrow> Some [46]) r4;
             r6 = REPLACE_VAR VAR_ORDINAL_DIR
                    (case ordinal_dir ord of Some d \<Rightarrow> Some d | None \<Rightarrow> Some [46]) r5
         in r6))"

subsection \<open>resolve_target_deps, resolve_command\<close>

text \<open>The words of a space-separated list; \<open>' '\<close> is 32.\<close>

function split_spaces :: "bytes \<Rightarrow> bytes list" where
  "split_spaces s =
     (let s1 = dropWhile (\<lambda>c. c = 32) s in
      if s1 = [] then []
      else takeWhile (\<lambda>c. c \<noteq> 32) s1 # split_spaces (dropWhile (\<lambda>c. c \<noteq> 32) s1))"
  by pat_completeness auto
termination
proof (relation "measure length")
  show "wf (measure length)" by simp
next
  fix s :: bytes and x
  assume x: "x = dropWhile (\<lambda>c. c = 32) s" and ne: "x \<noteq> []"
  from ne have "hd x \<noteq> 32" unfolding x by (rule hd_dropWhile)
  with ne have "dropWhile (\<lambda>c. c \<noteq> 32) x = dropWhile (\<lambda>c. c \<noteq> 32) (tl x)"
    by (cases x) simp_all
  moreover have "length (dropWhile (\<lambda>c. c \<noteq> 32) (tl x)) \<le> length (tl x)"
    by (rule length_dropWhile_le)
  ultimately have "length (dropWhile (\<lambda>c. c \<noteq> 32) x) \<le> length (tl x)"
    by simp
  moreover have "length (tl x) < length x" using ne by (cases x) simp_all
  moreover have "length x \<le> length s" unfolding x by (rule length_dropWhile_le)
  ultimately show "(dropWhile (\<lambda>c. c \<noteq> 32) x, s) \<in> measure length" by simp
qed

text \<open>
  The loop of \<open>resolve_target_deps\<close> over the raw dependencies, \<open>acc\<close> being the list
  \<open>resolved\<close> so far; \<open>'*'\<close> is 42 and \<open>'?'\<close> is 63. While it runs, the target has no
  resolved dependencies (they were freed first). A dependency that is no pattern is kept
  as it is, a target name or not.
\<close>

fun resolve_deps_loop ::
  "Env \<Rightarrow> World \<Rightarrow> Ordinal \<Rightarrow> OrdinalTargetInternal \<Rightarrow> bytes list \<Rightarrow> bytes list \<Rightarrow> bytes list" where
  "resolve_deps_loop env w ord t [] acc = acc"
| "resolve_deps_loop env w ord t (d # ds) acc =
     (if ORD_MAX_DEPS \<le> length acc then acc
      else
        (let dep = resolve_runtime_vars ord d (Some t) in
         if 42 \<in> set dep \<or> 63 \<in> set dep then
           resolve_deps_loop env w ord t ds
             (acc @ take (ORD_MAX_DEPS - length acc) (split_spaces (expand_glob env w dep)))
         else resolve_deps_loop env w ord t ds (acc @ [dep])))"

definition resolve_target_deps :: "Env \<Rightarrow> World \<Rightarrow> Ordinal \<Rightarrow> nat \<Rightarrow> Ordinal" where
  "resolve_target_deps env w ord ti =
     (let t = targets ord ! ti in
      if deps t = [] then ord
      else
        (let t0 = t\<lparr>resolved_deps := []\<rparr>;
             resolved = resolve_deps_loop env w ord t0 (deps t) []
         in ord\<lparr>targets := list_update (targets ord) ti (t0\<lparr>resolved_deps := resolved\<rparr>)\<rparr>))"

definition resolve_command :: "Ordinal \<Rightarrow> nat \<Rightarrow> Ordinal" where
  "resolve_command ord ti =
     (let t = targets ord ! ti in
      case t_command t of
        None \<Rightarrow> ord
      | Some cmd \<Rightarrow>
          (let t1 = (case target_file t of
                       None \<Rightarrow> t
                     | Some f \<Rightarrow> t\<lparr>target_file := Some (resolve_runtime_vars ord f (Some t))\<rparr>);
               t2 = t1\<lparr>resolved_command := Some (resolve_runtime_vars ord cmd (Some t1))\<rparr>
           in ord\<lparr>targets := list_update (targets ord) ti t2\<rparr>))"

subsection \<open>needs_rebuild, execute_command\<close>

text \<open>The loop of \<open>needs_rebuild\<close> over the resolved dependencies.\<close>

fun dep_newer :: "World \<Rightarrow> Ordinal \<Rightarrow> int \<Rightarrow> bytes list \<Rightarrow> bool" where
  "dep_newer w ord target_mtime [] = False"
| "dep_newer w ord target_mtime (dep # rest) =
     (case target_lookup ord dep of
        Some p \<Rightarrow>
          if p - 1 < target_count ord \<and> t_status (targets ord ! (p - 1)) = ORDINAL_STATUS_REBUILT
          then True
          else dep_newer w ord target_mtime rest
      | None \<Rightarrow>
          if target_mtime < get_mtime w dep then True
          else dep_newer w ord target_mtime rest)"

definition needs_rebuild :: "World \<Rightarrow> Ordinal \<Rightarrow> OrdinalTargetInternal \<Rightarrow> bool" where
  "needs_rebuild w ord t =
     (if force (config ord) then True
      else if is_phony t then True
      else case target_file t of
             None \<Rightarrow> True
           | Some f \<Rightarrow>
               (let target_mtime = get_mtime w f in
                if target_mtime = 0 then True
                else dep_newer w ord target_mtime (resolved_deps t)))"

definition set_target :: "Ordinal \<Rightarrow> nat \<Rightarrow> (OrdinalTargetInternal \<Rightarrow> OrdinalTargetInternal) \<Rightarrow> Ordinal" where
  "set_target ord ti f = ord\<lparr>targets := list_update (targets ord) ti (f (targets ord ! ti))\<rparr>"

definition execute_command ::
  "Env \<Rightarrow> Ordinal \<Rightarrow> World \<Rightarrow> nat \<Rightarrow> ordinal_error_t \<times> Ordinal \<times> World" where
  "execute_command env ord w ti =
     (case resolved_command (targets ord ! ti) of
        None \<Rightarrow> (ORDINAL_OK, ord, w)
      | Some cmd \<Rightarrow>
          if cmd = [] then (ORDINAL_OK, ord, w)
          else if dry_run (config ord)
          then (ORDINAL_OK, set_target ord ti (\<lambda>t. t\<lparr>t_status := ORDINAL_STATUS_SKIPPED\<rparr>), w)
          else
            (case env_system env cmd (fs w) of
               (ret, fs') \<Rightarrow>
                 (let w' = \<lparr>fs = fs', trace = trace w @ [cmd]\<rparr> in
                  if ret \<noteq> 0
                  then (ORDINAL_ERROR_COMMAND,
                        set_target ord ti (\<lambda>t. t\<lparr>t_status := ORDINAL_STATUS_FAILED\<rparr>), w')
                  else (ORDINAL_OK,
                        set_target ord ti (\<lambda>t. t\<lparr>t_status := ORDINAL_STATUS_REBUILT\<rparr>), w'))))"

subsection \<open>build_target, ordinal_run\<close>

text \<open>
  One iteration of the loop of \<open>build_target\<close> over the resolved dependencies. The state
  of the loop is \<open>(stop, ord, w)\<close>: \<open>stop\<close> is \<open>Some err\<close> once the loop has been left by
  \<open>return err\<close>, and the remaining iterations then do nothing. \<open>build\<close> is the recursive
  call \<open>build_target(ord, dep, depth + 1)\<close>.
\<close>

definition build_dep ::
  "(Ordinal \<Rightarrow> World \<Rightarrow> bytes \<Rightarrow> ordinal_error_t \<times> Ordinal \<times> World) \<Rightarrow> bytes \<Rightarrow>
   ordinal_error_t option \<times> Ordinal \<times> World \<Rightarrow> ordinal_error_t option \<times> Ordinal \<times> World" where
  "build_dep build dep st =
     (case st of
        (stop, ord, w) \<Rightarrow>
          if stop \<noteq> None then st
          else
            (case target_lookup ord dep of
               None \<Rightarrow> st
             | Some p \<Rightarrow>
                 (case build ord w dep of
                    (err, ord', w') \<Rightarrow>
                      if err \<noteq> ORDINAL_OK \<and> \<not> keep_going (config ord') then (Some err, ord', w')
                      else (None, ord', w'))))"

text \<open>
  \<open>build_target\<close>. The loop over \<open>target->resolved_deps\<close> runs over the list as it is
  when the loop starts: the target is \<open>in_stack\<close> during the loop, so that a nested call
  on it returns before it resolves anything.
\<close>

function build_target ::
  "Env \<Rightarrow> Ordinal \<Rightarrow> World \<Rightarrow> bytes \<Rightarrow> nat \<Rightarrow> ordinal_error_t \<times> Ordinal \<times> World" where
  "build_target env ord w nm depth =
     (if ORD_MAX_RECURSION < depth then (ORDINAL_ERROR_CIRCULAR, ord, w)
      else
        (case target_lookup ord nm of
           None \<Rightarrow> (ORDINAL_OK, ord, w)
         | Some p \<Rightarrow>
             (let ti = p - 1 in
              if target_count ord \<le> ti then (ORDINAL_ERROR_NO_TARGET, ord, w)
              else if in_stack (targets ord ! ti) then (ORDINAL_ERROR_CIRCULAR, ord, w)
              else if visited (targets ord ! ti) then (ORDINAL_OK, ord, w)
              else
                (let ord1 = set_target ord ti (\<lambda>t. t\<lparr>in_stack := True\<rparr>);
                     ord2 = resolve_target_deps env w ord1 ti
                 in case fold (build_dep (\<lambda>o1 w1 dep. build_target env o1 w1 dep (depth + 1)))
                           (resolved_deps (targets ord2 ! ti)) (None, ord2, w) of
                      (Some err, ord3, w3) \<Rightarrow>
                        (err,
                         set_target ord3 ti
                           (\<lambda>t. t\<lparr>in_stack := False, t_status := ORDINAL_STATUS_FAILED\<rparr>),
                         w3)
                    | (None, ord3, w3) \<Rightarrow>
                        (let ord4 = resolve_command ord3 ti in
                         if \<not> needs_rebuild w3 ord4 (targets ord4 ! ti) then
                           (ORDINAL_OK,
                            (set_target ord4 ti
                               (\<lambda>t. t\<lparr>t_status := ORDINAL_STATUS_UP_TO_DATE, visited := True,
                                       in_stack := False\<rparr>))
                              \<lparr>result := (result ord4)
                                 \<lparr>targets_up_to_date := targets_up_to_date (result ord4) + 1\<rparr>\<rparr>,
                            w3)
                         else
                           (case execute_command env ord4 w3 ti of
                              (err, ord5, w5) \<Rightarrow>
                                (let ord6 =
                                       (set_target ord5 ti
                                          (\<lambda>t. t\<lparr>visited := True, in_stack := False\<rparr>))
                                         \<lparr>result := (result ord5)
                                            \<lparr>targets_total := targets_total (result ord5) + 1\<rparr>\<rparr>
                                 in if err \<noteq> ORDINAL_OK then
                                      (err,
                                       ord6\<lparr>result := (result ord6)
                                              \<lparr>targets_failed := targets_failed (result ord6) + 1\<rparr>\<rparr>,
                                       w5)
                                    else if t_status (targets ord6 ! ti) = ORDINAL_STATUS_REBUILT then
                                      (ORDINAL_OK,
                                       ord6\<lparr>result := (result ord6)
                                              \<lparr>targets_rebuilt := targets_rebuilt (result ord6) + 1\<rparr>\<rparr>,
                                       w5)
                                    else if t_status (targets ord6 ! ti) = ORDINAL_STATUS_SKIPPED then
                                      (ORDINAL_OK,
                                       ord6\<lparr>result := (result ord6)
                                              \<lparr>targets_skipped := targets_skipped (result ord6) + 1\<rparr>\<rparr>,
                                       w5)
                                    else (ORDINAL_OK, ord6, w5))))))))"
  by pat_completeness auto
termination
  by (relation "measure (\<lambda>(env, ord, w, nm, depth). Suc ORD_MAX_RECURSION - depth)") auto

text \<open>
  \<open>ordinal_run\<close> for a non-NULL context; \<open>tgt\<close> is the target argument, \<open>None\<close> for NULL.
\<close>

definition ordinal_run ::
  "Env \<Rightarrow> Ordinal \<Rightarrow> World \<Rightarrow> bytes option \<Rightarrow> ordinal_error_t \<times> Ordinal \<times> World" where
  "ordinal_run env ord w tgt =
     (let target_name =
            (case tgt of
               Some n \<Rightarrow> Some n
             | None \<Rightarrow>
                 (case default_target ord of
                    Some d \<Rightarrow> Some d
                  | None \<Rightarrow>
                      if 0 < target_count ord then Some (t_name (hd (targets ord))) else None))
      in case target_name of
           None \<Rightarrow> (ORDINAL_ERROR_NO_TARGET, ord, w)
         | Some nm \<Rightarrow>
             (case target_lookup ord nm of
                None \<Rightarrow> (ORDINAL_ERROR_NO_TARGET, ord, w)
              | Some p \<Rightarrow>
                  (let ord1 = ord\<lparr>result := OrdinalResult_zero,
                                  targets :=
                                    map (\<lambda>t. t\<lparr>visited := False, in_stack := False,
                                                t_status := ORDINAL_STATUS_PENDING\<rparr>)
                                      (targets ord)\<rparr>
                   in if (case directory (config ord1) of
                            None \<Rightarrow> False
                          | Some d \<Rightarrow> \<not> env_chdir env d)
                      then (ORDINAL_ERROR_IO, ord1, w)
                      else
                        (case build_target env ord1 w nm 0 of
                           (err, ord2, w2) \<Rightarrow>
                             (err,
                              ord2\<lparr>result := (result ord2)\<lparr>success := (err = ORDINAL_OK)\<rparr>\<rparr>,
                              w2)))))"

declare build_target.simps [simp del] replace_all.simps [simp del] decimal.simps [simp del]
  split_spaces.simps [simp del]

section \<open>ZORYA-INI: the configuration parser (zorya_ini.h, zorya_ini.c)\<close>

text \<open>
  The entries table maps a full key to its \<open>IniEntry\<close>; an entry reached through the
  pointer stored in the table is the value stored in the slot, and a write through that
  pointer is an update of the slot. The interned \<open>section\<close>, \<open>key\<close> and \<open>raw_value\<close> of
  an entry are their bytes, \<open>None\<close> for a NULL Weave; the pool of the Tablet is not part of
  the context, so the NULL that \<open>tablet_intern\<close> returns for a string met before whose pool
  entry sits in a cuckoo slot is not modelled (no string of the evaluations below is in that
  case: lemma \<open>shadowed_strings_interned\<close>). The \<open>parsed\<close>
  value of an entry (a union with a \<open>double\<close>) is left out as well. The fields of an entry
  carry the prefix \<open>e_\<close> where the name is taken (\<open>section\<close>, \<open>key\<close>, \<open>line\<close>), those of
  \<open>ZoryaIniParseError\<close> the prefix \<open>err_\<close>, and the table is \<open>ini_entries\<close>. Allocations
  succeed in this part of the model, and strings hold no NUL byte.
\<close>

datatype zorya_ini_error_t =
  ZORYA_INI_OK | ZORYA_INI_ERROR_NULLPTR | ZORYA_INI_ERROR_NOMEM | ZORYA_INI_ERROR_IO
| ZORYA_INI_ERROR_SYNTAX | ZORYA_INI_ERROR_NOT_FOUND | ZORYA_INI_ERROR_TYPE
| ZORYA_INI_ERROR_CIRCULAR | ZORYA_INI_ERROR_INCLUDE | ZORYA_INI_ERROR_INTERP

datatype zorya_ini_type_t =
  ZORYA_INI_TYPE_STRING | ZORYA_INI_TYPE_INT | ZORYA_INI_TYPE_FLOAT | ZORYA_INI_TYPE_BOOL
| ZORYA_INI_TYPE_PATH | ZORYA_INI_TYPE_URL | ZORYA_INI_TYPE_DATE | ZORYA_INI_TYPE_DATETIME
| ZORYA_INI_TYPE_ARRAY

definition INI_MAX_LINE_LENGTH :: nat where "INI_MAX_LINE_LENGTH = 4096"
definition INI_MAX_KEY_LENGTH :: nat where "INI_MAX_KEY_LENGTH = 256"
definition INI_MAX_SECTION_LENGTH :: nat where "INI_MAX_SECTION_LENGTH = 256"
definition INI_MAX_INCLUDE_DEPTH :: nat where "INI_MAX_INCLUDE_DEPTH = 16"
definition INI_INITIAL_CAPACITY :: nat where "INI_INITIAL_CAPACITY = 64"
definition INTERP_MAX_DEPTH :: nat where "INTERP_MAX_DEPTH = 32"
definition INTERP_MAX_OUTPUT :: nat where "INTERP_MAX_OUTPUT = 65536"

record IniEntry =
  e_section :: "bytes option"
  e_key :: "bytes option"
  raw_value :: "bytes option"
  resolved_value :: "bytes option"
  hint :: zorya_ini_type_t
  e_line :: int

record ZoryaIniParseError =
  err_line :: int
  err_column :: int
  err_message :: "bytes option"
  err_file :: "bytes option"

text \<open>
  \<open>include_depth\<close> is not a field here: it is the argument \<open>depth\<close> of the parser, which
  the source increments before a nested \<open>parse_buffer\<close> and decrements after it.
\<close>

record ZoryaIni =
  ini_entries :: "IniEntry DaggerTable"
  sections :: "bytes list"
  section_capacity :: nat
  base_path :: "bytes option"
  last_error :: ZoryaIniParseError
  key_count :: nat
  include_count :: nat

definition zorya_ini_new :: ZoryaIni where
  "zorya_ini_new =
     \<lparr>ini_entries = dagger_create INI_INITIAL_CAPACITY, sections = [], section_capacity = 16,
      base_path = None,
      last_error = \<lparr>err_line = 0, err_column = 0, err_message = None, err_file = None\<rparr>,
      key_count = 0, include_count = 0\<rparr>"


text \<open>\<open>weave_cstr\<close> of an interned string: the empty string for NULL.\<close>

definition weave_cstr :: "bytes option \<Rightarrow> bytes" where
  "weave_cstr w = (case w of None \<Rightarrow> [] | Some s \<Rightarrow> s)"

text \<open>\<open>'.'\<close> is 46.\<close>

definition make_full_key :: "bytes \<Rightarrow> bytes \<Rightarrow> bytes" where
  "make_full_key sc k = (if sc = [] then k else sc @ [46] @ k)"

text \<open>
  \<open>zorya_ini_get\<close> for a non-NULL key: the resolved value when there is one, the raw value
  otherwise. The lookup statistics that \<open>dagger_get\<close> advances are not kept.
\<close>

definition zorya_ini_get :: "ZoryaIni \<Rightarrow> bytes \<Rightarrow> bytes option" where
  "zorya_ini_get ini k =
     (case dagger_get (ini_entries ini) (Some (take (length k mod 2 ^ 32) k)) of
        (r, v, T') \<Rightarrow>
          (case v of
             None \<Rightarrow> None
           | Some entry \<Rightarrow>
               if r \<noteq> DAGGER_OK then None
               else (case resolved_value entry of
                       Some rv \<Rightarrow> Some rv
                     | None \<Rightarrow> Some (weave_cstr (raw_value entry)))))"

subsection \<open>Interpolation\<close>

text \<open>String literals of the interpolation engine, as bytes.\<close>

definition S_DOLLAR_BRACE :: bytes where "S_DOLLAR_BRACE = [36, 123]"
definition S_COLON_DASH :: bytes where "S_COLON_DASH = [58, 45]"
definition S_ENV_COLON :: bytes where "S_ENV_COLON = [101, 110, 118, 58]"
definition S_DEFAULT :: bytes where "S_DEFAULT = [100, 101, 102, 97, 117, 108, 116]"
definition S_PROJECT :: bytes where "S_PROJECT = [112, 114, 111, 106, 101, 99, 116]"
definition S_ENV :: bytes where "S_ENV = [101, 110, 118]"

text \<open>\<open>strstr(s, pat)\<close>: the offset of the first occurrence, \<open>None\<close> for NULL.\<close>

fun find_sub :: "bytes \<Rightarrow> bytes \<Rightarrow> nat option" where
  "find_sub pat [] = (if pat = [] then Some 0 else None)"
| "find_sub pat (c # cs) =
     (if take (length pat) (c # cs) = pat then Some 0 else map_option Suc (find_sub pat cs))"

text \<open>\<open>strchr(s, c)\<close>: the offset of the first \<open>c\<close>.\<close>

fun find_char :: "u8 \<Rightarrow> bytes \<Rightarrow> nat option" where
  "find_char c [] = None"
| "find_char c (x # xs) = (if x = c then Some 0 else map_option Suc (find_char c xs))"

text \<open>
  The brace matching of \<open>resolve_string\<close>, from \<open>start\<close> with \<open>brace_depth\<close> (1 at first):
  the offset of the closing brace, \<open>None\<close> when the string ends first. \<open>'{'\<close> is 123 and
  \<open>'}'\<close> is 125.
\<close>

fun find_close :: "bytes \<Rightarrow> nat \<Rightarrow> nat option" where
  "find_close [] d = None"
| "find_close (c # cs) d =
     (if c = 123 then map_option Suc (find_close cs (d + 1))
      else if c = 125 then (if d = 1 then Some 0 else map_option Suc (find_close cs (d - 1)))
      else map_option Suc (find_close cs d))"

text \<open>
  \<open>while (need > out_cap) { out_cap *= 2; if (out_cap > INTERP_MAX_OUTPUT) return NULL; }\<close>:
  the capacity afterwards, \<open>None\<close> for the \<open>return NULL\<close>. \<open>out_cap\<close> is at least 64 from
  its initialisation; for the capacity 0, which doubling never leaves, the model gives
  \<open>None\<close>.
\<close>

function grow_out :: "nat \<Rightarrow> nat \<Rightarrow> nat option" where
  "grow_out need out_cap =
     (if out_cap < need then
        (if out_cap = 0 \<or> INTERP_MAX_OUTPUT < out_cap * 2 then None
         else grow_out need (out_cap * 2))
      else Some out_cap)"
  by pat_completeness auto
termination
  by (relation "measure (\<lambda>(need, out_cap). Suc INTERP_MAX_OUTPUT - out_cap)")
     (auto simp: INTERP_MAX_OUTPUT_def)

text \<open>
  \<open>resolve_string\<close> for a non-NULL string, its loop \<open>resolve_loop\<close> (\<open>p\<close> is the rest of the
  string, \<open>out\<close> the output so far) and \<open>find_variable\<close> for a non-NULL name. \<open>genv\<close> is
  \<open>getenv\<close>. \<open>None\<close> is NULL. \<open>'$'\<close> is 36, \<open>'_'\<close> is 95, \<open>'@'\<close> is 64, \<open>':'\<close> is 58; the
  literals are \<open>${\<close>, \<open>:-\<close>, \<open>env:\<close>, \<open>default\<close>, \<open>project\<close> and \<open>env\<close>.
\<close>

function resolve_string ::
    "(bytes \<Rightarrow> bytes option) \<Rightarrow> ZoryaIni \<Rightarrow> bytes \<Rightarrow> bytes \<Rightarrow> nat \<Rightarrow> bytes option"
  and resolve_loop ::
    "(bytes \<Rightarrow> bytes option) \<Rightarrow> ZoryaIni \<Rightarrow> bytes \<Rightarrow> nat \<Rightarrow> bytes \<Rightarrow> bytes \<Rightarrow> nat \<Rightarrow>
     bytes option"
  and find_variable ::
    "(bytes \<Rightarrow> bytes option) \<Rightarrow> ZoryaIni \<Rightarrow> bytes \<Rightarrow> bytes \<Rightarrow> nat \<Rightarrow> bytes option" where
  "resolve_string genv ini str current_section depth =
     (if INTERP_MAX_DEPTH < depth then None
      else if 36 \<notin> set str then Some str
      else resolve_loop genv ini current_section depth str []
             (if INTERP_MAX_OUTPUT < length str * 2 + 64 then INTERP_MAX_OUTPUT
              else length str * 2 + 64))"
| "resolve_loop genv ini current_section depth p out out_cap =
     (if p = [] then Some out
      else
        (case (if take 2 p = S_DOLLAR_BRACE then find_close (drop 2 p) 1 else None) of
           Some n \<Rightarrow>
             (let var_name = take n (drop 2 p); rest = drop (n + 3) p in
              if take 1 var_name = [95] then
                (case grow_out (length out + (n + 3) + 1) out_cap of
                   None \<Rightarrow> None
                 | Some cap' \<Rightarrow>
                     resolve_loop genv ini current_section depth rest
                       (out @ S_DOLLAR_BRACE @ var_name @ [125]) cap')
              else
                (case find_variable genv ini var_name current_section depth of
                   Some resolved \<Rightarrow>
                     (case grow_out (length out + length resolved + 1) out_cap of
                        None \<Rightarrow> None
                      | Some cap' \<Rightarrow>
                          resolve_loop genv ini current_section depth rest (out @ resolved) cap')
                 | None \<Rightarrow> resolve_loop genv ini current_section depth rest out out_cap))
         | None \<Rightarrow>
             (if out_cap \<le> length out + 1 then
                (if INTERP_MAX_OUTPUT < out_cap * 2 then None
                 else resolve_loop genv ini current_section depth (tl p) (out @ [hd p])
                        (out_cap * 2))
              else resolve_loop genv ini current_section depth (tl p) (out @ [hd p]) out_cap)))"
| "find_variable genv ini var_name0 current_section depth =
     (if var_name0 = [] then None
      else
        (let default_sep = find_sub S_COLON_DASH var_name0;
             var_name = (case default_sep of None \<Rightarrow> var_name0 | Some i \<Rightarrow> take i var_name0);
             default_val = (case default_sep of
                              None \<Rightarrow> None
                            | Some i \<Rightarrow> Some (drop (i + 2) var_name0));
             result =
               (if take 4 var_name = S_ENV_COLON then genv (drop 4 var_name)
                else if take 1 var_name = [64] then
                  (case find_char 58 (drop 1 var_name) of
                     None \<Rightarrow> None
                   | Some j \<Rightarrow>
                       (case zorya_ini_get ini
                               (make_full_key (take j (drop 1 var_name))
                                  (drop (j + 2) var_name)) of
                          None \<Rightarrow> None
                        | Some v \<Rightarrow> resolve_string genv ini v current_section (depth + 1)))
                else
                  (case (if current_section \<noteq> []
                         then zorya_ini_get ini (make_full_key current_section var_name)
                         else None) of
                     Some v \<Rightarrow> resolve_string genv ini v current_section (depth + 1)
                   | None \<Rightarrow>
                       (case zorya_ini_get ini var_name of
                          Some v \<Rightarrow> resolve_string genv ini v current_section (depth + 1)
                        | None \<Rightarrow>
                            (case zorya_ini_get ini (make_full_key S_DEFAULT var_name) of
                               Some v \<Rightarrow> resolve_string genv ini v S_DEFAULT (depth + 1)
                             | None \<Rightarrow>
                                 (case zorya_ini_get ini (make_full_key S_PROJECT var_name) of
                                    Some v \<Rightarrow> resolve_string genv ini v S_PROJECT (depth + 1)
                                  | None \<Rightarrow>
                                      (case zorya_ini_get ini (make_full_key S_ENV var_name) of
                                         Some v \<Rightarrow>
                                           resolve_string genv ini v S_ENV (depth + 1)
                                       | None \<Rightarrow> None))))))
         in case result of
              Some r \<Rightarrow> Some r
            | None \<Rightarrow>
                (case default_val of
                   None \<Rightarrow> None
                 | Some d \<Rightarrow> resolve_string genv ini d current_section (depth + 1))))"
  by pat_completeness auto
termination
  by (relation "inv_image (measure id <*lex*> measure id)
        (\<lambda>x. case x of
           Inl (genv, ini, str, cs, depth) \<Rightarrow>
             (if INTERP_MAX_DEPTH < depth then 0 else (Suc INTERP_MAX_DEPTH - depth) * 3 + 3, 0)
         | Inr (Inl (genv, ini, cs, depth, p, out, out_cap)) \<Rightarrow>
             ((Suc INTERP_MAX_DEPTH - depth) * 3 + 2, length p)
         | Inr (Inr (genv, ini, var_name, cs, depth)) \<Rightarrow>
             ((Suc INTERP_MAX_DEPTH - depth) * 3 + 1, 0))")
     (auto simp: INTERP_MAX_DEPTH_def)

declare resolve_string.simps [simp del] resolve_loop.simps [simp del]
  find_variable.simps [simp del] grow_out.simps [simp del]

subsection \<open>Entries and sections\<close>

text \<open>String literals of the parser, as bytes.\<close>

definition H_INT :: bytes where "H_INT = [105, 110, 116]"
definition H_FLOAT :: bytes where "H_FLOAT = [102, 108, 111, 97, 116]"
definition H_BOOL :: bytes where "H_BOOL = [98, 111, 111, 108]"
definition H_PATH :: bytes where "H_PATH = [112, 97, 116, 104]"
definition H_URL :: bytes where "H_URL = [117, 114, 108]"
definition H_DATE :: bytes where "H_DATE = [100, 97, 116, 101]"
definition H_DATETIME :: bytes where "H_DATETIME = [100, 97, 116, 101, 116, 105, 109, 101]"
definition H_STR :: bytes where "H_STR = [115, 116, 114]"
definition S_INCLUDE :: bytes where "S_INCLUDE = [105, 110, 99, 108, 117, 100, 101]"

text \<open>\<open>add_section\<close>: the names are appended to the array, which doubles when full.\<close>

definition add_section :: "ZoryaIni \<Rightarrow> bytes \<Rightarrow> ZoryaIni" where
  "add_section ini sc =
     (if sc \<in> set (sections ini) then ini
      else ini\<lparr>sections := sections ini @ [sc],
               section_capacity :=
                 (if section_capacity ini \<le> length (sections ini) then section_capacity ini * 2
                  else section_capacity ini)\<rparr>)"

text \<open>
  \<open>parse_type_hint\<close> for a non-NULL hint; the literals are \<open>int\<close>, \<open>float\<close>, \<open>bool\<close>,
  \<open>path\<close>, \<open>url\<close>, \<open>date\<close>, \<open>datetime\<close>, \<open>str\<close>, and the suffix \<open>[]\<close> is 91, 93.
\<close>

definition parse_type_hint :: "bytes \<Rightarrow> zorya_ini_type_t" where
  "parse_type_hint h =
     (if h = H_INT then ZORYA_INI_TYPE_INT
      else if h = H_FLOAT then ZORYA_INI_TYPE_FLOAT
      else if h = H_BOOL then ZORYA_INI_TYPE_BOOL
      else if h = H_PATH then ZORYA_INI_TYPE_PATH
      else if h = H_URL then ZORYA_INI_TYPE_URL
      else if h = H_DATE then ZORYA_INI_TYPE_DATE
      else if h = H_DATETIME then ZORYA_INI_TYPE_DATETIME
      else if h = H_STR then ZORYA_INI_TYPE_STRING
      else if 2 < length h \<and> drop (length h - 2) h = [91, 93] then ZORYA_INI_TYPE_ARRAY
      else ZORYA_INI_TYPE_STRING)"

text \<open>
  What \<open>tablet_intern\<close> returns for a string in \<open>add_entry\<close>: NULL for the empty string
  (the pool refuses a key of length 0), the interned string otherwise.
\<close>

definition intern_cstr :: "bytes \<Rightarrow> bytes option" where
  "intern_cstr s = (if s = [] then None else Some s)"

text \<open>
  \<open>add_entry\<close>; the whole is \<open>None\<close> when the insertion into the table does not return.
  A \<open>dagger_set\<close> that fails is reported as \<open>ZORYA_INI_ERROR_NOMEM\<close>.
\<close>

definition add_entry ::
  "ZoryaIni \<Rightarrow> bytes \<Rightarrow> bytes \<Rightarrow> bytes \<Rightarrow> zorya_ini_type_t \<Rightarrow> int \<Rightarrow>
   (zorya_ini_error_t \<times> ZoryaIni) option" where
  "add_entry ini sc k v h ln =
     (let full_key = make_full_key sc k;
          entry = \<lparr>e_section = intern_cstr sc, e_key = intern_cstr k,
                   raw_value = intern_cstr v, resolved_value = None, hint = h, e_line = ln\<rparr>
      in case dagger_set (ini_entries ini)
                (Some (take (length full_key mod 2 ^ 32) full_key)) (Some entry) True True of
           None \<Rightarrow> None
         | Some (r, T) \<Rightarrow>
             if r \<noteq> DAGGER_OK then Some (ZORYA_INI_ERROR_NOMEM, ini\<lparr>ini_entries := T\<rparr>)
             else Some (ZORYA_INI_OK, ini\<lparr>ini_entries := T, key_count := key_count ini + 1\<rparr>))"

subsection \<open>resolve_all_interpolations\<close>

text \<open>
  One call of \<open>resolve_entry_callback\<close> by \<open>dagger_foreach\<close>, on slot \<open>i\<close>. The state is the
  error of the \<open>InterpContext\<close> and the context; once the callback has returned 1 the
  iteration has stopped and the remaining slots are left alone.
\<close>

definition resolve_slot ::
  "(bytes \<Rightarrow> bytes option) \<Rightarrow> nat \<Rightarrow> zorya_ini_error_t \<times> ZoryaIni \<Rightarrow>
   zorya_ini_error_t \<times> ZoryaIni" where
  "resolve_slot genv i st =
     (case st of
        (err, ini) \<Rightarrow>
          if err \<noteq> ZORYA_INI_OK then st
          else
            (let slot = entries (ini_entries ini) ! i in
             if \<not> occupied slot then st
             else
               (case val slot of
                  None \<Rightarrow> st
                | Some entry \<Rightarrow>
                    (case raw_value entry of
                       None \<Rightarrow> st
                     | Some raw_str \<Rightarrow>
                         if 36 \<notin> set raw_str then st
                         else
                           (case resolve_string genv ini raw_str (weave_cstr (e_section entry)) 0 of
                              None \<Rightarrow> (ZORYA_INI_ERROR_INTERP, ini)
                            | Some resolved \<Rightarrow>
                                (err,
                                 ini\<lparr>ini_entries := (ini_entries ini)
                                       \<lparr>entries :=
                                          list_update (entries (ini_entries ini)) i
                                            (slot\<lparr>val := Some (entry\<lparr>resolved_value :=
                                                                      Some resolved\<rparr>)\<rparr>)\<rparr>\<rparr>))))))"

definition resolve_all_interpolations ::
  "(bytes \<Rightarrow> bytes option) \<Rightarrow> ZoryaIni \<Rightarrow> zorya_ini_error_t \<times> ZoryaIni" where
  "resolve_all_interpolations genv ini =
     fold (resolve_slot genv) [0..<capacity (ini_entries ini)] (ZORYA_INI_OK, ini)"

subsection \<open>parse_buffer\<close>

text \<open>\<open>' '\<close> is 32, \<open>'\t'\<close> is 9, \<open>'\r'\<close> is 13, \<open>'\n'\<close> is 10.\<close>

definition skip_ws :: "bytes \<Rightarrow> bytes" where
  "skip_ws s = dropWhile (\<lambda>c. c = 32 \<or> c = 9) s"

definition trim_trailing :: "bytes \<Rightarrow> bytes" where
  "trim_trailing s = rev (dropWhile (\<lambda>c. c = 32 \<or> c = 9 \<or> c = 13 \<or> c = 10) (rev s))"

text \<open>\<open>get_directory\<close> and \<open>join_path\<close>; \<open>'/'\<close> is 47 and \<open>"."\<close> is 46.\<close>

definition get_directory :: "bytes \<Rightarrow> bytes" where
  "get_directory path =
     (if 47 \<notin> set path then [46]
      else (let n = length path - length (takeWhile (\<lambda>c. c \<noteq> 47) (rev path)) - 1 in
            if n = 0 then [47] else take n path))"

text \<open>
  A NULL \<open>base_path\<close> (the context of a buffer load) with a relative file is outside C's
  defined behaviour; the model takes the empty string for it.
\<close>

definition join_path :: "bytes option \<Rightarrow> bytes \<Rightarrow> bytes" where
  "join_path base file =
     (if take 1 file = [47] then file else weave_cstr base @ [47] @ file)"

text \<open>
  The line read by an iteration of the loop, at most \<open>INI_MAX_LINE_LENGTH - 1\<close> bytes up to
  a newline, and the rest of the buffer behind it and its newline.
\<close>

definition read_line :: "bytes \<Rightarrow> bytes \<times> bytes" where
  "read_line p =
     (let ln = takeWhile (\<lambda>c. c \<noteq> 10) (take (INI_MAX_LINE_LENGTH - 1) p);
          rest = drop (length ln) p
      in (ln, if take 1 rest = [10] then drop 1 rest else rest))"

text \<open>
  The branch of the loop body that a line takes once a pending multi-line value has been
  dealt with: what the body extracts from the line before it acts. \<open>'#'\<close> is 35, \<open>';'\<close>
  59, \<open>':'\<close> 58, \<open>'='\<close> 61, \<open>'['\<close> 91, \<open>']'\<close> 93, \<open>'?'\<close> 63; the literals are \<open>::\<close> and
  \<open>include\<close>.
\<close>

datatype line_action =
  LINE_BLANK
| LINE_COMMENT
| LINE_INCLUDE bool bytes
| LINE_DIRECTIVE
| LINE_SECTION bytes
| LINE_INVALID
| LINE_MULTILINE bytes zorya_ini_type_t
| LINE_VALUE bytes zorya_ini_type_t bytes

definition classify_line :: "bytes \<Rightarrow> line_action" where
  "classify_line line_buf =
     (let lp = skip_ws line_buf in
      if lp = [] then LINE_BLANK
      else if hd lp = 35 \<or> hd lp = 59 then LINE_COMMENT
      else if take 2 lp = [58, 58] then
        (let d = drop 2 lp in
         if take 7 d = S_INCLUDE then
           (let optional = (take 1 (drop 7 d) = [63]);
                d2 = (if optional then drop 8 d else drop 7 d)
            in LINE_INCLUDE optional (trim_trailing (skip_ws d2)))
         else LINE_DIRECTIVE)
      else if hd lp = 91 then LINE_SECTION (takeWhile (\<lambda>c. c \<noteq> 93) (tl lp))
      else
        (let ks = takeWhile (\<lambda>c. c \<noteq> 61 \<and> c \<noteq> 58) lp;
             after = drop (length ks) lp
         in if after = [] then LINE_INVALID
            else
              (let k = rev (dropWhile (\<lambda>c. c = 32 \<or> c = 9) (rev ks)) in
               if k = [] \<or> INI_MAX_KEY_LENGTH \<le> length k then LINE_INVALID
               else
                 (let hs = takeWhile (\<lambda>c. c \<noteq> 61 \<and> c \<noteq> 32 \<and> c \<noteq> 9) (tl after);
                      h = (if hd after = 58 \<and> 0 < length hs \<and> length hs < 32
                           then parse_type_hint hs else ZORYA_INI_TYPE_STRING);
                      after2 = (if hd after = 58
                                then dropWhile (\<lambda>c. c \<noteq> 61) (drop (length hs) (tl after))
                                else after)
                  in if take 1 after2 \<noteq> [61] then LINE_INVALID
                     else
                       (let v = skip_ws (tl after2) in
                        if v = [] then LINE_MULTILINE k h
                        else LINE_VALUE k h
                               (trim_trailing (take (INI_MAX_LINE_LENGTH - 1) v)))))))"

text \<open>The local variables of \<open>parse_buffer\<close> that live across the iterations.\<close>

record ParseVars =
  current_section :: bytes
  in_multiline :: bool
  pending_key :: bytes
  pending_hint :: zorya_ini_type_t
  value_buf :: bytes
  line_num :: int
  value_start_line :: int

definition ParseVars_init :: ParseVars where
  "ParseVars_init =
     \<lparr>current_section = [], in_multiline = False, pending_key = [],
      pending_hint = ZORYA_INI_TYPE_STRING, value_buf = [], line_num = 0,
      value_start_line = 0\<rparr>"

text \<open>
  A continuation line is appended to \<open>value_buf\<close>, of size \<open>INI_MAX_LINE_LENGTH * 4\<close>, behind
  a newline when the buffer is not empty, and dropped when it does not fit.
\<close>

definition append_continuation :: "bytes \<Rightarrow> bytes \<Rightarrow> bytes" where
  "append_continuation vb content =
     (if length vb + length content + 2 < INI_MAX_LINE_LENGTH * 4
      then (if vb = [] then content else vb @ [10] @ content)
      else vb)"

text \<open>
  The body of the loop of \<open>parse_buffer\<close> for the line \<open>line_buf\<close> (the carriage return
  removed, \<open>line_num\<close> advanced). \<open>fsys\<close> gives the bytes that \<open>fopen\<close> and \<open>fread\<close> deliver
  for a path, \<open>None\<close> when \<open>fopen\<close> fails. \<open>nested\<close> is the recursive call
  \<open>parse_buffer(ini, inc_data, inc_read, inc_path)\<close>, and \<open>None\<close> when
  \<open>include_depth >= INI_MAX_INCLUDE_DEPTH\<close>. The first component of the result is \<open>Some err\<close>
  for \<open>return err\<close> and \<open>None\<close> for \<open>continue\<close>. The result of \<open>add_entry\<close> is not looked at
  by the source. The whole is \<open>None\<close> when an insertion into the table does not return.
\<close>

definition parse_step ::
  "(ZoryaIni \<Rightarrow> bytes \<Rightarrow> (zorya_ini_error_t \<times> ZoryaIni) option) option \<Rightarrow>
   (bytes \<Rightarrow> bytes option) \<Rightarrow> ZoryaIni \<Rightarrow> ParseVars \<Rightarrow> bytes \<Rightarrow>
   (zorya_ini_error_t option \<times> ZoryaIni \<times> ParseVars) option" where
  "parse_step nested fsys ini vars1 line_buf =
     (if in_multiline vars1 \<and> (take 1 line_buf = [32] \<or> take 1 line_buf = [9]) then
        Some (None, ini,
              vars1\<lparr>value_buf := append_continuation (value_buf vars1) (skip_ws line_buf)\<rparr>)
      else
        (case (if in_multiline vars1
               then add_entry ini (current_section vars1) (pending_key vars1)
                      (value_buf vars1) (pending_hint vars1) (value_start_line vars1)
               else Some (ZORYA_INI_OK, ini)) of
           None \<Rightarrow> None
         | Some (e0, ini1) \<Rightarrow>
             (let vars2 = (if in_multiline vars1
                           then vars1\<lparr>in_multiline := False, pending_key := [], value_buf := []\<rparr>
                           else vars1)
              in case classify_line line_buf of
                   LINE_BLANK \<Rightarrow> Some (None, ini1, vars2)
                 | LINE_COMMENT \<Rightarrow> Some (None, ini1, vars2)
                 | LINE_DIRECTIVE \<Rightarrow> Some (None, ini1, vars2)
                 | LINE_INVALID \<Rightarrow> Some (None, ini1, vars2)
                 | LINE_INCLUDE optional file \<Rightarrow>
                     (let inc_path = join_path (base_path ini1) file in
                      case nested of
                        None \<Rightarrow> Some (Some ZORYA_INI_ERROR_CIRCULAR, ini1, vars2)
                      | Some parse_nested \<Rightarrow>
                          (case fsys inc_path of
                             None \<Rightarrow>
                               if optional then Some (None, ini1, vars2)
                               else Some (Some ZORYA_INI_ERROR_INCLUDE, ini1, vars2)
                           | Some inc_data \<Rightarrow>
                               (case parse_nested
                                       (ini1\<lparr>base_path := Some (get_directory inc_path),
                                             include_count := include_count ini1 + 1\<rparr>)
                                       inc_data of
                                  None \<Rightarrow> None
                                | Some (inc_err, ini2) \<Rightarrow>
                                    if inc_err \<noteq> ZORYA_INI_OK
                                    then Some (Some inc_err, ini2\<lparr>base_path := base_path ini1\<rparr>,
                                               vars2)
                                    else Some (None, ini2\<lparr>base_path := base_path ini1\<rparr>,
                                               vars2))))
                 | LINE_SECTION sc \<Rightarrow>
                     if 0 < length sc \<and> length sc < INI_MAX_SECTION_LENGTH
                     then Some (None, add_section ini1 sc, vars2\<lparr>current_section := sc\<rparr>)
                     else Some (None, ini1, vars2)
                 | LINE_MULTILINE k h \<Rightarrow>
                     Some (None, ini1,
                           vars2\<lparr>in_multiline := True,
                                  pending_key := take (INI_MAX_KEY_LENGTH - 1) k,
                                  pending_hint := h, value_buf := [],
                                  value_start_line := line_num vars2\<rparr>)
                 | LINE_VALUE k h v \<Rightarrow>
                     (case add_entry ini1 (current_section vars2) k v h (line_num vars2) of
                        None \<Rightarrow> None
                      | Some (e, ini2) \<Rightarrow> Some (None, ini2, vars2)))))"

text \<open>The line of an iteration with its trailing carriage return removed.\<close>

definition strip_cr :: "bytes \<Rightarrow> bytes" where
  "strip_cr ln = (if ln \<noteq> [] \<and> last ln = 13 then butlast ln else ln)"

text \<open>
  \<open>parse_buffer\<close> and its loop; \<open>depth\<close> is \<open>ini->include_depth\<close>. The loop returns
  \<open>Some err\<close> in the first component when it is left by \<open>return err\<close>.
\<close>

function parse_buffer ::
    "(bytes \<Rightarrow> bytes option) \<Rightarrow> (bytes \<Rightarrow> bytes option) \<Rightarrow> nat \<Rightarrow> ZoryaIni \<Rightarrow> bytes \<Rightarrow>
     (zorya_ini_error_t \<times> ZoryaIni) option"
  and parse_loop ::
    "(bytes \<Rightarrow> bytes option) \<Rightarrow> (bytes \<Rightarrow> bytes option) \<Rightarrow> nat \<Rightarrow> ZoryaIni \<Rightarrow> ParseVars \<Rightarrow>
     bytes \<Rightarrow> (zorya_ini_error_t option \<times> ZoryaIni \<times> ParseVars) option" where
  "parse_buffer fsys genv depth ini buf =
     (case parse_loop fsys genv depth ini ParseVars_init buf of
        None \<Rightarrow> None
      | Some (Some err, ini1, vars) \<Rightarrow> Some (err, ini1)
      | Some (None, ini1, vars) \<Rightarrow>
          (case (if in_multiline vars \<and> pending_key vars \<noteq> []
                 then add_entry ini1 (current_section vars) (pending_key vars) (value_buf vars)
                        (pending_hint vars) (value_start_line vars)
                 else Some (ZORYA_INI_OK, ini1)) of
             None \<Rightarrow> None
           | Some (e, ini2) \<Rightarrow>
               if depth = 0 then
                 (case resolve_all_interpolations genv ini2 of
                    (interp_err, ini3) \<Rightarrow>
                      if interp_err \<noteq> ZORYA_INI_OK then Some (interp_err, ini3)
                      else Some (ZORYA_INI_OK, ini3))
               else Some (ZORYA_INI_OK, ini2)))"
| "parse_loop fsys genv depth ini vars p =
     (if p = [] then Some (None, ini, vars)
      else
        (case parse_step
                (if INI_MAX_INCLUDE_DEPTH \<le> depth then None
                 else Some (\<lambda>ini1 inc_data. parse_buffer fsys genv (depth + 1) ini1 inc_data))
                fsys ini (vars\<lparr>line_num := line_num vars + 1\<rparr>)
                (strip_cr (fst (read_line p))) of
           None \<Rightarrow> None
         | Some (Some err, ini', vars') \<Rightarrow> Some (Some err, ini', vars')
         | Some (None, ini', vars') \<Rightarrow> parse_loop fsys genv depth ini' vars' (snd (read_line p))))"
  by pat_completeness auto

termination
proof -
  have shorter: "length (snd (read_line p)) < length p" if ne: "p \<noteq> []" for p
  proof -
    let ?ln = "takeWhile (\<lambda>c. c \<noteq> 10) (take (INI_MAX_LINE_LENGTH - 1) p)"
    show ?thesis
    proof (cases "?ln = []")
      case True
      from ne obtain c cs where p: "p = c # cs" by (cases p) auto
      with True have "c = 10" by (auto simp: INI_MAX_LINE_LENGTH_def split: if_splits)
      with p show ?thesis by (simp add: read_line_def INI_MAX_LINE_LENGTH_def)
    next
      case False
      then have "0 < length ?ln" by simp
      moreover have "0 < length p" using ne by simp
      ultimately show ?thesis by (simp add: read_line_def Let_def)
    qed
  qed
  show ?thesis
    by (relation "inv_image (measure id <*lex*> measure id)
          (\<lambda>x. case x of
             Inl (fsys, genv, depth, ini, buf) \<Rightarrow>
               (INI_MAX_INCLUDE_DEPTH - depth, Suc (length buf))
           | Inr (fsys, genv, depth, ini, vars, p) \<Rightarrow>
               (INI_MAX_INCLUDE_DEPTH - depth, length p))")
       (auto simp: shorter)
qed

declare parse_buffer.simps [simp del] parse_loop.simps [simp del]

text \<open>\<open>zorya_ini_load_buffer\<close> for a non-NULL context and buffer.\<close>

definition zorya_ini_load_buffer ::
  "(bytes \<Rightarrow> bytes option) \<Rightarrow> (bytes \<Rightarrow> bytes option) \<Rightarrow> ZoryaIni \<Rightarrow> bytes \<Rightarrow>
   (zorya_ini_error_t \<times> ZoryaIni) option" where
  "zorya_ini_load_buffer fsys genv ini buf = parse_buffer fsys genv 0 ini buf"

subsection \<open>Nested calls of the parser\<close>


section \<open>Inputs of the evaluations\<close>

text \<open>
  Keys are three ASCII letters, written as bytes. The primary hash of each of the first
  seventeen keys of \<open>colliding_pairs\<close>, and of \<open>giv\<close> (\<open>[103, 105, 118]\<close>), selects slot 2 of a
  256-slot table.
\<close>

definition colliding_pairs :: "(u8 list \<times> nat) list" where
  "colliding_pairs =
       [
        ([97, 115, 120], 1), ([98, 118, 101], 2), ([98, 118, 119], 3), ([98, 120, 112], 4),
        ([99, 99, 111], 5), ([99, 112, 99], 6), ([99, 120, 98], 7), ([100, 100, 114], 8),
        ([100, 114, 122], 9), ([101, 97, 100], 10), ([101, 110, 109], 11), ([101, 110, 111], 12),
        ([102, 120, 112], 13), ([103, 97, 116], 14), ([103, 101, 101], 15), ([103, 101, 114], 16),
        ([103, 103, 117], 17), ([103, 105, 118], 18)]"

definition cluster_pairs :: "(u8 list \<times> nat) list" where
  "cluster_pairs =
       [
        ([97, 115, 120], 1), ([98, 118, 101], 2), ([98, 118, 119], 3), ([98, 120, 112], 4),
        ([99, 99, 111], 5), ([99, 112, 99], 6), ([99, 120, 98], 7), ([100, 100, 114], 8),
        ([100, 114, 122], 9), ([101, 97, 100], 10), ([101, 110, 109], 11), ([101, 110, 111], 12),
        ([102, 120, 112], 13), ([103, 97, 116], 14), ([103, 101, 101], 15), ([103, 101, 114], 16),
        ([103, 103, 117], 17),
        ([97, 97, 113], 18)]"

definition slot2_strings :: "u8 list list" where
  "slot2_strings =
     [[97, 115, 120], [98, 118, 101], [98, 118, 119], [98, 120, 112],
      [99, 99, 111], [99, 112, 99], [99, 120, 98], [100, 100, 114],
      [100, 114, 122], [101, 97, 100], [101, 110, 109], [101, 110, 111],
      [102, 120, 112], [103, 97, 116], [103, 101, 101], [103, 101, 114],
      [103, 103, 117]]"

text \<open>A store holding one Weave as \<open>tablet_intern_len\<close> leaves it.\<close>

definition interned_giv :: Weave where
  "interned_giv = \<lparr>len = 3, cap = 3, flags = WEAVE_FLAG_INTERNED OR WEAVE_FLAG_READONLY,
                   data = [103, 105, 118, 0]\<rparr>"

definition interned_store :: store where
  "interned_store = (\<lambda>_. None)(InArena 0 0 \<mapsto> interned_giv)"

text \<open>
  The context after \<open>add_target\<close> for the sections \<open>[A]\<close> and \<open>[B]\<close> of
  \<^verbatim>\<open>[A] deps = B, command = echo A\<close> and \<^verbatim>\<open>[B] deps = A, command = echo B\<close>; neither
  section has a \<open>target\<close> key. \<open>A\<close> is the byte 65 and \<open>B\<close> is 66.
\<close>

definition cycle_ini :: IniView where
  "cycle_ini =
     \<lparr>ini_get = map_of
        [([65, 46, 100, 101, 112, 115], [66]), ([65, 46, 99, 111, 109, 109, 97, 110, 100], [101, 99, 104, 111, 32, 65]),
         ([66, 46, 100, 101, 112, 115], [65]), ([66, 46, 99, 111, 109, 109, 97, 110, 100], [101, 99, 104, 111, 32, 66])],
      ini_get_array = (\<lambda>k. None)\<rparr>"

definition cycle_ord :: "Ordinal option" where
  "cycle_ord =
     Option.bind (add_target cycle_ini (ordinal_new [108, 105, 110, 117, 120] [120, 56, 54, 95, 54, 52] 4 None) [65] [65])
       (\<lambda>ord. add_target cycle_ini ord [66] [66])"

text \<open>
  An environment in which every command succeeds and changes no file, \<open>glob\<close> matches
  nothing and \<open>chdir\<close> succeeds; and a world without files.
\<close>

definition quiet_env :: Env where
  "quiet_env =
     \<lparr>env_system = (\<lambda>cmd f. (0, f)), env_glob = (\<lambda>f p. (GLOB_NOMATCH, [p])),
      env_chdir = (\<lambda>d. True)\<rparr>"

definition empty_world :: World where
  "empty_world = \<lparr>fs = (\<lambda>p. None), trace = []\<rparr>"

text \<open>
  The context for \<^verbatim>\<open>[A] deps = C | B, command = echo A\<close>, \<^verbatim>\<open>[B] deps = A, command = echo B\<close>
  and \<^verbatim>\<open>[C] command = echo C\<close>: the cycle of \<open>A\<close> and \<open>B\<close> stands behind a dependency of \<open>A\<close>
  that is a target of its own. \<open>C\<close> is the byte 67.
\<close>

definition chain_ini :: IniView where
  "chain_ini =
     \<lparr>ini_get = map_of
        [([65, 46, 100, 101, 112, 115], [67, 32, 124, 32, 66]), ([65, 46, 99, 111, 109, 109, 97, 110, 100], [101, 99, 104, 111, 32, 65]),
         ([66, 46, 100, 101, 112, 115], [65]), ([66, 46, 99, 111, 109, 109, 97, 110, 100], [101, 99, 104, 111, 32, 66]), ([67, 46, 99, 111, 109, 109, 97, 110, 100], [101, 99, 104, 111, 32, 67])],
      ini_get_array = map_of [([65, 46, 100, 101, 112, 115], [[67], [66]])]\<rparr>"

definition chain_ord :: "Ordinal option" where
  "chain_ord =
     Option.bind (add_target chain_ini (ordinal_new [108, 105, 110, 117, 120] [120, 56, 54, 95, 54, 52] 4 None) [65] [65])
       (\<lambda>ord. Option.bind (add_target chain_ini ord [66] [66])
          (\<lambda>ord. add_target chain_ini ord [67] [67]))"

text \<open>
  A context of nineteen targets: seventeen named \<open>asx\<close> to \<open>ggu\<close>, whose sections hold
  nothing, then \<^verbatim>\<open>[aip] deps = app, command = echo aip\<close> and
  \<^verbatim>\<open>[app] deps = aip, command = echo app\<close>. The primary hash of \<open>aip\<close> selects slot 2 of the
  target map, as those of the seventeen do.
\<close>

definition crowded_ini :: IniView where
  "crowded_ini =
     \<lparr>ini_get = map_of
        [([97, 105, 112, 46, 100, 101, 112, 115], [97, 112, 112]), ([97, 105, 112, 46, 99, 111, 109, 109, 97, 110, 100], [101, 99, 104, 111, 32, 97, 105, 112]),
         ([97, 112, 112, 46, 100, 101, 112, 115], [97, 105, 112]), ([97, 112, 112, 46, 99, 111, 109, 109, 97, 110, 100], [101, 99, 104, 111, 32, 97, 112, 112])],
      ini_get_array = (\<lambda>k. None)\<rparr>"

definition crowded_ord :: "Ordinal option" where
  "crowded_ord =
     add_targets crowded_ini (ordinal_new [108, 105, 110, 117, 120] [120, 56, 54, 95, 54, 52] 4 None)
       [[97, 115, 120], [98, 118, 101], [98, 118, 119], [98, 120, 112], [99, 99, 111], [99, 112, 99], [99, 120, 98], [100, 100, 114], [100, 114, 122], [101, 97, 100], [101, 110, 109], [101, 110, 111], [102, 120, 112], [103, 97, 116], [103, 101, 101], [103, 101, 114], [103, 103, 117], [97, 105, 112], [97, 112, 112]]"

text \<open>
  The context for the one section \<^verbatim>\<open>[A] target = out, command = echo A\<close>, and a world in
  which the file \<open>out\<close> exists with the modification time 0.
\<close>

definition epoch_ini :: IniView where
  "epoch_ini =
     \<lparr>ini_get = map_of [([65, 46, 116, 97, 114, 103, 101, 116], [111, 117, 116]), ([65, 46, 99, 111, 109, 109, 97, 110, 100], [101, 99, 104, 111, 32, 65])],
      ini_get_array = (\<lambda>k. None)\<rparr>"

definition epoch_ord :: "Ordinal option" where
  "epoch_ord = add_target epoch_ini (ordinal_new [108, 105, 110, 117, 120] [120, 56, 54, 95, 54, 52] 4 None) [65] [65]"

definition epoch_world :: World where
  "epoch_world = \<lparr>fs = (\<lambda>p. if p = [111, 117, 116] then Some 0 else None), trace = []\<rparr>"

text \<open>
  Two arenas of one 4096-byte chunk that have served before: 200 bytes, respectively 248
  bytes, were allocated and the arena was reset. They differ in \<open>peak_allocated\<close> only,
  200 and 248, which \<open>arena_reset\<close> keeps.
\<close>

definition reused_arena :: Arena where
  "reused_arena = arena_reset (snd (arena_alloc (the (arena_create 4096 True)) 200 True))"

definition reused_arena_248 :: Arena where
  "reused_arena_248 = arena_reset (snd (arena_alloc (the (arena_create 4096 True)) 248 True))"

text \<open>
  An environment without variables and without files, and a buffer whose first line has
  no \<open>=\<close>: \<^verbatim>\<open>oops\<close>, then \<^verbatim>\<open>k = v\<close>.
\<close>

definition no_env :: "bytes \<Rightarrow> bytes option" where
  "no_env v = None"

definition no_files :: "bytes \<Rightarrow> bytes option" where
  "no_files path = None"


text \<open>
  A configuration of twenty entries: seventeen top-level lines \<^verbatim>\<open>asx = 1\<close> to
  \<^verbatim>\<open>ggu = 1\<close> (the keys of \<open>slot2_strings\<close>, whose primary hash selects slot 2 of the
  64-slot table as well), the top-level line \<^verbatim>\<open>afy = top\<close>, then the section \<^verbatim>\<open>[app]\<close> with
  \<^verbatim>\<open>afy = sec\<close> and \<^verbatim>\<open>dir = ${afy}\<close>. The primary hash of the full key \<open>app.afy\<close> selects
  slot 2 too.
\<close>

definition shadowed_buf :: bytes where
  "shadowed_buf =
     [97, 115, 120, 32, 61, 32, 49, 10, 98, 118, 101, 32, 61, 32, 49, 10, 98, 118, 119, 32, 61,
      32, 49, 10, 98, 120, 112, 32, 61, 32, 49, 10, 99, 99, 111, 32, 61, 32, 49, 10, 99, 112,
      99, 32, 61, 32, 49, 10, 99, 120, 98, 32, 61, 32, 49, 10, 100, 100, 114, 32, 61, 32, 49,
      10, 100, 114, 122, 32, 61, 32, 49, 10, 101, 97, 100, 32, 61, 32, 49, 10, 101, 110, 109,
      32, 61, 32, 49, 10, 101, 110, 111, 32, 61, 32, 49, 10, 102, 120, 112, 32, 61, 32, 49, 10,
      103, 97, 116, 32, 61, 32, 49, 10, 103, 101, 101, 32, 61, 32, 49, 10, 103, 101, 114, 32,
      61, 32, 49, 10, 103, 103, 117, 32, 61, 32, 49, 10, 97, 102, 121, 32, 61, 32, 116, 111,
      112, 10, 91, 97, 112, 112, 93, 10, 97, 102, 121, 32, 61, 32, 115, 101, 99, 10, 100, 105,
      114, 32, 61, 32, 36, 123, 97, 102, 121, 125, 10]"

text \<open>The buffer made of the given lines, each followed by a newline.\<close>

definition buffer_of_lines :: "bytes list \<Rightarrow> bytes" where
  "buffer_of_lines ls = concat (map (\<lambda>l. l @ [10]) ls)"

text \<open>The lines of \<open>shadowed_buf\<close>.\<close>

definition shadowed_lines :: "bytes list" where
  "shadowed_lines =
     [[97, 115, 120, 32, 61, 32, 49],
      [98, 118, 101, 32, 61, 32, 49],
      [98, 118, 119, 32, 61, 32, 49],
      [98, 120, 112, 32, 61, 32, 49],
      [99, 99, 111, 32, 61, 32, 49],
      [99, 112, 99, 32, 61, 32, 49],
      [99, 120, 98, 32, 61, 32, 49],
      [100, 100, 114, 32, 61, 32, 49],
      [100, 114, 122, 32, 61, 32, 49],
      [101, 97, 100, 32, 61, 32, 49],
      [101, 110, 109, 32, 61, 32, 49],
      [101, 110, 111, 32, 61, 32, 49],
      [102, 120, 112, 32, 61, 32, 49],
      [103, 97, 116, 32, 61, 32, 49],
      [103, 101, 101, 32, 61, 32, 49],
      [103, 101, 114, 32, 61, 32, 49],
      [103, 103, 117, 32, 61, 32, 49],
      [97, 102, 121, 32, 61, 32, 116, 111, 112],
      [91, 97, 112, 112, 93],
      [97, 102, 121, 32, 61, 32, 115, 101, 99],
      [100, 105, 114, 32, 61, 32, 36, 123, 97, 102, 121, 125]]"

definition shadowed_ini :: ZoryaIni where
  "shadowed_ini = snd (the (zorya_ini_load_buffer no_files no_env zorya_ini_new shadowed_buf))"

text \<open>
  The strings that \<open>add_entry\<close> hands to \<open>tablet_intern\<close> during the load of
  \<open>shadowed_buf\<close>, in order: the section, the key and the value of each entry.
\<close>

definition shadowed_strings :: "bytes list" where
  "shadowed_strings =
     [[], [97, 115, 120], [49],
      [], [98, 118, 101], [49],
      [], [98, 118, 119], [49],
      [], [98, 120, 112], [49],
      [], [99, 99, 111], [49],
      [], [99, 112, 99], [49],
      [], [99, 120, 98], [49],
      [], [100, 100, 114], [49],
      [], [100, 114, 122], [49],
      [], [101, 97, 100], [49],
      [], [101, 110, 109], [49],
      [], [101, 110, 111], [49],
      [], [102, 120, 112], [49],
      [], [103, 97, 116], [49],
      [], [103, 101, 101], [49],
      [], [103, 101, 114], [49],
      [], [103, 103, 117], [49],
      [], [97, 102, 121], [116, 111, 112],
      [97, 112, 112], [97, 102, 121], [115, 101, 99],
      [97, 112, 112], [100, 105, 114], [36, 123, 97, 102, 121, 125]]"

section \<open>Theorems\<close>

lemmas nxh_consts =
  NXH_PRIME_NEXUS_def NXH_PRIME_VOID_def NXH_PRIME_ECHO_def NXH_PRIME_PULSE_def
  NXH_PRIME_DRIFT_def NXH_PRIME_ALT_1_def NXH_PRIME_ALT_2_def NXH_SEED_DEFAULT_def
  NXH_SEED_ALT_def

lemmas dagger_consts =
  DAGGER_PSL_THRESHOLD_def DAGGER_MAX_CUCKOO_CYCLES_def DAGGER_INITIAL_CAPACITY_def
  DAGGER_LOAD_FACTOR_PERCENT_def DAGGER_MIN_CAPACITY_def DAGGER_GROWTH_FACTOR_def


text \<open>
  C10 (the code departs from the claim): \<open>nxh64(NULL, 5, 0)\<close> and \<open>nxh64_alt(NULL, 5, 0)\<close>
  are not defined calls. Both functions of nxh.c compute \<open>end = p + len\<close> on the NULL pointer
  before they test \<open>data == NULL && len != 0\<close>, so the fixed digest of that test is returned
  only after an undefined step; the header-only build of nxh.h has no such test and goes on
  to read through the pointer. The claim wants the call total and well defined.
\<close>

theorem nxh64_null_data_undefined:
  "nxh64 None 5 0 = None \<and> nxh64_alt None 5 0 = None \<and>
   nxh64_header_only None 5 0 = None \<and> nxh64_alt_header_only None 5 0 = None"
  by (simp add: nxh64_def nxh64_alt_def nxh64_header_only_def nxh64_alt_header_only_def
        nxh_end_defined_def)

declare dagger_get_phase1.simps [simp del] dagger_get_phase2.simps [simp del]
  dagger_remove_phase1.simps [simp del] dagger_remove_phase2.simps [simp del]

subsection \<open>DAGGER: hashes of the keys used below\<close>

text \<open>
  The keys are three-letter ASCII strings. Seventeen of them, \<open>asx\<close> to \<open>ggu\<close>, and
  \<open>giv\<close> and \<open>bop\<close> have a primary hash that selects slot 2 of a 256-slot table;
  \<open>aaq\<close> selects slot 19.
\<close>

lemma nxh64_asx: "nxh64_bytes [97, 115, 120] NXH_SEED_DEFAULT = 13912255254988117762"
  unfolding nxh64_bytes_def by (simp add: nxh_rotl64_def nxh_consts nxh_avalanche_def)

lemma slot_asx: "unat (nxh64_bytes [97, 115, 120] NXH_SEED_DEFAULT AND 255) = 2"
  by (simp add: nxh64_asx)

lemma nxh64_bve: "nxh64_bytes [98, 118, 101] NXH_SEED_DEFAULT = 12826606446721685250"
  unfolding nxh64_bytes_def by (simp add: nxh_rotl64_def nxh_consts nxh_avalanche_def)

lemma slot_bve: "unat (nxh64_bytes [98, 118, 101] NXH_SEED_DEFAULT AND 255) = 2"
  by (simp add: nxh64_bve)

lemma nxh64_bvw: "nxh64_bytes [98, 118, 119] NXH_SEED_DEFAULT = 8832656011305344002"
  unfolding nxh64_bytes_def by (simp add: nxh_rotl64_def nxh_consts nxh_avalanche_def)

lemma slot_bvw: "unat (nxh64_bytes [98, 118, 119] NXH_SEED_DEFAULT AND 255) = 2"
  by (simp add: nxh64_bvw)

lemma nxh64_bxp: "nxh64_bytes [98, 120, 112] NXH_SEED_DEFAULT = 12923929573188628994"
  unfolding nxh64_bytes_def by (simp add: nxh_rotl64_def nxh_consts nxh_avalanche_def)

lemma slot_bxp: "unat (nxh64_bytes [98, 120, 112] NXH_SEED_DEFAULT AND 255) = 2"
  by (simp add: nxh64_bxp)

lemma nxh64_cco: "nxh64_bytes [99, 99, 111] NXH_SEED_DEFAULT = 18355404894241511426"
  unfolding nxh64_bytes_def by (simp add: nxh_rotl64_def nxh_consts nxh_avalanche_def)

lemma slot_cco: "unat (nxh64_bytes [99, 99, 111] NXH_SEED_DEFAULT AND 255) = 2"
  by (simp add: nxh64_cco)

lemma nxh64_cpc: "nxh64_bytes [99, 112, 99] NXH_SEED_DEFAULT = 12131113427045220098"
  unfolding nxh64_bytes_def by (simp add: nxh_rotl64_def nxh_consts nxh_avalanche_def)

lemma slot_cpc: "unat (nxh64_bytes [99, 112, 99] NXH_SEED_DEFAULT AND 255) = 2"
  by (simp add: nxh64_cpc)

lemma nxh64_cxb: "nxh64_bytes [99, 120, 98] NXH_SEED_DEFAULT = 18378468038463196418"
  unfolding nxh64_bytes_def by (simp add: nxh_rotl64_def nxh_consts nxh_avalanche_def)

lemma slot_cxb: "unat (nxh64_bytes [99, 120, 98] NXH_SEED_DEFAULT AND 255) = 2"
  by (simp add: nxh64_cxb)

lemma nxh64_ddr: "nxh64_bytes [100, 100, 114] NXH_SEED_DEFAULT = 3389857688092695810"
  unfolding nxh64_bytes_def by (simp add: nxh_rotl64_def nxh_consts nxh_avalanche_def)

lemma slot_ddr: "unat (nxh64_bytes [100, 100, 114] NXH_SEED_DEFAULT AND 255) = 2"
  by (simp add: nxh64_ddr)

lemma nxh64_drz: "nxh64_bytes [100, 114, 122] NXH_SEED_DEFAULT = 734452292069944834"
  unfolding nxh64_bytes_def by (simp add: nxh_rotl64_def nxh_consts nxh_avalanche_def)

lemma slot_drz: "unat (nxh64_bytes [100, 114, 122] NXH_SEED_DEFAULT AND 255) = 2"
  by (simp add: nxh64_drz)

lemma nxh64_ead: "nxh64_bytes [101, 97, 100] NXH_SEED_DEFAULT = 17094334491940358146"
  unfolding nxh64_bytes_def by (simp add: nxh_rotl64_def nxh_consts nxh_avalanche_def)

lemma slot_ead: "unat (nxh64_bytes [101, 97, 100] NXH_SEED_DEFAULT AND 255) = 2"
  by (simp add: nxh64_ead)

lemma nxh64_enm: "nxh64_bytes [101, 110, 109] NXH_SEED_DEFAULT = 648104557754168578"
  unfolding nxh64_bytes_def by (simp add: nxh_rotl64_def nxh_consts nxh_avalanche_def)

lemma slot_enm: "unat (nxh64_bytes [101, 110, 109] NXH_SEED_DEFAULT AND 255) = 2"
  by (simp add: nxh64_enm)

lemma nxh64_eno: "nxh64_bytes [101, 110, 111] NXH_SEED_DEFAULT = 14568676291771695106"
  unfolding nxh64_bytes_def by (simp add: nxh_rotl64_def nxh_consts nxh_avalanche_def)

lemma slot_eno: "unat (nxh64_bytes [101, 110, 111] NXH_SEED_DEFAULT AND 255) = 2"
  by (simp add: nxh64_eno)

lemma nxh64_fxp: "nxh64_bytes [102, 120, 112] NXH_SEED_DEFAULT = 5197860674656812546"
  unfolding nxh64_bytes_def by (simp add: nxh_rotl64_def nxh_consts nxh_avalanche_def)

lemma slot_fxp: "unat (nxh64_bytes [102, 120, 112] NXH_SEED_DEFAULT AND 255) = 2"
  by (simp add: nxh64_fxp)

lemma nxh64_gat: "nxh64_bytes [103, 97, 116] NXH_SEED_DEFAULT = 4492123144518016002"
  unfolding nxh64_bytes_def by (simp add: nxh_rotl64_def nxh_consts nxh_avalanche_def)

lemma slot_gat: "unat (nxh64_bytes [103, 97, 116] NXH_SEED_DEFAULT AND 255) = 2"
  by (simp add: nxh64_gat)

lemma nxh64_gee: "nxh64_bytes [103, 101, 101] NXH_SEED_DEFAULT = 9049935946018717954"
  unfolding nxh64_bytes_def by (simp add: nxh_rotl64_def nxh_consts nxh_avalanche_def)

lemma slot_gee: "unat (nxh64_bytes [103, 101, 101] NXH_SEED_DEFAULT AND 255) = 2"
  by (simp add: nxh64_gee)

lemma nxh64_ger: "nxh64_bytes [103, 101, 114] NXH_SEED_DEFAULT = 3094442695818493186"
  unfolding nxh64_bytes_def by (simp add: nxh_rotl64_def nxh_consts nxh_avalanche_def)

lemma slot_ger: "unat (nxh64_bytes [103, 101, 114] NXH_SEED_DEFAULT AND 255) = 2"
  by (simp add: nxh64_ger)

lemma nxh64_ggu: "nxh64_bytes [103, 103, 117] NXH_SEED_DEFAULT = 13997103698256595458"
  unfolding nxh64_bytes_def by (simp add: nxh_rotl64_def nxh_consts nxh_avalanche_def)

lemma slot_ggu: "unat (nxh64_bytes [103, 103, 117] NXH_SEED_DEFAULT AND 255) = 2"
  by (simp add: nxh64_ggu)

lemma nxh64_giv: "nxh64_bytes [103, 105, 118] NXH_SEED_DEFAULT = 8876547047107393794"
  unfolding nxh64_bytes_def by (simp add: nxh_rotl64_def nxh_consts nxh_avalanche_def)

lemma slot_giv: "unat (nxh64_bytes [103, 105, 118] NXH_SEED_DEFAULT AND 255) = 2"
  by (simp add: nxh64_giv)

lemma nxh64_aaq: "nxh64_bytes [97, 97, 113] NXH_SEED_DEFAULT = 13093409470825295379"
  unfolding nxh64_bytes_def by (simp add: nxh_rotl64_def nxh_consts nxh_avalanche_def)

lemma slot_aaq: "unat (nxh64_bytes [97, 97, 113] NXH_SEED_DEFAULT AND 255) = 19"
  by (simp add: nxh64_aaq)

lemma nxh64_bop: "nxh64_bytes [98, 111, 112] NXH_SEED_DEFAULT = 14127082617551782658"
  unfolding nxh64_bytes_def by (simp add: nxh_rotl64_def nxh_consts nxh_avalanche_def)

lemma slot_bop: "unat (nxh64_bytes [98, 111, 112] NXH_SEED_DEFAULT AND 255) = 2"
  by (simp add: nxh64_bop)

lemma nxh64_alt_giv: "nxh64_alt_bytes [103, 105, 118] NXH_SEED_ALT = 11307785609720015244"
  unfolding nxh64_alt_bytes_def by (simp add: nxh_rotl64_def nxh_consts nxh_avalanche_alt_def)

lemma slot_alt_giv: "unat (nxh64_alt_bytes [103, 105, 118] NXH_SEED_ALT AND 255) = 140"
  by (simp add: nxh64_alt_giv)

lemma nxh64_alt_bop: "nxh64_alt_bytes [98, 111, 112] NXH_SEED_ALT = 4147914230826937602"
  unfolding nxh64_alt_bytes_def by (simp add: nxh_rotl64_def nxh_consts nxh_avalanche_alt_def)

lemma slot_alt_bop: "unat (nxh64_alt_bytes [98, 111, 112] NXH_SEED_ALT AND 255) = 2"
  by (simp add: nxh64_alt_bop)

lemmas slot_simps =
  slot_asx slot_bve slot_bvw slot_bxp slot_cco slot_cpc
  slot_cxb slot_ddr slot_drz slot_ead slot_enm slot_eno
  slot_fxp slot_gat slot_gee slot_ger slot_ggu slot_giv
  slot_aaq slot_bop slot_alt_giv slot_alt_bop

text \<open>
  In a table of 64 slots the primary hash of each of the seventeen keys \<open>asx\<close> to \<open>ggu\<close>
  selects slot 2 as well.
\<close>

lemma slot64_asx: "unat (nxh64_bytes [97, 115, 120] NXH_SEED_DEFAULT AND 63) = 2"
  by (simp add: nxh64_asx)

lemma slot64_bve: "unat (nxh64_bytes [98, 118, 101] NXH_SEED_DEFAULT AND 63) = 2"
  by (simp add: nxh64_bve)

lemma slot64_bvw: "unat (nxh64_bytes [98, 118, 119] NXH_SEED_DEFAULT AND 63) = 2"
  by (simp add: nxh64_bvw)

lemma slot64_bxp: "unat (nxh64_bytes [98, 120, 112] NXH_SEED_DEFAULT AND 63) = 2"
  by (simp add: nxh64_bxp)

lemma slot64_cco: "unat (nxh64_bytes [99, 99, 111] NXH_SEED_DEFAULT AND 63) = 2"
  by (simp add: nxh64_cco)

lemma slot64_cpc: "unat (nxh64_bytes [99, 112, 99] NXH_SEED_DEFAULT AND 63) = 2"
  by (simp add: nxh64_cpc)

lemma slot64_cxb: "unat (nxh64_bytes [99, 120, 98] NXH_SEED_DEFAULT AND 63) = 2"
  by (simp add: nxh64_cxb)

lemma slot64_ddr: "unat (nxh64_bytes [100, 100, 114] NXH_SEED_DEFAULT AND 63) = 2"
  by (simp add: nxh64_ddr)

lemma slot64_drz: "unat (nxh64_bytes [100, 114, 122] NXH_SEED_DEFAULT AND 63) = 2"
  by (simp add: nxh64_drz)

lemma slot64_ead: "unat (nxh64_bytes [101, 97, 100] NXH_SEED_DEFAULT AND 63) = 2"
  by (simp add: nxh64_ead)

lemma slot64_enm: "unat (nxh64_bytes [101, 110, 109] NXH_SEED_DEFAULT AND 63) = 2"
  by (simp add: nxh64_enm)

lemma slot64_eno: "unat (nxh64_bytes [101, 110, 111] NXH_SEED_DEFAULT AND 63) = 2"
  by (simp add: nxh64_eno)

lemma slot64_fxp: "unat (nxh64_bytes [102, 120, 112] NXH_SEED_DEFAULT AND 63) = 2"
  by (simp add: nxh64_fxp)

lemma slot64_gat: "unat (nxh64_bytes [103, 97, 116] NXH_SEED_DEFAULT AND 63) = 2"
  by (simp add: nxh64_gat)

lemma slot64_gee: "unat (nxh64_bytes [103, 101, 101] NXH_SEED_DEFAULT AND 63) = 2"
  by (simp add: nxh64_gee)

lemma slot64_ger: "unat (nxh64_bytes [103, 101, 114] NXH_SEED_DEFAULT AND 63) = 2"
  by (simp add: nxh64_ger)

lemma slot64_ggu: "unat (nxh64_bytes [103, 103, 117] NXH_SEED_DEFAULT AND 63) = 2"
  by (simp add: nxh64_ggu)

lemmas slot64_cluster =
  slot64_asx slot64_bve slot64_bvw slot64_bxp slot64_cco slot64_cpc
  slot64_cxb slot64_ddr slot64_drz slot64_ead slot64_enm slot64_eno
  slot64_fxp slot64_gat slot64_gee slot64_ger slot64_ggu

subsection \<open>DAGGER: the loops, one iteration at a time\<close>

text \<open>
  Each lemma is one path through the body of a loop, stated for any table. They are the
  rewrite rules by which the concrete runs below are evaluated.
\<close>

lemma and_mask_255: "(n::nat) AND 255 = n mod 256"
proof -
  have "n AND mask 8 = n mod 2 ^ 8"
    by (simp flip: take_bit_eq_mask add: take_bit_eq_mod)
  moreover have "mask 8 = (255::nat)"
    by (simp add: mask_eq_exp_minus_1)
  ultimately show ?thesis by simp
qed

lemma and_mask_63: "(n::nat) AND 63 = n mod 64"
proof -
  have "n AND mask 6 = n mod 2 ^ 6"
    by (simp flip: take_bit_eq_mask add: take_bit_eq_mod)
  moreover have "mask 6 = (63::nat)"
    by (simp add: mask_eq_exp_minus_1)
  ultimately show ?thesis by simp
qed

lemma dagger_create_256:
  "dagger_create 256 =
     \<lparr>entries = replicate 256 dagger_entry_zero, capacity = 256, count = 0, mask_t = 255,
      seed_primary = NXH_SEED_DEFAULT, seed_alternate = NXH_SEED_ALT,
      max_psl = 0, cuckoo_count = 0, resize_count = 0, total_probes = 0,
      total_lookups = 0\<rparr>"
  by (simp add: dagger_create_def dagger_next_pow2_def dagger_consts)

lemma dagger_insert_loop_empty:
  "\<not> occupied (entries T ! idx) \<Longrightarrow>
   dagger_insert_loop k klen v h1 ar (T, entry, idx, cyc, ph) =
     Some (DAGGER_OK,
           T\<lparr>entries := list_update (entries T) idx (entry\<lparr>in_cuckoo := ph\<rparr>),
             count := count T + 1,
             cuckoo_count := (if ph then cuckoo_count T + 1 else cuckoo_count T),
             max_psl := (if max_psl T < unat (psl entry) then unat (psl entry) else max_psl T)\<rparr>)"
  by (subst dagger_insert_loop.simps) (simp add: dagger_insert_step_def)

lemma dagger_insert_loop_exists:
  "occupied (entries T ! idx) \<Longrightarrow> hash_primary (entries T ! idx) = h1 \<Longrightarrow>
   key_len (entries T ! idx) = klen \<Longrightarrow>
   dagger_key_eq_default (key (entries T ! idx)) (key_len (entries T ! idx)) k klen \<Longrightarrow>
   dagger_insert_loop k klen v h1 False (T, entry, idx, cyc, ph) = Some (DAGGER_EXISTS, T)"
  by (subst dagger_insert_loop.simps) (simp add: dagger_insert_step_def)

lemma dagger_insert_loop_advance:
  "occupied (entries T ! idx) \<Longrightarrow>
   \<not> dagger_key_eq_default (key (entries T ! idx)) (key_len (entries T ! idx)) k klen \<Longrightarrow>
   \<not> psl (entries T ! idx) < psl entry \<Longrightarrow>
   unat (psl entry + 1) \<le> DAGGER_PSL_THRESHOLD \<Longrightarrow>
   dagger_insert_loop k klen v h1 ar (T, entry, idx, cyc, False) =
   dagger_insert_loop k klen v h1 ar
     (T, entry\<lparr>psl := psl entry + 1\<rparr>, (idx + 1) AND mask_t T, cyc, False)"
  by (subst dagger_insert_loop.simps) (simp add: dagger_insert_step_def)

lemma dagger_insert_loop_switch:
  "occupied (entries T ! idx) \<Longrightarrow>
   \<not> dagger_key_eq_default (key (entries T ! idx)) (key_len (entries T ! idx)) k klen \<Longrightarrow>
   \<not> psl (entries T ! idx) < psl entry \<Longrightarrow>
   DAGGER_PSL_THRESHOLD < unat (psl entry + 1) \<Longrightarrow>
   dagger_insert_loop k klen v h1 ar (T, entry, idx, cyc, False) =
   dagger_insert_loop k klen v h1 ar
     (T, entry\<lparr>psl := 0\<rparr>, dagger_slot T (hash_alternate entry), 1, True)"
  by (subst dagger_insert_loop.simps)
     (simp add: dagger_insert_step_def DAGGER_MAX_CUCKOO_CYCLES_def)

lemma dagger_insert_loop_advance_cuckoo:
  "occupied (entries T ! idx) \<Longrightarrow>
   \<not> dagger_key_eq_default (key (entries T ! idx)) (key_len (entries T ! idx)) k klen \<Longrightarrow>
   \<not> psl (entries T ! idx) < psl entry \<Longrightarrow>
   cyc + 1 \<le> DAGGER_MAX_CUCKOO_CYCLES \<Longrightarrow>
   dagger_insert_loop k klen v h1 ar (T, entry, idx, cyc, True) =
   dagger_insert_loop k klen v h1 ar
     (T, entry\<lparr>psl := psl entry + 1\<rparr>, (idx + 1) AND mask_t T, cyc + 1, True)"
  by (subst dagger_insert_loop.simps) (simp add: dagger_insert_step_def)

lemmas dagger_insert_loop_rules =
  dagger_insert_loop_empty dagger_insert_loop_exists dagger_insert_loop_advance
  dagger_insert_loop_switch dagger_insert_loop_advance_cuckoo

lemma dagger_get_phase1_empty:
  "\<not> occupied (entries T ! idx) \<Longrightarrow>
   dagger_get_phase1 T k klen h1 idx probes0 = Inl (DAGGER_NOT_FOUND, None, probes0 + 1)"
  by (subst dagger_get_phase1.simps) simp

lemma dagger_get_phase1_found:
  "occupied (entries T ! idx) \<Longrightarrow> hash_primary (entries T ! idx) = h1 \<Longrightarrow>
   key_len (entries T ! idx) = klen \<Longrightarrow>
   dagger_key_eq_default (key (entries T ! idx)) (key_len (entries T ! idx)) k klen \<Longrightarrow>
   dagger_get_phase1 T k klen h1 idx probes0 =
     Inl (DAGGER_OK, val (entries T ! idx), probes0 + 1)"
  by (subst dagger_get_phase1.simps) simp

lemma dagger_get_phase1_break:
  "occupied (entries T ! idx) \<Longrightarrow>
   \<not> dagger_key_eq_default (key (entries T ! idx)) (key_len (entries T ! idx)) k klen \<Longrightarrow>
   unat (psl (entries T ! idx)) < probes0 \<or> DAGGER_PSL_THRESHOLD + 1 < probes0 + 1 \<Longrightarrow>
   dagger_get_phase1 T k klen h1 idx probes0 = Inr (probes0 + 1)"
  by (subst dagger_get_phase1.simps) auto

lemma dagger_get_phase1_advance:
  "occupied (entries T ! idx) \<Longrightarrow>
   \<not> dagger_key_eq_default (key (entries T ! idx)) (key_len (entries T ! idx)) k klen \<Longrightarrow>
   \<not> unat (psl (entries T ! idx)) < probes0 \<Longrightarrow>
   \<not> DAGGER_PSL_THRESHOLD + 1 < probes0 + 1 \<Longrightarrow>
   dagger_get_phase1 T k klen h1 idx probes0 =
   dagger_get_phase1 T k klen h1 ((idx + 1) AND mask_t T) (probes0 + 1)"
  by (subst dagger_get_phase1.simps) simp

lemma dagger_get_phase2_done:
  "\<not> i \<le> DAGGER_PSL_THRESHOLD \<Longrightarrow>
   dagger_get_phase2 T k klen h2 idx i probes0 = (DAGGER_NOT_FOUND, None, probes0)"
  by (subst dagger_get_phase2.simps) simp

lemma dagger_get_phase2_empty:
  "i \<le> DAGGER_PSL_THRESHOLD \<Longrightarrow> \<not> occupied (entries T ! idx) \<Longrightarrow>
   dagger_get_phase2 T k klen h2 idx i probes0 = (DAGGER_NOT_FOUND, None, probes0 + 1)"
  by (subst dagger_get_phase2.simps) simp

lemma dagger_get_phase2_found:
  "i \<le> DAGGER_PSL_THRESHOLD \<Longrightarrow> occupied (entries T ! idx) \<Longrightarrow>
   in_cuckoo (entries T ! idx) \<Longrightarrow> hash_alternate (entries T ! idx) = h2 \<Longrightarrow>
   key_len (entries T ! idx) = klen \<Longrightarrow>
   dagger_key_eq_default (key (entries T ! idx)) (key_len (entries T ! idx)) k klen \<Longrightarrow>
   dagger_get_phase2 T k klen h2 idx i probes0 =
     (DAGGER_OK, val (entries T ! idx), probes0 + 1)"
  by (subst dagger_get_phase2.simps) simp

lemma dagger_get_phase2_advance:
  "i \<le> DAGGER_PSL_THRESHOLD \<Longrightarrow> occupied (entries T ! idx) \<Longrightarrow>
   \<not> in_cuckoo (entries T ! idx) \<or>
   \<not> dagger_key_eq_default (key (entries T ! idx)) (key_len (entries T ! idx)) k klen \<Longrightarrow>
   dagger_get_phase2 T k klen h2 idx i probes0 =
   dagger_get_phase2 T k klen h2 ((idx + 1) AND mask_t T) (i + 1) (probes0 + 1)"
  by (subst dagger_get_phase2.simps) auto

lemmas dagger_get_rules =
  dagger_get_phase1_empty dagger_get_phase1_found dagger_get_phase1_break
  dagger_get_phase1_advance dagger_get_phase2_done dagger_get_phase2_empty
  dagger_get_phase2_found dagger_get_phase2_advance

lemma dagger_remove_phase1_done:
  "\<not> probes0 \<le> DAGGER_PSL_THRESHOLD \<Longrightarrow>
   dagger_remove_phase1 T k klen h1 idx probes0 = (False, False, idx)"
  by (subst dagger_remove_phase1.simps) simp

lemma dagger_remove_phase1_empty:
  "probes0 \<le> DAGGER_PSL_THRESHOLD \<Longrightarrow> \<not> occupied (entries T ! idx) \<Longrightarrow>
   dagger_remove_phase1 T k klen h1 idx probes0 = (False, False, idx)"
  by (subst dagger_remove_phase1.simps) simp

lemma dagger_remove_phase1_found:
  "probes0 \<le> DAGGER_PSL_THRESHOLD \<Longrightarrow> occupied (entries T ! idx) \<Longrightarrow>
   hash_primary (entries T ! idx) = h1 \<Longrightarrow> key_len (entries T ! idx) = klen \<Longrightarrow>
   dagger_key_eq_default (key (entries T ! idx)) (key_len (entries T ! idx)) k klen \<Longrightarrow>
   dagger_remove_phase1 T k klen h1 idx probes0 = (True, in_cuckoo (entries T ! idx), idx)"
  by (subst dagger_remove_phase1.simps) simp

lemma dagger_remove_phase1_break:
  "probes0 \<le> DAGGER_PSL_THRESHOLD \<Longrightarrow> occupied (entries T ! idx) \<Longrightarrow>
   \<not> dagger_key_eq_default (key (entries T ! idx)) (key_len (entries T ! idx)) k klen \<Longrightarrow>
   unat (psl (entries T ! idx)) < probes0 \<Longrightarrow>
   dagger_remove_phase1 T k klen h1 idx probes0 = (False, False, idx)"
  by (subst dagger_remove_phase1.simps) simp

lemma dagger_remove_phase1_advance:
  "probes0 \<le> DAGGER_PSL_THRESHOLD \<Longrightarrow> occupied (entries T ! idx) \<Longrightarrow>
   \<not> dagger_key_eq_default (key (entries T ! idx)) (key_len (entries T ! idx)) k klen \<Longrightarrow>
   \<not> unat (psl (entries T ! idx)) < probes0 \<Longrightarrow>
   dagger_remove_phase1 T k klen h1 idx probes0 =
   dagger_remove_phase1 T k klen h1 ((idx + 1) AND mask_t T) (probes0 + 1)"
  by (subst dagger_remove_phase1.simps) simp

lemma dagger_remove_phase2_found:
  "i \<le> DAGGER_PSL_THRESHOLD \<Longrightarrow> occupied (entries T ! idx) \<Longrightarrow>
   in_cuckoo (entries T ! idx) \<Longrightarrow> hash_alternate (entries T ! idx) = h2 \<Longrightarrow>
   key_len (entries T ! idx) = klen \<Longrightarrow>
   dagger_key_eq_default (key (entries T ! idx)) (key_len (entries T ! idx)) k klen \<Longrightarrow>
   dagger_remove_phase2 T k klen h2 idx i = (True, idx)"
  by (subst dagger_remove_phase2.simps) simp

lemma dagger_backward_shift_stop_empty:
  "\<not> occupied (entries T ! next_idx) \<Longrightarrow> dagger_backward_shift T idx next_idx = Some T"
  by (subst dagger_backward_shift.simps) simp

lemma dagger_backward_shift_stop_home:
  "psl (entries T ! next_idx) = 0 \<Longrightarrow> dagger_backward_shift T idx next_idx = Some T"
  by (subst dagger_backward_shift.simps) simp

lemmas dagger_remove_rules =
  dagger_remove_phase1_done dagger_remove_phase1_empty dagger_remove_phase1_found
  dagger_remove_phase1_break dagger_remove_phase1_advance dagger_remove_phase2_found
  dagger_backward_shift_stop_empty dagger_backward_shift_stop_home

lemmas dagger_eval =
  dagger_set_def dagger_insert_internal_def dagger_insert_loop_rules
  dagger_slot_def dagger_key_eq_default_def dagger_consts dagger_entry_zero_def
  dagger_get_def dagger_get_search_def dagger_get_rules and_mask_255 and_mask_63
  dagger_remove_def dagger_remove_rules

subsection \<open>DAGGER: the lookup of a key that sits in the cuckoo phase\<close>

text \<open>
  Eighteen keys whose primary hashes select slot 2 are inserted into a fresh 256-slot
  table, with values 1 to 18. Every \<open>dagger_set\<close> returns \<open>DAGGER_OK\<close>. The first
  seventeen fill slots 2 to 18 with PSL 0 to 16; the eighteenth, \<open>giv\<close>, exceeds the PSL
  threshold and is placed through its alternate hash in slot 140.
\<close>

text \<open>
  C1 (the code departs from the claim): after the eighteen insertions, none followed by a
  removal, \<open>dagger_get\<close> of the eighteenth key returns \<open>DAGGER_NOT_FOUND\<close>. Phase 1 does
  not stop after \<open>DAGGER_PSL_THRESHOLD + 1 = 17\<close> probes but makes an eighteenth, at slot
  19, which is empty, and an empty slot makes the function return before phase 2.
\<close>

theorem dagger_get_misses_cuckoo_key:
  "map_option (\<lambda>T. fst (dagger_get T (Some [103, 105, 118])))
     (dagger_set_all (dagger_create 256) colliding_pairs) = Some DAGGER_NOT_FOUND"
  unfolding dagger_create_256 colliding_pairs_def
  by (simp add: dagger_eval slot_simps)

text \<open>
  The sibling search in \<open>dagger_remove\<close> bounds phase 1 by
  \<open>probes <= DAGGER_PSL_THRESHOLD\<close>, reaches phase 2 and finds the same key in the same
  table.
\<close>

lemma dagger_remove_finds_cuckoo_key:
  "map_option (\<lambda>T. map_option fst (dagger_remove T (Some [103, 105, 118])))
     (dagger_set_all (dagger_create 256) colliding_pairs) = Some (Some DAGGER_OK)"
  unfolding dagger_create_256 colliding_pairs_def
  by (simp add: dagger_eval slot_simps)

subsection \<open>DAGGER: the number of slots a lookup examines\<close>

text \<open>
  The seventeen keys of slot 2 and \<open>aaq\<close>, which lands in slot 19, are inserted. The key
  \<open>bop\<close> is not in the table; both of its hashes select slot 2.
\<close>

text \<open>
  C2 (the code departs from the claim): in this table, reached by eighteen insertions,
  \<open>dagger_get\<close> of \<open>bop\<close> examines 35 slots, 18 in phase 1 (slots 2 to 19) and 17 in phase
  2 (slots 2 to 18), as the \<open>total_probes\<close> statistic it maintains records.
\<close>

theorem dagger_get_examines_35_slots:
  "map_option (\<lambda>T. total_probes (snd (snd (dagger_get T (Some [98, 111, 112])))) - total_probes T)
     (dagger_set_all (dagger_create 256) cluster_pairs) = Some 35"
  unfolding dagger_create_256 cluster_pairs_def
  by (simp add: dagger_eval slot_simps)

subsection \<open>Tablet: interning the same string twice\<close>

lemmas tablet_eval =
  tablet_create_def tablet_create_sized_def TABLET_INITIAL_BUCKETS_def arena_create_def
  arena_chunk_create_def tablet_intern_def tablet_intern_len_def weave_alloc_size_def
  sizeof_Weave_def arena_alloc_def arena_align_def ARENA_DEFAULT_ALIGNMENT_def

text \<open>
  C3 (the code departs from the claim): in a fresh Tablet (256 buckets) the seventeen
  strings of \<open>slot2_strings\<close> are interned, then \<open>giv\<close> twice. The first \<open>tablet_intern\<close> of
  \<open>giv\<close> returns the new Weave at offset 544 of the first arena chunk, whose pool entry
  goes to the cuckoo slot. In the second, \<open>dagger_get\<close> misses that entry, a second Weave
  is allocated, \<open>dagger_set\<close> without replacement finds the entry and returns
  \<open>DAGGER_EXISTS\<close>, and \<open>tablet_intern\<close> returns NULL: the two calls on the same string
  return different pointers.
\<close>

theorem tablet_intern_twice_differs:
  "Option.bind (tablet_create True) (\<lambda>T0.
     Option.bind (tablet_intern_all (\<lambda>_. None) T0 slot2_strings) (\<lambda>(h1, T1).
       Option.bind (tablet_intern h1 T1 (Some [103, 105, 118]) True) (\<lambda>(p1, h2, T2).
         map_option (\<lambda>(p2, h3, T3). (p1, p2))
           (tablet_intern h2 T2 (Some [103, 105, 118]) True))))
   = Some (Some (InArena 0 544), None)"
  unfolding slot2_strings_def
  by (simp add: tablet_eval Let_def dagger_create_256 dagger_eval slot_simps)

subsection \<open>Arena: temporary scopes\<close>

lemma arena_create_wf: "arena_create cs ok = Some a \<Longrightarrow> arena_wf a"
  by (auto simp: arena_create_def arena_chunk_create_def arena_wf_def Let_def split: if_splits)

lemma arena_alloc_wf: "arena_wf a \<Longrightarrow> arena_wf (snd (arena_alloc a sz ok))"
  by (auto simp: arena_alloc_def arena_chunk_create_def arena_wf_def Let_def split: option.splits)

lemma arena_reset_wf: "arena_wf (arena_reset a)"
  by (simp add: arena_reset_def arena_wf_def)

lemma arena_temp_end_wf: "temp_chunk t < length (chunks a) \<Longrightarrow> arena_wf (arena_temp_end a t)"
  by (auto simp: arena_temp_end_def arena_wf_def Let_def)

lemma arena_extends_refl: "arena_wf a \<Longrightarrow> arena_extends a a"
  by (cases "chunks a") (simp_all add: arena_extends_def arena_wf_def)

lemma map_capacity_used:
  "i < length xs \<Longrightarrow>
   map chunk_capacity (xs[i := (xs ! i)\<lparr>chunk_used := u\<rparr>]) = map chunk_capacity xs"
  by (rule nth_equalityI) (auto simp: nth_list_update)

lemma arena_extends_alloc:
  assumes "arena_wf a" and "arena_extends a a'"
  shows "arena_extends a (snd (arena_alloc a' sz ok))"
proof -
  from assms have wf': "arena_wf a'" and le: "current a \<le> current a'"
    and tk: "take (current a) (chunks a') = take (current a) (chunks a)"
    and el: "(chunks a' ! current a)\<lparr>chunk_used := chunk_used (chunks a ! current a)\<rparr>
               = chunks a ! current a"
    and cs: "chunk_size a' = chunk_size a" "alignment a' = alignment a"
    and tc: "total_capacity a' =
        total_capacity a + sum_list (drop (current a + 1) (map chunk_capacity (chunks a')))"
    and cc: "chunk_count a' = chunk_count a + of_nat (length (chunks a') - (current a + 1))"
    by (simp_all add: arena_extends_def)
  from wf' have ne: "chunks a' \<noteq> []" and cur: "current a' = length (chunks a') - 1"
    by (simp_all add: arena_wf_def)
  have lt: "current a' < length (chunks a')" using ne cur by (cases "chunks a'") auto
  have len: "length (chunks a') = Suc (current a')" using ne cur by (cases "chunks a'") auto
  show ?thesis
    unfolding arena_extends_def
    using le tk el lt cs tc cc len arena_alloc_wf [OF wf', of sz ok]
    by (auto simp: arena_alloc_def arena_chunk_create_def Let_def nth_list_update nth_append
          map_capacity_used Suc_diff_le
          split: option.splits)
qed

lemma arena_extends_allocs:
  "arena_wf a \<Longrightarrow> arena_extends a a' \<Longrightarrow> arena_extends a (arena_allocs a' reqs)"
proof (induction reqs arbitrary: a')
  case Nil
  then show ?case by simp
next
  case (Cons r reqs)
  obtain sz ok where r: "r = (sz, ok)" by (cases r)
  from Cons.prems have "arena_extends a (snd (arena_alloc a' sz ok))"
    by (rule arena_extends_alloc)
  with Cons.IH Cons.prems(1) r show ?case by simp
qed

lemma arena_temp_end_extends:
  assumes "arena_wf a" and "arena_extends a a'"
  shows "chunks (arena_temp_end a' (arena_temp_begin a)) = chunks a"
proof -
  let ?c = "current a"
  from assms(1) have ne: "chunks a \<noteq> []" and cur: "?c = length (chunks a) - 1"
    by (simp_all add: arena_wf_def)
  from assms(2) have wf': "arena_wf a'" and le: "?c \<le> current a'"
    and tk: "take ?c (chunks a') = take ?c (chunks a)"
    and el: "(chunks a' ! ?c)\<lparr>chunk_used := chunk_used (chunks a ! ?c)\<rparr> = chunks a ! ?c"
    by (simp_all add: arena_extends_def)
  from wf' have lt': "current a' < length (chunks a')"
    by (cases "chunks a'") (auto simp: arena_wf_def)
  have len: "length (chunks a) = Suc ?c" using ne cur by (cases "chunks a") auto
  have len': "Suc ?c \<le> length (chunks a')" using le lt' by simp
  show ?thesis
  proof (rule nth_equalityI)
    show "length (chunks (arena_temp_end a' (arena_temp_begin a))) = length (chunks a)"
      using len len' by (simp add: arena_temp_end_def arena_temp_begin_def Let_def)
  next
    fix i assume "i < length (chunks (arena_temp_end a' (arena_temp_begin a)))"
    then have i: "i \<le> ?c" using len' by (simp add: arena_temp_end_def arena_temp_begin_def Let_def)
    show "chunks (arena_temp_end a' (arena_temp_begin a)) ! i = chunks a ! i"
    proof (cases "i = ?c")
      case True
      then show ?thesis using el len' by (simp add: arena_temp_end_def arena_temp_begin_def Let_def)
    next
      case False
      with i have "i < ?c" by simp
      moreover from this have "take ?c (chunks a') ! i = take ?c (chunks a) ! i"
        using tk by simp
      ultimately show ?thesis using len' False
        by (simp add: arena_temp_end_def arena_temp_begin_def Let_def)
    qed
  qed
qed

lemmas arena_eval =
  arena_create_def arena_chunk_create_def arena_alloc_def arena_align_def
  ARENA_DEFAULT_ALIGNMENT_def arena_reset_def arena_temp_begin_def arena_temp_end_def

text \<open>
  The marker of \<open>arena_temp_begin\<close> keeps nothing of \<open>peak_allocated\<close>: the two arenas
  \<open>reused_arena\<close> and \<open>reused_arena_248\<close> differ, give the same marker, and are the same
  arena after an allocation of 296 bytes. Whatever is computed from the arena of that
  moment and the marker cannot be both of them.
\<close>

lemma arena_marker_forgets_peak:
  "reused_arena \<noteq> reused_arena_248 \<and>
   arena_temp_begin reused_arena = arena_temp_begin reused_arena_248 \<and>
   arena_allocs reused_arena [(296, True)] = arena_allocs reused_arena_248 [(296, True)]"
  by (simp add: reused_arena_def reused_arena_248_def arena_eval)

text \<open>
  C7 (the claim as stated does not hold): in \<open>reused_arena\<close>, whose \<open>peak_allocated\<close> is
  200, \<open>arena_temp_begin\<close>, one \<open>arena_alloc\<close> of 296 bytes and \<open>arena_temp_end\<close> give back
  the arena of the start but for \<open>peak_allocated\<close>, now 296: the arena is not restored
  exactly.
\<close>

theorem arena_temp_end_keeps_peak:
  "peak_allocated reused_arena = 200 \<and>
   arena_temp_end (arena_allocs reused_arena [(296, True)]) (arena_temp_begin reused_arena)
     = reused_arena\<lparr>peak_allocated := 296\<rparr> \<and>
   arena_temp_end (arena_allocs reused_arena [(296, True)]) (arena_temp_begin reused_arena)
     \<noteq> reused_arena"
  by (simp add: reused_arena_def arena_eval)

text \<open>
  C7, amended: for every arena whose current chunk is the last of its list (the arenas the
  library builds), \<open>arena_temp_begin\<close>, then any sequence of \<open>arena_alloc\<close> calls of any
  sizes, each with \<open>malloc\<close> succeeding or failing, then \<open>arena_temp_end\<close> with the marker,
  restores the arena exactly, the high-water mark \<open>peak_allocated\<close> apart, which keeps the
  value it reached inside the scope: the chunks linked after the captured chunk are freed,
  the captured chunk's \<open>used\<close> is that of the snapshot, and the chunk list with every
  \<open>used\<close>, the current chunk, \<open>total_allocated\<close>, \<open>alloc_count\<close>, \<open>total_capacity\<close>,
  \<open>chunk_count\<close>, the chunk size and the alignment are those at \<open>arena_temp_begin\<close>.
\<close>

theorem arena_temp_round_trip:
  assumes "arena_wf a"
  shows "arena_temp_end (arena_allocs a reqs) (arena_temp_begin a)
         = a\<lparr>peak_allocated := peak_allocated (arena_allocs a reqs)\<rparr>"
proof -
  have ext: "arena_extends a (arena_allocs a reqs)"
    by (rule arena_extends_allocs [OF assms arena_extends_refl [OF assms]])
  have ch: "chunks (arena_temp_end (arena_allocs a reqs) (arena_temp_begin a)) = chunks a"
    by (rule arena_temp_end_extends [OF assms ext])
  from ext have rest: "chunk_size (arena_allocs a reqs) = chunk_size a"
      "alignment (arena_allocs a reqs) = alignment a"
      "total_capacity (arena_allocs a reqs) =
         total_capacity a
           + sum_list (drop (current a + 1) (map chunk_capacity (chunks (arena_allocs a reqs))))"
      "chunk_count (arena_allocs a reqs) =
         chunk_count a + of_nat (length (chunks (arena_allocs a reqs)) - (current a + 1))"
    by (simp_all add: arena_extends_def)
  show ?thesis
    using ch rest
    by (simp add: arena_temp_end_def arena_temp_begin_def Let_def drop_map)
qed

theorem arena_temp_round_trip_witness:
  "arena_wf (the (arena_create 4096 True)) \<and>
   arena_temp_end (arena_allocs (the (arena_create 4096 True)) [(100, True), (5000, True), (8, True)])
     (arena_temp_begin (the (arena_create 4096 True)))
   = (the (arena_create 4096 True))
       \<lparr>peak_allocated :=
          peak_allocated
            (arena_allocs (the (arena_create 4096 True)) [(100, True), (5000, True), (8, True)])\<rparr> \<and>
   arena_allocs (the (arena_create 4096 True)) [(100, True), (5000, True), (8, True)]
     = \<lparr>chunks = [\<lparr>chunk_capacity = 4096, chunk_used = 104, chunk_peak = 0\<rparr>,
                  \<lparr>chunk_capacity = 5000, chunk_used = 5000, chunk_peak = 0\<rparr>,
                  \<lparr>chunk_capacity = 4096, chunk_used = 8, chunk_peak = 0\<rparr>],
        current = 2, chunk_size = 4096, alignment = 8, total_allocated = 5112,
        total_capacity = 13192, peak_allocated = 104, chunk_count = 3, alloc_count = 1\<rparr>"
proof -
  have wf: "arena_wf (the (arena_create 4096 True))"
    by (simp add: arena_create_def arena_chunk_create_def arena_wf_def)
  have run: "arena_allocs (the (arena_create 4096 True)) [(100, True), (5000, True), (8, True)]
     = \<lparr>chunks = [\<lparr>chunk_capacity = 4096, chunk_used = 104, chunk_peak = 0\<rparr>,
                  \<lparr>chunk_capacity = 5000, chunk_used = 5000, chunk_peak = 0\<rparr>,
                  \<lparr>chunk_capacity = 4096, chunk_used = 8, chunk_peak = 0\<rparr>],
        current = 2, chunk_size = 4096, alignment = 8, total_allocated = 5112,
        total_capacity = 13192, peak_allocated = 104, chunk_count = 3, alloc_count = 1\<rparr>"
    by (simp add: arena_create_def arena_chunk_create_def arena_alloc_def arena_align_def
          ARENA_DEFAULT_ALIGNMENT_def)
  show ?thesis
    using wf run arena_temp_round_trip [OF wf, of "[(100, True), (5000, True), (8, True)]"]
    by simp
qed

subsection \<open>WEAVE: mutation of an interned or read-only Weave\<close>

lemma weave_ensure_cap_immutable:
  "h p = Some wv \<Longrightarrow> flags wv AND (WEAVE_FLAG_INTERNED OR WEAVE_FLAG_READONLY) \<noteq> 0 \<Longrightarrow>
   weave_ensure_cap h (Some p) additional realloc_res = (None, h)"
  by (simp add: weave_ensure_cap_def)

lemma weave_append_len_immutable:
  "h p = Some wv \<Longrightarrow> flags wv AND (WEAVE_FLAG_INTERNED OR WEAVE_FLAG_READONLY) \<noteq> 0 \<Longrightarrow>
   weave_append_len h (Some p) s n realloc_res = (if s = None \<or> n = 0 then Some p else None, h)"
  by (simp add: weave_append_len_def weave_ensure_cap_immutable split: option.splits)

lemma weave_prepend_len_immutable:
  "h p = Some wv \<Longrightarrow> flags wv AND (WEAVE_FLAG_INTERNED OR WEAVE_FLAG_READONLY) \<noteq> 0 \<Longrightarrow>
   weave_prepend_len h (Some p) s n realloc_res = (if s = None \<or> n = 0 then Some p else None, h)"
  by (simp add: weave_prepend_len_def weave_ensure_cap_immutable split: option.splits)

text \<open>
  C8: for a live Weave whose flags include \<open>WEAVE_FLAG_INTERNED\<close> or \<open>WEAVE_FLAG_READONLY\<close>,
  each of \<open>weave_append_len\<close>, \<open>weave_append\<close>, \<open>weave_append_char\<close>, \<open>weave_append_weave\<close>,
  \<open>weave_prepend_len\<close>, \<open>weave_prepend\<close>, \<open>weave_clear\<close>, \<open>weave_truncate\<close>, \<open>weave_reserve\<close>
  and \<open>weave_append_fmt\<close> leaves the whole store as it was, so the length, capacity, flags
  and bytes of the Weave; the functions that return a pointer return NULL, or the Weave
  itself when there is nothing to add (no text, or a capacity already sufficient).
\<close>

theorem weave_immutable_unchanged:
  assumes "h p = Some wv"
    and "flags wv AND (WEAVE_FLAG_INTERNED OR WEAVE_FLAG_READONLY) \<noteq> 0"
  shows "weave_append_len h (Some p) s n r = (if s = None \<or> n = 0 then Some p else None, h) \<and>
         weave_append h (Some p) s r = (if s = None \<or> s = Some [] then Some p else None, h) \<and>
         weave_append_char h (Some p) c r = (None, h) \<and>
         snd (weave_append_weave h (Some p) other r) = h \<and>
         fst (weave_append_weave h (Some p) other r) \<in> {None, Some p} \<and>
         weave_prepend_len h (Some p) s n r = (if s = None \<or> n = 0 then Some p else None, h) \<and>
         weave_prepend h (Some p) s r = (if s = None \<or> s = Some [] then Some p else None, h) \<and>
         weave_clear h (Some p) = h \<and>
         weave_truncate h (Some p) n = h \<and>
         weave_reserve h (Some p) min_cap r = (if min_cap \<le> cap wv then Some p else None, h) \<and>
         weave_append_fmt h (Some p) formatted r =
           (case formatted of Some (Some bs) \<Rightarrow> None | _ \<Rightarrow> Some p, h)"
proof -
  note imm = weave_append_len_immutable [of h p wv, OF assms]
    weave_prepend_len_immutable [of h p wv, OF assms]
    weave_ensure_cap_immutable [of h p wv, OF assms]
  have 1: "weave_append h (Some p) s r = (if s = None \<or> s = Some [] then Some p else None, h)"
    by (cases s) (simp_all add: weave_append_def imm safe_strlen_def)
  have 2: "weave_append_char h (Some p) c r = (None, h)"
    by (simp add: weave_append_char_def imm)
  have 3: "snd (weave_append_weave h (Some p) other r) = h"
    by (simp add: weave_append_weave_def imm split: option.splits)
  have 4: "fst (weave_append_weave h (Some p) other r) \<in> {None, Some p}"
    by (simp add: weave_append_weave_def imm split: option.splits)
  have 5: "weave_prepend h (Some p) s r = (if s = None \<or> s = Some [] then Some p else None, h)"
    by (cases s) (simp_all add: weave_prepend_def imm safe_strlen_def)
  have 6: "weave_clear h (Some p) = h"
    using assms by (simp add: weave_clear_def)
  have 7: "weave_truncate h (Some p) n = h"
    using assms by (simp add: weave_truncate_def)
  have 8: "weave_reserve h (Some p) min_cap r = (if min_cap \<le> cap wv then Some p else None, h)"
    using assms by (simp add: weave_reserve_def imm)
  have 9: "weave_append_fmt h (Some p) formatted r =
           (case formatted of Some (Some bs) \<Rightarrow> None | _ \<Rightarrow> Some p, h)"
    by (simp add: weave_append_fmt_def imm split: option.splits)
  from 1 2 3 4 5 6 7 8 9 imm(1,2) show ?thesis by blast
qed

theorem weave_immutable_unchanged_witness:
  "interned_store (InArena 0 0) = Some interned_giv \<and>
   flags interned_giv AND (WEAVE_FLAG_INTERNED OR WEAVE_FLAG_READONLY) \<noteq> 0 \<and>
   weave_append_len interned_store (Some (InArena 0 0)) (Some [33, 33]) 2 (Some (Heap 7))
     = (None, interned_store) \<and>
   weave_append interned_store (Some (InArena 0 0)) (Some [33]) (Some (Heap 7))
     = (None, interned_store) \<and>
   weave_append_char interned_store (Some (InArena 0 0)) 33 (Some (Heap 7))
     = (None, interned_store) \<and>
   weave_prepend_len interned_store (Some (InArena 0 0)) (Some [33, 33]) 2 (Some (Heap 7))
     = (None, interned_store) \<and>
   weave_prepend interned_store (Some (InArena 0 0)) (Some [33]) (Some (Heap 7))
     = (None, interned_store) \<and>
   weave_clear interned_store (Some (InArena 0 0)) = interned_store \<and>
   weave_truncate interned_store (Some (InArena 0 0)) 1 = interned_store \<and>
   weave_reserve interned_store (Some (InArena 0 0)) 100 (Some (Heap 7))
     = (None, interned_store) \<and>
   weave_append_fmt interned_store (Some (InArena 0 0)) (Some (Some [33])) (Some (Heap 7))
     = (None, interned_store)"
proof -
  have a: "interned_store (InArena 0 0) = Some interned_giv"
    by (simp add: interned_store_def)
  have b: "flags interned_giv AND (WEAVE_FLAG_INTERNED OR WEAVE_FLAG_READONLY) \<noteq> 0"
    by (simp add: interned_giv_def WEAVE_FLAG_INTERNED_def WEAVE_FLAG_READONLY_def)
  have c: "cap interned_giv = 3" by (simp add: interned_giv_def)
  show ?thesis
    using a b
      weave_immutable_unchanged [of interned_store "InArena 0 0" interned_giv "Some [33, 33]" 2
        "Some (Heap 7)" 33 None 100 "Some (Some [33])", OF a b]
      weave_immutable_unchanged [of interned_store "InArena 0 0" interned_giv "Some [33]" 1
        "Some (Heap 7)" 33 None 100 "Some (Some [33])", OF a b]
    by (simp add: c)
qed

text \<open>
  \<open>weave_shrink\<close> neither grows nor rewrites the bytes; it tests \<open>WEAVE_FLAG_INTERNED\<close>
  alone. An interned Weave is left as it is. A Weave with \<open>WEAVE_FLAG_READONLY\<close> alone
  would be reallocated to its length; the structure is private to \<open>weave.c\<close>, where the
  only flags ever stored are \<open>WEAVE_FLAG_NONE\<close> and
  \<open>WEAVE_FLAG_INTERNED | WEAVE_FLAG_READONLY\<close>.
\<close>

lemma weave_shrink_interned:
  "h p = Some wv \<Longrightarrow> flags wv AND WEAVE_FLAG_INTERNED \<noteq> 0 \<Longrightarrow>
   weave_shrink h (Some p) r = (Some p, h)"
  by (simp add: weave_shrink_def)

lemma weave_shrink_readonly_only:
  "h p = Some wv \<Longrightarrow> flags wv = WEAVE_FLAG_READONLY \<Longrightarrow> len wv < cap wv \<Longrightarrow>
   weave_shrink h (Some p) (Some p) = (Some p, h(p \<mapsto> wv\<lparr>cap := len wv, data := take (len wv + 1) (data wv)\<rparr>))"
  by (simp add: weave_shrink_def WEAVE_FLAG_INTERNED_def WEAVE_FLAG_READONLY_def)

subsection \<open>ORDINAL: evaluation of the two contexts\<close>

lemma nxh64_A: "nxh64_bytes [65] NXH_SEED_DEFAULT = 1371800463213966980"
  unfolding nxh64_bytes_def by (simp add: nxh_rotl64_def nxh_consts nxh_avalanche_def)

lemma slot_A: "unat (nxh64_bytes [65] NXH_SEED_DEFAULT AND 63) = 4"
  by (simp add: nxh64_A)

lemma nxh64_B: "nxh64_bytes [66] NXH_SEED_DEFAULT = 7884081726600927225"
  unfolding nxh64_bytes_def by (simp add: nxh_rotl64_def nxh_consts nxh_avalanche_def)

lemma slot_B: "unat (nxh64_bytes [66] NXH_SEED_DEFAULT AND 63) = 57"
  by (simp add: nxh64_B)

lemma dagger_create_64:
  "dagger_create 64 =
     \<lparr>entries = replicate 64 dagger_entry_zero, capacity = 64, count = 0, mask_t = 63,
      seed_primary = NXH_SEED_DEFAULT, seed_alternate = NXH_SEED_ALT,
      max_psl = 0, cuckoo_count = 0, resize_count = 0, total_probes = 0,
      total_lookups = 0\<rparr>"
  by (simp add: dagger_create_def dagger_next_pow2_def dagger_consts)

lemmas ordinal_eval =
  add_target_def ordinal_new_def ORDINAL_CONFIG_DEFAULT_def OrdinalResult_zero_def
  section_key_def DOT_TARGET_def DOT_COMMAND_def DOT_DEPS_def STR_BUILD_def
  target_count_def dagger_create_64 slot_A slot_B

lemmas ordinal_run_eval =
  ordinal_run_def ordinal_configure_def target_lookup_def set_target_def
  resolve_target_deps_def resolve_command_def resolve_runtime_vars_def needs_rebuild_def
  execute_command_def build_dep_def ORD_MAX_DEPS_def ORD_MAX_RECURSION_def get_mtime_def
  quiet_env_def empty_world_def

subsection \<open>ORDINAL: when a target is rebuilt\<close>

text \<open>
  C5 (the code departs from the claim): in the context of the section
  \<^verbatim>\<open>[A] target = out, command = echo A\<close>, with \<open>force\<close> unset, the target not phony and
  without dependencies, the output file \<open>out\<close> exists, with the modification time 0. None
  of the cases of the claim holds, so the claim gives false; \<open>needs_rebuild\<close> returns true.
  \<open>get_mtime\<close> returns 0 when \<open>stat\<close> fails, and the test
  \<^verbatim>\<open>if (target_mtime == 0) return true; /* Target doesn't exist */\<close> takes the time 0 of an
  existing file for that.
\<close>

theorem needs_rebuild_epoch_output:
  "epoch_ord \<noteq> None \<and>
   fs epoch_world [111, 117, 116] = Some 0 \<and>
   \<not> force (config (the epoch_ord)) \<and>
   \<not> is_phony (hd (targets (the epoch_ord))) \<and>
   target_file (hd (targets (the epoch_ord))) = Some [111, 117, 116] \<and>
   resolved_deps (hd (targets (the epoch_ord))) = [] \<and>
   needs_rebuild epoch_world (the epoch_ord) (hd (targets (the epoch_ord)))"
  unfolding epoch_ord_def epoch_ini_def
  by (simp add: ordinal_eval dagger_eval Let_def needs_rebuild_def get_mtime_def epoch_world_def)

text \<open>The run of that target hands its command to \<open>system\<close>.\<close>

lemma ordinal_run_epoch_output:
  "fst (ordinal_run quiet_env (the epoch_ord) epoch_world (Some [65])) = ORDINAL_OK \<and>
   trace (snd (snd (ordinal_run quiet_env (the epoch_ord) epoch_world (Some [65]))))
     = [[101, 99, 104, 111, 32, 65]]"
  unfolding epoch_ord_def epoch_ini_def
  by (simp add: ordinal_eval dagger_eval Let_def ordinal_run_eval epoch_world_def
        build_target.simps)

subsection \<open>ORDINAL: a dependency cycle\<close>

lemma target_lookup_map:
  "target_map o1 = target_map o2 \<Longrightarrow> target_lookup o1 nm = target_lookup o2 nm"
  by (simp add: target_lookup_def)

lemma target_map_set_target [simp]: "target_map (set_target ord ti f) = target_map ord"
  by (simp add: set_target_def)

lemma target_map_resolve_target_deps [simp]:
  "target_map (resolve_target_deps env w ord ti) = target_map ord"
  by (simp add: resolve_target_deps_def Let_def)

lemma target_lookup_set_target [simp]:
  "target_lookup (set_target ord ti f) nm = target_lookup ord nm"
  by (rule target_lookup_map) simp

lemma target_lookup_resolve_target_deps [simp]:
  "target_lookup (resolve_target_deps env w ord ti) nm = target_lookup ord nm"
  by (rule target_lookup_map) simp

lemma config_set_target [simp]: "config (set_target ord ti f) = config ord"
  by (simp add: set_target_def)

lemma config_resolve_target_deps [simp]:
  "config (resolve_target_deps env w ord ti) = config ord"
  by (simp add: resolve_target_deps_def Let_def)

lemma target_count_set_target [simp]: "target_count (set_target ord ti f) = target_count ord"
  by (simp add: set_target_def target_count_def)

lemma target_count_resolve_target_deps [simp]:
  "target_count (resolve_target_deps env w ord ti) = target_count ord"
  by (simp add: resolve_target_deps_def target_count_def Let_def)

lemma resolve_runtime_vars_plain: "36 \<notin> set s \<Longrightarrow> resolve_runtime_vars ord s tgt = s"
  by (simp add: resolve_runtime_vars_def)

text \<open>The resolved dependencies of a target whose only dependency is a plain name.\<close>

lemma resolve_target_deps_single:
  assumes "ti < target_count ord" and "deps (targets ord ! ti) = [d]"
    and "36 \<notin> set d" and "42 \<notin> set d" and "63 \<notin> set d"
  shows "targets (resolve_target_deps env w ord ti) =
           list_update (targets ord) ti ((targets ord ! ti)\<lparr>resolved_deps := [d]\<rparr>)"
  using assms
  by (simp add: resolve_target_deps_def Let_def resolve_runtime_vars_plain ORD_MAX_DEPS_def)

text \<open>A target that is on the stack: \<open>build_target\<close> returns at once.\<close>

lemma build_target_in_stack:
  assumes "target_lookup ord nm = Some (Suc ti)" and "ti < target_count ord"
    and "in_stack (targets ord ! ti)"
  shows "build_target env ord w nm depth = (ORDINAL_ERROR_CIRCULAR, ord, w)"
  using assms by (subst build_target.simps) simp

lemma build_target_cycle_inner:
  assumes la: "target_lookup ord a = Some (Suc ia)" and lb: "target_lookup ord b = Some (Suc ib)"
    and ia: "ia < target_count ord" and ib: "ib < target_count ord" and ne: "ia \<noteq> ib"
    and db: "deps (targets ord ! ib) = [a]"
    and pa: "36 \<notin> set a" "42 \<notin> set a" "63 \<notin> set a"
    and kg: "\<not> keep_going (config ord)"
    and sa: "in_stack (targets ord ! ia)"
    and sb: "\<not> in_stack (targets ord ! ib)" "\<not> visited (targets ord ! ib)"
    and depth: "depth \<le> ORD_MAX_RECURSION"
  shows "fst (build_target env ord w b depth) = ORDINAL_ERROR_CIRCULAR \<and>
         snd (snd (build_target env ord w b depth)) = w \<and>
         target_map (fst (snd (build_target env ord w b depth))) = target_map ord \<and>
         config (fst (snd (build_target env ord w b depth))) = config ord"
proof -
  let ?o1 = "set_target ord ib (\<lambda>t. t\<lparr>in_stack := True\<rparr>)"
  let ?o2 = "resolve_target_deps env w ?o1 ib"
  have ib1: "ib < target_count ?o1" using ib by simp
  have d1: "deps (targets ?o1 ! ib) = [a]"
    using db ib by (simp add: set_target_def target_count_def)
  have t2: "targets ?o2 = list_update (targets ?o1) ib ((targets ?o1 ! ib)\<lparr>resolved_deps := [a]\<rparr>)"
    by (rule resolve_target_deps_single [OF ib1 d1 pa])
  have r2: "resolved_deps (targets ?o2 ! ib) = [a]"
    unfolding t2 using ib by (simp add: set_target_def target_count_def)
  have s2: "in_stack (targets ?o2 ! ia)"
    unfolding t2 using sa ia ib ne by (simp add: set_target_def target_count_def)
  have in2: "build_target env ?o2 w a (Suc depth) = (ORDINAL_ERROR_CIRCULAR, ?o2, w)"
    by (rule build_target_in_stack [where ti = ia]) (use la ia s2 in simp_all)
  have "build_target env ord w b depth =
          (ORDINAL_ERROR_CIRCULAR,
           set_target ?o2 ib (\<lambda>t. t\<lparr>in_stack := False, t_status := ORDINAL_STATUS_FAILED\<rparr>), w)"
    using lb ib sb depth la kg
    by (subst build_target.simps) (simp add: Let_def r2 build_dep_def in2)
  then show ?thesis by simp
qed

lemma build_target_cycle_outer:
  assumes la: "target_lookup ord a = Some (Suc ia)" and lb: "target_lookup ord b = Some (Suc ib)"
    and ia: "ia < target_count ord" and ib: "ib < target_count ord" and ne: "ia \<noteq> ib"
    and da: "deps (targets ord ! ia) = [b]" and db: "deps (targets ord ! ib) = [a]"
    and pa: "36 \<notin> set a" "42 \<notin> set a" "63 \<notin> set a"
    and pb: "36 \<notin> set b" "42 \<notin> set b" "63 \<notin> set b"
    and kg: "\<not> keep_going (config ord)"
    and sa: "\<not> in_stack (targets ord ! ia)" "\<not> visited (targets ord ! ia)"
    and sb: "\<not> in_stack (targets ord ! ib)" "\<not> visited (targets ord ! ib)"
  shows "fst (build_target env ord w a 0) = ORDINAL_ERROR_CIRCULAR \<and>
         snd (snd (build_target env ord w a 0)) = w"
proof -
  let ?o1 = "set_target ord ia (\<lambda>t. t\<lparr>in_stack := True\<rparr>)"
  let ?o2 = "resolve_target_deps env w ?o1 ia"
  have ia1: "ia < target_count ?o1" using ia by simp
  have d1: "deps (targets ?o1 ! ia) = [b]"
    using da ia by (simp add: set_target_def target_count_def)
  have t2: "targets ?o2 = list_update (targets ?o1) ia ((targets ?o1 ! ia)\<lparr>resolved_deps := [b]\<rparr>)"
    by (rule resolve_target_deps_single [OF ia1 d1 pb])
  have r2: "resolved_deps (targets ?o2 ! ia) = [b]"
    unfolding t2 using ia by (simp add: set_target_def target_count_def)
  have s2: "in_stack (targets ?o2 ! ia)"
    unfolding t2 using ia by (simp add: set_target_def target_count_def)
  have b2: "deps (targets ?o2 ! ib) = [a]" "\<not> in_stack (targets ?o2 ! ib)"
    "\<not> visited (targets ?o2 ! ib)"
    unfolding t2 using ia ib ne db sb by (simp_all add: set_target_def target_count_def)
  obtain e o3 w3 where res: "build_target env ?o2 w b (Suc 0) = (e, o3, w3)"
    by (cases "build_target env ?o2 w b (Suc 0)")
  have "fst (build_target env ?o2 w b (Suc 0)) = ORDINAL_ERROR_CIRCULAR \<and>
        snd (snd (build_target env ?o2 w b (Suc 0))) = w \<and>
        target_map (fst (snd (build_target env ?o2 w b (Suc 0)))) = target_map ?o2 \<and>
        config (fst (snd (build_target env ?o2 w b (Suc 0)))) = config ?o2"
    by (rule build_target_cycle_inner [where ia = ia and ib = ib and a = a])
       (use la lb ia ib ne b2 pa kg s2 in \<open>simp_all add: ORD_MAX_RECURSION_def\<close>)
  with res have e: "e = ORDINAL_ERROR_CIRCULAR" and w3: "w3 = w"
    and c3: "config o3 = config ord" by simp_all
  have "build_target env ord w a 0 =
          (ORDINAL_ERROR_CIRCULAR,
           set_target o3 ia (\<lambda>t. t\<lparr>in_stack := False, t_status := ORDINAL_STATUS_FAILED\<rparr>), w)"
    using la ia sa lb kg
    by (subst build_target.simps) (simp add: Let_def r2 build_dep_def res e w3 c3)
  then show ?thesis by simp
qed

text \<open>
  C6 (the claim as stated does not hold): in the context of two targets \<open>A\<close> and \<open>B\<close> that
  depend on each other, configured with \<open>keep_going\<close>, \<open>ordinal_run\<close> of \<open>A\<close> returns
  \<open>ORDINAL_OK\<close> after handing the command of \<open>B\<close>, then that of \<open>A\<close>, to \<open>system\<close>: the
  error of the nested call on \<open>A\<close> is dropped by the loop of \<open>B\<close>.
\<close>

theorem ordinal_run_cycle_keep_going:
  "cycle_ord \<noteq> None \<and>
   fst (ordinal_run quiet_env
          (ordinal_configure (the cycle_ord) (Some (ORDINAL_CONFIG_DEFAULT\<lparr>keep_going := True\<rparr>)))
          empty_world (Some [65])) = ORDINAL_OK \<and>
   trace (snd (snd (ordinal_run quiet_env
          (ordinal_configure (the cycle_ord) (Some (ORDINAL_CONFIG_DEFAULT\<lparr>keep_going := True\<rparr>)))
          empty_world (Some [65]))))
     = [[101, 99, 104, 111, 32, 66], [101, 99, 104, 111, 32, 65]]"
  unfolding cycle_ord_def cycle_ini_def
  by (simp add: ordinal_eval dagger_eval Let_def ordinal_run_eval build_target.simps)

lemma nxh64_C: "nxh64_bytes [67] NXH_SEED_DEFAULT = 1440108869279352788"
  unfolding nxh64_bytes_def by (simp add: nxh_rotl64_def nxh_consts nxh_avalanche_def)

lemma slot_C: "unat (nxh64_bytes [67] NXH_SEED_DEFAULT AND 63) = 20"
  by (simp add: nxh64_C)

text \<open>
  Without \<open>keep_going\<close> the run of \<open>A\<close> in the context of \<open>chain_ord\<close> returns
  \<open>ORDINAL_ERROR_CIRCULAR\<close>, after the command of the dependency \<open>C\<close>, built before the
  cycle is met, has been handed to \<open>system\<close>.
\<close>

lemma ordinal_run_cycle_behind_dependency:
  "chain_ord \<noteq> None \<and>
   fst (ordinal_run quiet_env (the chain_ord) empty_world (Some [65])) = ORDINAL_ERROR_CIRCULAR \<and>
   trace (snd (snd (ordinal_run quiet_env (the chain_ord) empty_world (Some [65]))))
     = [[101, 99, 104, 111, 32, 67]]"
  unfolding chain_ord_def chain_ini_def
  by (simp add: ordinal_eval slot_C dagger_eval Let_def ordinal_run_eval build_target.simps)

lemma nxh64_aip: "nxh64_bytes [97, 105, 112] NXH_SEED_DEFAULT = 14026723325698694274"
  unfolding nxh64_bytes_def by (simp add: nxh_rotl64_def nxh_consts nxh_avalanche_def)

lemma slot64_aip: "unat (nxh64_bytes [97, 105, 112] NXH_SEED_DEFAULT AND 63) = 2"
  by (simp add: nxh64_aip)

lemma nxh64_alt_aip: "nxh64_alt_bytes [97, 105, 112] NXH_SEED_ALT = 15214771123029466332"
  unfolding nxh64_alt_bytes_def by (simp add: nxh_rotl64_def nxh_consts nxh_avalanche_alt_def)

lemma slot64_alt_aip: "unat (nxh64_alt_bytes [97, 105, 112] NXH_SEED_ALT AND 63) = 28"
  by (simp add: nxh64_alt_aip)

lemma nxh64_app: "nxh64_bytes [97, 112, 112] NXH_SEED_DEFAULT = 3618004941122728368"
  unfolding nxh64_bytes_def by (simp add: nxh_rotl64_def nxh_consts nxh_avalanche_def)

lemma slot64_app: "unat (nxh64_bytes [97, 112, 112] NXH_SEED_DEFAULT AND 63) = 48"
  by (simp add: nxh64_app)

text \<open>
  The lookup of a target that was added can miss. In the context of \<open>crowded_ord\<close> the
  targets \<open>aip\<close> and \<open>app\<close> depend on each other and \<open>keep_going\<close> is not set; the entry of
  \<open>aip\<close> sits in a cuckoo slot of the target map and \<open>target_lookup\<close> does not find it. In
  the run of \<open>app\<close> the dependency \<open>aip\<close> is then no target, no cycle is met, and the run
  returns \<open>ORDINAL_OK\<close> after handing the command of \<open>app\<close> to \<open>system\<close>.
\<close>

lemma crowded_eval:
  "case crowded_ord of
     None \<Rightarrow> False
   | Some ord \<Rightarrow>
       target_count ord = 19 \<and>
       t_name (targets ord ! 17) = [97, 105, 112] \<and> deps (targets ord ! 17) = [[97, 112, 112]] \<and>
       t_name (targets ord ! 18) = [97, 112, 112] \<and> deps (targets ord ! 18) = [[97, 105, 112]] \<and>
       \<not> keep_going (config ord) \<and>
       target_lookup ord [97, 105, 112] = None \<and>
       target_lookup ord [97, 112, 112] = Some 19 \<and>
       fst (ordinal_run quiet_env ord empty_world (Some [97, 112, 112])) = ORDINAL_OK \<and>
       trace (snd (snd (ordinal_run quiet_env ord empty_world (Some [97, 112, 112]))))
         = [[101, 99, 104, 111, 32, 97, 112, 112]]"
  unfolding crowded_ord_def crowded_ini_def
  by (simp add: ordinal_eval slot64_cluster slot64_aip slot64_alt_aip slot64_app
        dagger_eval Let_def ordinal_run_eval build_target.simps)

lemma ordinal_run_cycle_lookup_miss:
  "crowded_ord \<noteq> None \<and>
   target_count (the crowded_ord) = 19 \<and>
   t_name (targets (the crowded_ord) ! 17) = [97, 105, 112] \<and>
   deps (targets (the crowded_ord) ! 17) = [[97, 112, 112]] \<and>
   t_name (targets (the crowded_ord) ! 18) = [97, 112, 112] \<and>
   deps (targets (the crowded_ord) ! 18) = [[97, 105, 112]] \<and>
   \<not> keep_going (config (the crowded_ord)) \<and>
   target_lookup (the crowded_ord) [97, 105, 112] = None \<and>
   fst (ordinal_run quiet_env (the crowded_ord) empty_world (Some [97, 112, 112])) = ORDINAL_OK \<and>
   trace (snd (snd (ordinal_run quiet_env (the crowded_ord) empty_world (Some [97, 112, 112]))))
     = [[101, 99, 104, 111, 32, 97, 112, 112]]"
proof (cases crowded_ord)
  case None
  with crowded_eval show ?thesis by simp
next
  case (Some ord)
  from crowded_eval [unfolded Some] show ?thesis unfolding Some by simp
qed

text \<open>
  C6, amended: if \<open>A\<close> and \<open>B\<close> are two targets of the context, each found by the lookup of
  its name in the target map, the only dependency of \<open>A\<close> is \<open>B\<close> and the only dependency
  of \<open>B\<close> is \<open>A\<close>, the two names containing none of \<open>$\<close>, \<open>*\<close>, \<open>?\<close>, and \<open>keep_going\<close> is
  not set (and \<open>chdir\<close> to the configured directory, if any, succeeds), then \<open>ordinal_run\<close>
  of \<open>A\<close> returns \<open>ORDINAL_ERROR_CIRCULAR\<close> and leaves the world as it was: no command is
  handed to \<open>system\<close>. Nothing is said of a context in which the lookup misses a target
  that was added (\<open>target_lookup\<close> is \<open>dagger_get\<close>, which misses a key of a cuckoo slot).
\<close>

theorem ordinal_run_circular:
  assumes "target_lookup ord a = Some (Suc ia)" and "target_lookup ord b = Some (Suc ib)"
    and "ia < target_count ord" and "ib < target_count ord" and "ia \<noteq> ib"
    and "deps (targets ord ! ia) = [b]" and "deps (targets ord ! ib) = [a]"
    and "36 \<notin> set a" "42 \<notin> set a" "63 \<notin> set a"
    and "36 \<notin> set b" "42 \<notin> set b" "63 \<notin> set b"
    and "\<not> keep_going (config ord)"
    and "case directory (config ord) of None \<Rightarrow> True | Some d \<Rightarrow> env_chdir env d"
  shows "fst (ordinal_run env ord w (Some a)) = ORDINAL_ERROR_CIRCULAR \<and>
         snd (snd (ordinal_run env ord w (Some a))) = w"
proof -
  let ?o1 = "ord\<lparr>result := OrdinalResult_zero,
                 targets := map (\<lambda>t. t\<lparr>visited := False, in_stack := False,
                                        t_status := ORDINAL_STATUS_PENDING\<rparr>) (targets ord)\<rparr>"
  have lk: "target_lookup ?o1 a = Some (Suc ia)" "target_lookup ?o1 b = Some (Suc ib)"
    using assms(1,2) by (simp_all add: target_lookup_def)
  have cnt: "ia < target_count ?o1" "ib < target_count ?o1"
    using assms(3,4) by (simp_all add: target_count_def)
  have st: "deps (targets ?o1 ! ia) = [b]" "deps (targets ?o1 ! ib) = [a]"
    "\<not> in_stack (targets ?o1 ! ia)" "\<not> visited (targets ?o1 ! ia)"
    "\<not> in_stack (targets ?o1 ! ib)" "\<not> visited (targets ?o1 ! ib)"
    using assms(3,4,6,7) by (simp_all add: target_count_def)
  have kg: "\<not> keep_going (config ?o1)" using assms(14) by simp
  have bt: "fst (build_target env ?o1 w a 0) = ORDINAL_ERROR_CIRCULAR \<and>
            snd (snd (build_target env ?o1 w a 0)) = w"
    by (rule build_target_cycle_outer [OF lk cnt assms(5) st(1,2) assms(8-13) kg st(3-6)])
  show ?thesis
    using assms(1,15) bt
    by (auto simp: ordinal_run_def Let_def split: option.splits prod.splits)
qed

theorem ordinal_run_circular_witness:
  "target_lookup (the cycle_ord) [65] = Some (Suc 0) \<and>
   target_lookup (the cycle_ord) [66] = Some (Suc 1) \<and>
   target_count (the cycle_ord) = 2 \<and>
   deps (targets (the cycle_ord) ! 0) = [[66]] \<and>
   deps (targets (the cycle_ord) ! 1) = [[65]] \<and>
   \<not> keep_going (config (the cycle_ord)) \<and>
   directory (config (the cycle_ord)) = None \<and>
   fst (ordinal_run quiet_env (the cycle_ord) empty_world (Some [65])) = ORDINAL_ERROR_CIRCULAR \<and>
   snd (snd (ordinal_run quiet_env (the cycle_ord) empty_world (Some [65]))) = empty_world"
proof -
  have la: "target_lookup (the cycle_ord) [65] = Some (Suc 0)"
    unfolding cycle_ord_def cycle_ini_def
    by (simp add: ordinal_eval dagger_eval Let_def target_lookup_def)
  have lb: "target_lookup (the cycle_ord) [66] = Some (Suc 1)"
    unfolding cycle_ord_def cycle_ini_def
    by (simp add: ordinal_eval dagger_eval Let_def target_lookup_def)
  have st: "target_count (the cycle_ord) = 2" "deps (targets (the cycle_ord) ! 0) = [[66]]"
    "deps (targets (the cycle_ord) ! 1) = [[65]]" "\<not> keep_going (config (the cycle_ord))"
    "directory (config (the cycle_ord)) = None"
    unfolding cycle_ord_def cycle_ini_def
    by (simp_all add: ordinal_eval dagger_eval Let_def)
  show ?thesis
    using la lb st
      ordinal_run_circular [where ord = "the cycle_ord" and a = "[65]" and ia = 0
        and b = "[66]" and ib = 1 and env = quiet_env and w = empty_world]
    by simp
qed

subsection \<open>ZORYA-INI: hashes of the keys used below\<close>

text \<open>
  In the table of 64 slots of a context, the primary hash of \<open>app.afy\<close> selects slot 2, as
  those of the seventeen keys \<open>asx\<close> to \<open>ggu\<close> do, and its alternate hash selects slot 34;
  \<open>afy\<close> selects slot 38, \<open>app.dir\<close> slot 47 and \<open>k\<close> slot 35.
\<close>

lemma nxh64_afy: "nxh64_bytes [97, 102, 121] NXH_SEED_DEFAULT = 15266239430693487654"
  unfolding nxh64_bytes_def by (simp add: nxh_rotl64_def nxh_consts nxh_avalanche_def)

lemma slot64_afy: "unat (nxh64_bytes [97, 102, 121] NXH_SEED_DEFAULT AND 63) = 38"
  by (simp add: nxh64_afy)

lemma read32_app_afy: "nxh_read32 [97, 112, 112, 46, 97, 102, 121] = 779120737"
  by (simp add: nxh_read32_def)

lemma nxh64_app_afy: "nxh64_bytes [97, 112, 112, 46, 97, 102, 121] NXH_SEED_DEFAULT = 12007343316025092738"
  unfolding nxh64_bytes_def by (simp add: read32_app_afy nxh_rotl64_def nxh_consts nxh_avalanche_def)

lemma slot64_app_afy: "unat (nxh64_bytes [97, 112, 112, 46, 97, 102, 121] NXH_SEED_DEFAULT AND 63) = 2"
  by (simp add: nxh64_app_afy)

lemma nxh64_alt_app_afy: "nxh64_alt_bytes [97, 112, 112, 46, 97, 102, 121] NXH_SEED_ALT = 13227087793211967266"
  unfolding nxh64_alt_bytes_def
  by (simp add: read32_app_afy nxh_rotl64_def nxh_consts nxh_avalanche_alt_def)

lemma slot64_alt_app_afy: "unat (nxh64_alt_bytes [97, 112, 112, 46, 97, 102, 121] NXH_SEED_ALT AND 63) = 34"
  by (simp add: nxh64_alt_app_afy)

lemma read32_app_dir: "nxh_read32 [97, 112, 112, 46, 100, 105, 114] = 779120737"
  by (simp add: nxh_read32_def)

lemma nxh64_app_dir: "nxh64_bytes [97, 112, 112, 46, 100, 105, 114] NXH_SEED_DEFAULT = 16985903270432637167"
  unfolding nxh64_bytes_def by (simp add: read32_app_dir nxh_rotl64_def nxh_consts nxh_avalanche_def)

lemma slot64_app_dir: "unat (nxh64_bytes [97, 112, 112, 46, 100, 105, 114] NXH_SEED_DEFAULT AND 63) = 47"
  by (simp add: nxh64_app_dir)

lemma nxh64_k: "nxh64_bytes [107] NXH_SEED_DEFAULT = 14110649694607317859"
  unfolding nxh64_bytes_def by (simp add: nxh_rotl64_def nxh_consts nxh_avalanche_def)

lemma slot64_k: "unat (nxh64_bytes [107] NXH_SEED_DEFAULT AND 63) = 35"
  by (simp add: nxh64_k)

lemmas ini_eval =
  zorya_ini_new_def INI_INITIAL_CAPACITY_def dagger_create_64 add_entry_def make_full_key_def
  zorya_ini_get_def weave_cstr_def S_PROJECT_def S_DEFAULT_def S_ENV_def S_DOLLAR_BRACE_def
  S_COLON_DASH_def S_ENV_COLON_def INTERP_MAX_DEPTH_def INTERP_MAX_OUTPUT_def
  slot64_k

lemmas slot64_simps =
  slot64_cluster slot64_afy slot64_app_afy slot64_alt_app_afy slot64_app_dir

text \<open>The slot indices that \<open>dagger_foreach\<close> visits in a table of 64 slots.\<close>

lemma upt_64_chunks:
  "[0..<64] = [0, 1, 2, 3, 4, 5, 6, 7] @ [8, 9, 10, 11, 12, 13, 14, 15] @
     [16, 17, 18, 19, 20, 21, 22, 23] @ [24, 25, 26, 27, 28, 29, 30, 31] @
     [32, 33, 34, 35, 36, 37, 38, 39] @ [40, 41, 42, 43, 44, 45, 46, 47] @
     [48, 49, 50, 51, 52, 53, 54, 55] @ [56, 57, 58, 59, 60, 61, 62, 63]"
  by (simp add: upt_conv_Cons)


subsection \<open>ZORYA-INI: the parser, one line at a time\<close>

lemma shadowed_buf_lines: "shadowed_buf = buffer_of_lines shadowed_lines"
  by (simp add: shadowed_buf_def buffer_of_lines_def shadowed_lines_def)

lemma read_line_line:
  assumes "10 \<notin> set l" and "length l < INI_MAX_LINE_LENGTH - 1"
  shows "read_line (l @ 10 # rest) = (l, rest)"
proof -
  have tk: "take (INI_MAX_LINE_LENGTH - 1) (l @ 10 # rest) = l @ take (INI_MAX_LINE_LENGTH - 1 - length l) (10 # rest)"
    using assms(2) by simp
  obtain n where n: "INI_MAX_LINE_LENGTH - 1 - length l = Suc n"
    using assms(2) by (cases "INI_MAX_LINE_LENGTH - 1 - length l") auto
  have tw: "takeWhile (\<lambda>c. c \<noteq> 10) (take (INI_MAX_LINE_LENGTH - 1) (l @ 10 # rest)) = l"
    unfolding tk n using assms(1) by (auto simp: takeWhile_tail)
  show ?thesis
    unfolding read_line_def Let_def tw by simp
qed

lemma parse_loop_line:
  assumes "10 \<notin> set l" and "length l < INI_MAX_LINE_LENGTH - 1"
  shows "parse_loop fsys genv depth ini vars (buffer_of_lines (l # ls)) =
     (case parse_step
             (if INI_MAX_INCLUDE_DEPTH \<le> depth then None
              else Some (\<lambda>ini1 inc_data. parse_buffer fsys genv (depth + 1) ini1 inc_data))
             fsys ini (vars\<lparr>line_num := line_num vars + 1\<rparr>) (strip_cr l) of
        None \<Rightarrow> None
      | Some (Some err, ini', vars') \<Rightarrow> Some (Some err, ini', vars')
      | Some (None, ini', vars') \<Rightarrow> parse_loop fsys genv depth ini' vars' (buffer_of_lines ls))"
proof -
  have b: "buffer_of_lines (l # ls) = l @ 10 # buffer_of_lines ls"
    by (simp add: buffer_of_lines_def)
  have r: "read_line (l @ 10 # buffer_of_lines ls) = (l, buffer_of_lines ls)"
    by (rule read_line_line [OF assms])
  show ?thesis
    unfolding b
    by (subst parse_loop.simps) (simp add: r split: option.splits prod.splits)
qed

lemma parse_loop_done: "parse_loop fsys genv depth ini vars (buffer_of_lines []) = Some (None, ini, vars)"
  by (subst parse_loop.simps) (simp add: buffer_of_lines_def)

lemmas lines_eval =
  parse_loop_line parse_loop_done upt_64_chunks
  zorya_ini_load_buffer_def parse_buffer.simps parse_step_def
  strip_cr_def classify_line_def skip_ws_def trim_trailing_def ParseVars_init_def
  INI_MAX_LINE_LENGTH_def INI_MAX_KEY_LENGTH_def INI_MAX_SECTION_LENGTH_def
  INI_MAX_INCLUDE_DEPTH_def resolve_all_interpolations_def resolve_slot_def
  intern_cstr_def add_section_def

subsection \<open>ZORYA-INI: the strings that a load interns\<close>

text \<open>
  In the pool of 256 buckets of the Tablet none of the strings \<open>1\<close>, \<open>top\<close>, \<open>sec\<close>, \<open>app\<close>,
  \<open>dir\<close>, \<open>${afy}\<close> and \<open>afy\<close> meets the cluster of the seventeen keys in slots 2 to 18.
\<close>

lemma nxh64_one: "nxh64_bytes [49] NXH_SEED_DEFAULT = 13237225503670494420"
  unfolding nxh64_bytes_def by (simp add: nxh_rotl64_def nxh_consts nxh_avalanche_def)

lemma nxh64_top: "nxh64_bytes [116, 111, 112] NXH_SEED_DEFAULT = 5368771501347470336"
  unfolding nxh64_bytes_def by (simp add: nxh_rotl64_def nxh_consts nxh_avalanche_def)

lemma nxh64_sec: "nxh64_bytes [115, 101, 99] NXH_SEED_DEFAULT = 10835487927419480858"
  unfolding nxh64_bytes_def by (simp add: nxh_rotl64_def nxh_consts nxh_avalanche_def)

lemma nxh64_dir: "nxh64_bytes [100, 105, 114] NXH_SEED_DEFAULT = 6276638230441200176"
  unfolding nxh64_bytes_def by (simp add: nxh_rotl64_def nxh_consts nxh_avalanche_def)

lemma read32_ref_afy: "nxh_read32 [36, 123, 97, 102, 121, 125] = 1717664548"
  by (simp add: nxh_read32_def)

lemma nxh64_ref_afy: "nxh64_bytes [36, 123, 97, 102, 121, 125] NXH_SEED_DEFAULT = 8540806726937866313"
  unfolding nxh64_bytes_def by (simp add: read32_ref_afy nxh_rotl64_def nxh_consts nxh_avalanche_def)

lemma slot_one: "unat (nxh64_bytes [49] NXH_SEED_DEFAULT AND 255) = 212"
  by (simp add: nxh64_one)

lemma slot_top: "unat (nxh64_bytes [116, 111, 112] NXH_SEED_DEFAULT AND 255) = 0"
  by (simp add: nxh64_top)

lemma slot_sec: "unat (nxh64_bytes [115, 101, 99] NXH_SEED_DEFAULT AND 255) = 26"
  by (simp add: nxh64_sec)

lemma slot_app: "unat (nxh64_bytes [97, 112, 112] NXH_SEED_DEFAULT AND 255) = 176"
  by (simp add: nxh64_app)

lemma slot_dir: "unat (nxh64_bytes [100, 105, 114] NXH_SEED_DEFAULT AND 255) = 48"
  by (simp add: nxh64_dir)

lemma slot_ref_afy: "unat (nxh64_bytes [36, 123, 97, 102, 121, 125] NXH_SEED_DEFAULT AND 255) = 73"
  by (simp add: nxh64_ref_afy)

lemma slot_afy: "unat (nxh64_bytes [97, 102, 121] NXH_SEED_DEFAULT AND 255) = 38"
  by (simp add: nxh64_afy)

lemmas slot_strings = slot_one slot_top slot_sec slot_app slot_dir slot_ref_afy slot_afy

text \<open>
  The strings of the load of \<open>shadowed_buf\<close>, interned in order in a fresh Tablet:
  \<open>tablet_intern\<close> returns NULL for the empty strings and for no other, and the C string of
  each pointer is the string interned, as \<open>intern_cstr\<close> has it.
\<close>

lemma shadowed_strings_interned:
  "case tablet_intern_seq (\<lambda>_. None) (the (tablet_create True)) [] shadowed_strings of
     None \<Rightarrow> False
   | Some (ps, h, T) \<Rightarrow>
       map (\<lambda>p. p = None) ps = map (\<lambda>s. s = []) shadowed_strings \<and>
       map (weave_cstr_store h) ps = shadowed_strings"
  unfolding shadowed_strings_def
  by (simp add: tablet_eval Let_def dagger_create_256 dagger_eval slot_simps slot_strings weave_cstr_store_def)

subsection \<open>ZORYA-INI: the lookup order of interpolation\<close>

text \<open>
  The load of \<open>shadowed_buf\<close>, evaluated: it returns \<open>ZORYA_INI_OK\<close> with twenty keys. The
  seventeen keys \<open>asx\<close> to \<open>ggu\<close> fill slots 2 to 18 of the table, so the entry of
  \<open>app.afy\<close> (raw value \<open>sec\<close>) is placed through its alternate hash in slot 34. The
  lookup of \<open>app.afy\<close> misses it, and the value of \<open>app.dir\<close>, whose raw value is
  \<open>${afy}\<close>, is resolved to \<open>top\<close>, the value of the top-level \<open>afy\<close>.
\<close>

lemma shadowed_eval:
  "case zorya_ini_load_buffer no_files no_env zorya_ini_new shadowed_buf of
     None \<Rightarrow> False
   | Some (e, ini) \<Rightarrow>
       e = ZORYA_INI_OK \<and> key_count ini = 20 \<and>
       key (entries (ini_entries ini) ! 34) = [97, 112, 112, 46, 97, 102, 121] \<and>
       occupied (entries (ini_entries ini) ! 34) \<and>
       raw_value (the (val (entries (ini_entries ini) ! 34))) = Some [115, 101, 99] \<and>
       zorya_ini_get ini [97, 112, 112, 46, 100, 105, 114] = Some [116, 111, 112] \<and>
       zorya_ini_get ini [97, 112, 112, 46, 97, 102, 121] = None \<and>
       zorya_ini_get ini [97, 102, 121] = Some [116, 111, 112]"
  unfolding shadowed_buf_lines shadowed_lines_def
  by (simp add: lines_eval ini_eval dagger_eval slot64_simps Let_def resolve_string.simps resolve_loop.simps find_variable.simps find_sub.simps grow_out.simps)

text \<open>
  C4 (the code departs from the claim): after the load of \<open>shadowed_buf\<close>, which returns
  \<open>ZORYA_INI_OK\<close>, the context holds twenty keys, among them \<open>app.afy\<close> with the value
  \<open>sec\<close> (its entry is in slot 34 of the table) and the top-level \<open>afy\<close> with the value
  \<open>top\<close>. The stored value \<open>${afy}\<close> of \<open>dir\<close> in section \<open>app\<close> is resolved to \<open>top\<close>:
  the full key \<open>app.afy\<close> of the current section, which exists and which by the claim
  is tried first and used, is not found by \<open>zorya_ini_get\<close> (NULL for \<open>app.afy\<close>), whose \<open>dagger_get\<close>
  misses a key placed in a cuckoo slot.
\<close>

theorem interpolation_misses_section_key:
  "zorya_ini_load_buffer no_files no_env zorya_ini_new shadowed_buf \<noteq> None \<and>
   fst (the (zorya_ini_load_buffer no_files no_env zorya_ini_new shadowed_buf)) = ZORYA_INI_OK \<and>
   key_count shadowed_ini = 20 \<and>
   occupied (entries (ini_entries shadowed_ini) ! 34) \<and>
   key (entries (ini_entries shadowed_ini) ! 34) = [97, 112, 112, 46, 97, 102, 121] \<and>
   raw_value (the (val (entries (ini_entries shadowed_ini) ! 34))) = Some [115, 101, 99] \<and>
   zorya_ini_get shadowed_ini [97, 112, 112, 46, 97, 102, 121] = None \<and>
   zorya_ini_get shadowed_ini [97, 102, 121] = Some [116, 111, 112] \<and>
   zorya_ini_get shadowed_ini [97, 112, 112, 46, 100, 105, 114] = Some [116, 111, 112]"
  using shadowed_eval
  by (cases "zorya_ini_load_buffer no_files no_env zorya_ini_new shadowed_buf")
     (auto simp: shadowed_ini_def)

subsection \<open>ZORYA-INI: lines that are no entry\<close>


lemma add_section_last_error [simp]: "last_error (add_section ini sc) = last_error ini"
  by (simp add: add_section_def)









end
